theory Spec2Isabelle
  imports Main "HOL-Library.Word" "HOL-Library.Char_ord" "HOL-Library.List_Lexorder"
begin

unbundle bit_operations_syntax

section \<open>Errors raised by the JavaScript code\<close>

text \<open>
  Every \<open>throw\<close> of the sources, and every exception the runtime raises on the paths
  that are modelled, is a value of this type; a function that can throw returns
  \<open>error + 'a\<close> with \<open>Inl\<close> for the exception.
\<close>

datatype error =
    TypeError       \<comment> \<open>property access on \<open>undefined\<close> or \<open>null\<close>\<close>
  | RangeError      \<comment> \<open>invalid array length, BigInt division by zero\<close>
  | SyntaxError     \<comment> \<open>\<open>BigInt\<close> of a string that is not a number\<close>
  | InvalidSession  \<comment> \<open>\<open>new Error('Invalid session')\<close>\<close>
  | InvalidRound    \<comment> \<open>\<open>new Error('Invalid round')\<close>\<close>
  | NoInverse       \<comment> \<open>\<open>new Error('Modular inverse does not exist')\<close>\<close>
  | KeyNotDerived   \<comment> \<open>\<open>new Error('Session key not yet derived. ...')\<close>\<close>

section \<open>Graph model (zkp/graphIsomorphism.js)\<close>

text \<open>
  A \<open>Graph\<close> object has the two fields \<open>numNodes\<close> and \<open>adjacencyMatrix\<close>; the same
  shape is what \<open>toJSON\<close> sends over the wire. Matrix cells and node numbers are
  JavaScript integers, modelled as \<open>int\<close>.
\<close>

record graph =
  numNodes :: int
  adjacencyMatrix :: "int list list"

text \<open>
  \<open>new Graph(numNodes)\<close>: \<open>Array(numNodes)\<close> throws a RangeError for a negative length
  or one above \<open>2^32 - 1\<close>; otherwise the matrix is \<open>numNodes \<times> numNodes\<close> zeros.
\<close>

definition new_Graph :: "int \<Rightarrow> error + graph" where
  "new_Graph n =
     (if n < 0 \<or> 2 ^ 32 \<le> n then Inl RangeError
      else Inr \<lparr>numNodes = n, adjacencyMatrix = replicate (nat n) (replicate (nat n) 0)\<rparr>)"

text \<open>\<open>Graph.fromJSON\<close>: construct, then overwrite the matrix with the one received.\<close>

definition fromJSON :: "graph \<Rightarrow> error + graph" where
  "fromJSON json =
     (case new_Graph (numNodes json) of
        Inl e \<Rightarrow> Inl e
      | Inr g \<Rightarrow> Inr (g\<lparr>adjacencyMatrix := adjacencyMatrix json\<rparr>))"

text \<open>
  \<open>getNeighbors(i)\<close>: the loop reads \<open>adjacencyMatrix[i][j]\<close> for \<open>j < numNodes\<close>.
  When row \<open>i\<close> does not exist the first read is a property access on \<open>undefined\<close>
  (a TypeError); a column beyond the row's end reads \<open>undefined\<close>, which is not
  \<open>=== 1\<close>. With \<open>numNodes \<le> 0\<close> the loop body never runs.
\<close>

definition getNeighbors :: "graph \<Rightarrow> int \<Rightarrow> error + int list" where
  "getNeighbors g i =
     (if numNodes g \<le> 0 then Inr []
      else if i < 0 \<or> int (length (adjacencyMatrix g)) \<le> i then Inl TypeError
      else let row = adjacencyMatrix g ! nat i
           in Inr (map int (filter (\<lambda>j. j < length row \<and> row ! j = 1) [0..<nat (numNodes g)])))"

text \<open>
  \<open>addEdge(i, j)\<close> writes \<open>adjacencyMatrix[i][j] = 1\<close>, then
  \<open>adjacencyMatrix[j][i] = 1\<close>. A missing row makes the assignment a property write
  on \<open>undefined\<close> (a TypeError). On the square matrix the constructor builds, a column
  index is in range exactly when it is a row index, so both indices are checked against
  the number of rows; the model is used on such matrices only.
\<close>

definition addEdge :: "graph \<Rightarrow> nat \<Rightarrow> nat \<Rightarrow> error + graph" where
  "addEdge g i j =
     (let m = adjacencyMatrix g in
      if i < length m \<and> j < length m then
        let m1 = m[i := (m ! i)[j := 1]];
            m2 = m1[j := (m1 ! j)[i := 1]]
        in Inr (g\<lparr>adjacencyMatrix := m2\<rparr>)
      else Inl TypeError)"

section \<open>JavaScript array helpers used by the verifier\<close>

text \<open>\<open>Array.prototype.indexOf\<close>: the first position of the value, or \<open>-1\<close>.\<close>

fun indexOf_from :: "int \<Rightarrow> int list \<Rightarrow> int \<Rightarrow> int" where
  "indexOf_from k [] v = -1"
| "indexOf_from k (x # xs) v = (if x = v then k else indexOf_from (k + 1) xs v)"

definition indexOf :: "int list \<Rightarrow> int \<Rightarrow> int" where
  "indexOf xs v = indexOf_from 0 xs v"

text \<open>\<open>permutation[n]\<close>: \<open>None\<close> is \<open>undefined\<close> (index out of range).\<close>

definition js_index :: "int list \<Rightarrow> int \<Rightarrow> int option" where
  "js_index xs n = (if 0 \<le> n \<and> n < int (length xs) then Some (xs ! nat n) else None)"

text \<open>\<open>Number.prototype.toString()\<close> on an integer: decimal digits, \<open>-\<close> for negatives.\<close>

fun decimal_nat :: "nat \<Rightarrow> string" where
  "decimal_nat n =
     (if n < 10 then [char_of (48 + n)]
      else decimal_nat (n div 10) @ [char_of (48 + n mod 10)])"

declare decimal_nat.simps [simp del]

definition decimal :: "int \<Rightarrow> string" where
  "decimal i = (if i < 0 then CHR ''-'' # decimal_nat (nat (- i)) else decimal_nat (nat i))"

text \<open>
  \<open>Array.prototype.sort()\<close> without a comparator: \<open>undefined\<close> elements go to the end,
  the others are ordered by their string conversions, compared by code unit; the sort
  is stable.
\<close>

definition js_sort :: "int option list \<Rightarrow> int option list" where
  "js_sort xs =
     map Some (sort_key decimal (map the (filter (\<lambda>x. x \<noteq> None) xs)))
     @ filter (\<lambda>x. x = None) xs"

text \<open>\<open>JSON.stringify\<close> of an array of numbers; \<open>undefined\<close> is written \<open>null\<close>.\<close>

fun join_comma :: "string list \<Rightarrow> string" where
  "join_comma [] = []"
| "join_comma [s] = s"
| "join_comma (s # t # ss) = s @ '','' @ join_comma (t # ss)"

definition JSON_stringify :: "int option list \<Rightarrow> string" where
  "JSON_stringify xs =
     ''['' @ join_comma (map (\<lambda>x. case x of None \<Rightarrow> ''null'' | Some i \<Rightarrow> decimal i) xs) @ '']''"

section \<open>SimpleZKPVerifier\<close>

record round =
  permutedGraph :: graph
  permutedHash :: string
  challengeNode :: int
  verified :: bool

record session =
  registeredHash :: string
  rounds :: "round list"
  currentRound :: int
  maxRounds :: int

text \<open>The verifier's \<open>sessions\<close> map, keyed by session id.\<close>

type_synonym verifier = "string \<rightharpoonup> session"

record start_result =
  sr_sessionId :: string
  sr_maxRounds :: int

definition startSession :: "verifier \<Rightarrow> string \<Rightarrow> string \<Rightarrow> start_result \<times> verifier" where
  "startSession v sessionId registeredGraphHash =
     (\<lparr>sr_sessionId = sessionId, sr_maxRounds = 5\<rparr>,
      v(sessionId \<mapsto> \<lparr>registeredHash = registeredGraphHash, rounds = [],
                       currentRound = 0, maxRounds = 5\<rparr>))"

record challenge_result =
  cr_challengeNode :: int
  cr_round :: int

text \<open>
  \<open>generateChallenge\<close>. The two library calls are parameters: \<open>getHash\<close> is SHA-256 of
  the matrix's JSON text, and \<open>drawn\<close> is the value \<open>crypto.randomInt(0, numNodes)\<close>
  returns, which throws a RangeError unless \<open>0 < numNodes\<close>.
\<close>

definition generateChallenge ::
  "(int list list \<Rightarrow> string) \<Rightarrow> int \<Rightarrow> verifier \<Rightarrow> string \<Rightarrow> graph
     \<Rightarrow> error + (challenge_result \<times> verifier)" where
  "generateChallenge getHash drawn v sessionId pg =
     (case v sessionId of
        None \<Rightarrow> Inl InvalidSession
      | Some s \<Rightarrow>
          (case fromJSON pg of
             Inl e \<Rightarrow> Inl e
           | Inr g \<Rightarrow>
               if numNodes g \<le> 0 then Inl RangeError
               else
                 let r = \<lparr>permutedGraph = pg, permutedHash = getHash (adjacencyMatrix g),
                          challengeNode = drawn, verified = False\<rparr>
                 in Inr (\<lparr>cr_challengeNode = drawn, cr_round = currentRound s\<rparr>,
                         v(sessionId \<mapsto> s\<lparr>rounds := rounds s @ [r]\<rparr>))))"

text \<open>
  The check of one response: the original graph's neighbours of
  \<open>permutation.indexOf(challengeNode)\<close>, mapped through the permutation and sorted,
  against the sorted neighbours of \<open>challengeNode\<close> in the stored permuted graph,
  compared as JSON text.
\<close>

definition check_response :: "graph \<Rightarrow> graph \<Rightarrow> int list \<Rightarrow> int \<Rightarrow> error + bool" where
  "check_response originalGraph storedPermuted permutation cn =
     (case fromJSON originalGraph of
        Inl e \<Rightarrow> Inl e
      | Inr origGraph \<Rightarrow>
     (case fromJSON storedPermuted of
        Inl e \<Rightarrow> Inl e
      | Inr permGraph \<Rightarrow>
     (let originalNode = indexOf permutation cn in
      case getNeighbors origGraph originalNode of
        Inl e \<Rightarrow> Inl e
      | Inr originalNeighbors \<Rightarrow>
     (case getNeighbors permGraph cn of
        Inl e \<Rightarrow> Inl e
      | Inr permutedNeighbors \<Rightarrow>
          let mappedNeighbors = js_sort (map (js_index permutation) originalNeighbors);
              sortedPermutedNeighbors = js_sort (map Some permutedNeighbors)
          in Inr (JSON_stringify mappedNeighbors = JSON_stringify sortedPermutedNeighbors)))))"

record verify_result =
  vr_valid :: bool
  vr_round :: int
  vr_remaining :: int

text \<open>
  \<open>session.rounds[session.currentRound]\<close>: \<open>undefined\<close> when the index is not a
  position of the array, and then \<open>'Invalid round'\<close> is thrown.
\<close>

definition verifyResponse ::
  "verifier \<Rightarrow> string \<Rightarrow> graph \<Rightarrow> int list \<Rightarrow> int \<Rightarrow> error + (verify_result \<times> verifier)" where
  "verifyResponse v sessionId originalGraph permutation cn =
     (case v sessionId of
        None \<Rightarrow> Inl InvalidSession
      | Some s \<Rightarrow>
          if currentRound s < 0 \<or> int (length (rounds s)) \<le> currentRound s then Inl InvalidRound
          else
            let k = nat (currentRound s); r = rounds s ! k in
            (case check_response originalGraph (permutedGraph r) permutation cn of
               Inl e \<Rightarrow> Inl e
             | Inr valid \<Rightarrow>
                 let s' = s\<lparr>rounds := (rounds s)[k := r\<lparr>verified := valid\<rparr>],
                            currentRound := currentRound s + 1\<rparr>
                 in Inr (\<lparr>vr_valid = valid, vr_round = currentRound s' - 1,
                          vr_remaining = maxRounds s' - currentRound s'\<rparr>,
                         v(sessionId \<mapsto> s'))))"

record complete_result =
  complete :: bool
  success :: bool
  cm_rounds :: "int option"

text \<open>\<open>isComplete\<close>; an unknown session gives \<open>{complete: false, success: false}\<close>.\<close>

definition isComplete :: "verifier \<Rightarrow> string \<Rightarrow> complete_result" where
  "isComplete v sessionId =
     (case v sessionId of
        None \<Rightarrow> \<lparr>complete = False, success = False, cm_rounds = None\<rparr>
      | Some s \<Rightarrow>
          let c = (maxRounds s \<le> currentRound s);
              ok = (c \<and> list_all verified (rounds s))
          in \<lparr>complete = c, success = ok, cm_rounds = Some (currentRound s)\<rparr>)"

text \<open>\<open>endSession\<close>: the result of \<open>isComplete\<close>, and the session is deleted.\<close>

definition endSession :: "verifier \<Rightarrow> string \<Rightarrow> complete_result \<times> verifier" where
  "endSession v sessionId = (isComplete v sessionId, v(sessionId := None))"

text \<open>
  The stores a \<open>SimpleZKPVerifier\<close> can be in: empty when constructed, then changed by
  its methods only (a method that throws leaves no new store).
\<close>

inductive reachable :: "verifier \<Rightarrow> bool" where
  constructed: "reachable Map.empty"
| started: "reachable v \<Longrightarrow> reachable (snd (startSession v sessionId h))"
| challenged:
    "reachable v \<Longrightarrow> generateChallenge getHash drawn v sessionId pg = Inr (c, v')
       \<Longrightarrow> reachable v'"
| responded:
    "reachable v \<Longrightarrow> verifyResponse v sessionId og perm cn = Inr (res, v')
       \<Longrightarrow> reachable v'"
| ended: "reachable v \<Longrightarrow> reachable (snd (endSession v sessionId))"

text \<open>
  The invariant of the stored sessions: every session keeps the round count that \<open>startSession\<close> fixed, and its round
  counter never runs ahead of the recorded rounds.
\<close>

definition session_ok :: "session \<Rightarrow> bool" where
  "session_ok s \<longleftrightarrow>
     maxRounds s = 5 \<and> 0 \<le> currentRound s \<and> currentRound s \<le> int (length (rounds s))"

text \<open>
  A small run for the examples: a graph on three nodes with the one edge \<open>0 - 1\<close>, and
  the store after \<open>startSession\<close> and one \<open>generateChallenge\<close> that drew \<open>drawn\<close>.
\<close>

definition demo_graph :: graph where
  "demo_graph = \<lparr>numNodes = 3, adjacencyMatrix = [[0, 1, 0], [1, 0, 0], [0, 0, 0]]\<rparr>"

definition demo_session :: "int \<Rightarrow> session" where
  "demo_session drawn =
     \<lparr>registeredHash = ''reg'',
      rounds = [\<lparr>permutedGraph = demo_graph, permutedHash = ''h'',
                 challengeNode = drawn, verified = False\<rparr>],
      currentRound = 0, maxRounds = 5\<rparr>"

definition demo_verifier :: "int \<Rightarrow> verifier" where
  "demo_verifier drawn = Map.empty(''sid'' \<mapsto> demo_session drawn)"

text \<open>
  Another session, in its second round: it was registered with another hash, its first
  round (on another graph) is over, and the round now open stores the same permuted graph
  as \<open>demo_session\<close> with another hash and another challenge node.
\<close>

definition demo_session_other :: session where
  "demo_session_other =
     \<lparr>registeredHash = ''other'',
      rounds = [\<lparr>permutedGraph = \<lparr>numNodes = 1, adjacencyMatrix = [[0]]\<rparr>, permutedHash = ''g'',
                 challengeNode = 0, verified = True\<rparr>,
                \<lparr>permutedGraph = demo_graph, permutedHash = ''k'',
                 challengeNode = 2, verified = False\<rparr>],
      currentRound = 1, maxRounds = 5\<rparr>"

text \<open>
  A run of the protocol as the route handlers of routes/auth.js drive it: for each round
  \<open>POST /zkp/commitment\<close> (\<open>generateChallenge\<close>, drawing \<open>cn\<close>) and then
  \<open>POST /zkp/response\<close> (\<open>verifyResponse\<close>, the prover sending \<open>cn\<close> back).
\<close>

fun play ::
  "verifier \<Rightarrow> string \<Rightarrow> (graph \<times> graph \<times> int list \<times> int) list \<Rightarrow> error + verifier" where
  "play v sessionId [] = Inr v"
| "play v sessionId ((pg, og, perm, cn) # rest) =
     (case generateChallenge (\<lambda>m. ''h'') cn v sessionId pg of
        Inl e \<Rightarrow> Inl e
      | Inr (c, v1) \<Rightarrow>
          (case verifyResponse v1 sessionId og perm cn of
             Inl e \<Rightarrow> Inl e
           | Inr (res, v2) \<Rightarrow> play v2 sessionId rest))"

definition good_round :: "graph \<times> graph \<times> int list \<times> int" where
  "good_round = (demo_graph, demo_graph, [0, 1, 2], 1)"

definition bad_round :: "graph \<times> graph \<times> int list \<times> int" where
  "bad_round = (demo_graph, demo_graph, [0, 2, 1], 1)"

definition demo_run :: "(graph \<times> graph \<times> int list \<times> int) list \<Rightarrow> error + verifier" where
  "demo_run rs = play (snd (startSession Map.empty ''sid'' ''reg'')) ''sid'' rs"

text \<open>What the examples read off a stored session.\<close>

definition session_summary :: "session \<Rightarrow> int \<times> int \<times> bool list" where
  "session_summary s = (currentRound s, maxRounds s, map verified (rounds s))"

section \<open>Hexadecimal text\<close>

text \<open>
  \<open>toString(16)\<close> of a non-negative integer (lower-case digits, no leading zeros) and
  \<open>padStart(n, '0')\<close>.
\<close>

definition hex_digit :: "int \<Rightarrow> char" where
  "hex_digit d = ''0123456789abcdef'' ! nat d"

function toString16 :: "int \<Rightarrow> string" where
  "toString16 n =
     (if n < 16 then [hex_digit n]
      else toString16 (n div 16) @ [hex_digit (n mod 16)])"
  by pat_completeness auto
termination
  by (relation "measure nat") auto

declare toString16.simps [simp del]

definition padStart :: "nat \<Rightarrow> char \<Rightarrow> string \<Rightarrow> string" where
  "padStart n c s = replicate (n - length s) c @ s"

text \<open>The value of a hexadecimal digit, either case; \<open>None\<close> for any other character.\<close>

definition hex_value :: "char \<Rightarrow> nat option" where
  "hex_value c =
     (let k = of_char c :: nat in
      if 48 \<le> k \<and> k \<le> 57 then Some (k - 48)
      else if 97 \<le> k \<and> k \<le> 102 then Some (k - 87)
      else if 65 \<le> k \<and> k \<le> 70 then Some (k - 55)
      else None)"

definition is_hex :: "char \<Rightarrow> bool" where
  "is_hex c = (hex_value c \<noteq> None)"

text \<open>The number a string of hexadecimal digits denotes, most significant digit first.\<close>

definition hex_number :: "string \<Rightarrow> int" where
  "hex_number ds = foldl (\<lambda>acc c. 16 * acc + int (the (hex_value c))) 0 ds"

text \<open>White space that the string-to-number conversions skip (the 8-bit part of it).\<close>

definition is_space :: "char \<Rightarrow> bool" where
  "is_space c = (of_char c \<in> {9, 10, 11, 12, 13, 32, 160 :: nat})"

text \<open>
  \<open>parseInt(s, 16)\<close>: leading white space is skipped, then an optional sign and an
  optional \<open>0x\<close>/\<open>0X\<close>; the longest run of hexadecimal digits that follows is the
  number, and \<open>NaN\<close> (here \<open>None\<close>) is the result when that run is empty.
\<close>

definition parseInt16 :: "string \<Rightarrow> int option" where
  "parseInt16 s =
     (let s1 = dropWhile is_space s;
          neg = (take 1 s1 = ''-'');
          s2 = (if take 1 s1 = ''-'' \<or> take 1 s1 = ''+'' then drop 1 s1 else s1);
          s3 = (if take 2 s2 = ''0x'' \<or> take 2 s2 = ''0X'' then drop 2 s2 else s2);
          ds = takeWhile is_hex s3
      in if ds = [] then None
         else Some (if neg then - hex_number ds else hex_number ds))"

section \<open>Deriving the secret graph from a seed\<close>

text \<open>
  A \<open>for\<close> loop whose body can throw: the first exception ends the loop.
\<close>

fun for_each :: "('a \<Rightarrow> 's \<Rightarrow> error + 's) \<Rightarrow> 'a list \<Rightarrow> 's \<Rightarrow> error + 's" where
  "for_each body [] s = Inr s"
| "for_each body (x # xs) s =
     (case body x s of Inl e \<Rightarrow> Inl e | Inr s' \<Rightarrow> for_each body xs s')"

text \<open>
  The body of the inner loop of \<open>generateSecretGraph\<close>; the state is the graph with
  \<open>byteIndex\<close> and \<open>bitIndex\<close>. The server (zkp/graphIsomorphism.js) and the client
  (crypto/zkpProver.js) have the same loops, line for line, over their own copies of the
  \<open>Graph\<close> class, which are the same too; they differ in the array the bits are read
  from. So the loops are modelled once, over \<open>bit_at byteIndex bitIndex\<close>, which says whether
  \<open>(hash[byteIndex] >> bitIndex) & 1\<close> is \<open>1\<close>, and over \<open>len\<close>, the array's length.
  (With \<open>len = 0\<close> JavaScript's \<open>%\<close> gives \<open>NaN\<close> and HOL's \<open>mod\<close> gives
  \<open>byteIndex + 1\<close>; either way every later read is out of range.)
\<close>

definition edge_step ::
  "(nat \<Rightarrow> nat \<Rightarrow> bool) \<Rightarrow> nat \<Rightarrow> nat \<Rightarrow> nat \<Rightarrow> graph \<times> nat \<times> nat
     \<Rightarrow> error + graph \<times> nat \<times> nat" where
  "edge_step bit_at len i j st =
     (case st of (g, byteIndex, bitIndex) \<Rightarrow>
        (case (if bit_at byteIndex bitIndex then addEdge g i j else Inr g) of
           Inl e \<Rightarrow> Inl e
         | Inr g' \<Rightarrow>
             if bitIndex + 1 = 8 then Inr (g', (byteIndex + 1) mod len, 0)
             else Inr (g', byteIndex, bitIndex + 1)))"

definition edge_loops ::
  "(nat \<Rightarrow> nat \<Rightarrow> bool) \<Rightarrow> nat \<Rightarrow> nat \<Rightarrow> graph \<Rightarrow> error + graph \<times> nat \<times> nat" where
  "edge_loops bit_at len n g =
     for_each (\<lambda>i. for_each (edge_step bit_at len i) [i + 1..<n]) [0..<n] (g, 0, 0)"

text \<open>
  The second loop, commented \<open>Ensure graph has minimum connectivity\<close>: it runs for
  \<open>i < numNodes - 1\<close>.
\<close>

definition connect_step :: "nat \<Rightarrow> nat \<Rightarrow> graph \<Rightarrow> error + graph" where
  "connect_step n i g =
     (case getNeighbors g (int i) of
        Inl e \<Rightarrow> Inl e
      | Inr ns \<Rightarrow> if length ns = 0 then addEdge g i ((i + 1) mod n) else Inr g)"

definition generate_from ::
  "(nat \<Rightarrow> nat \<Rightarrow> bool) \<Rightarrow> nat \<Rightarrow> int \<Rightarrow> error + graph" where
  "generate_from bit_at len numNodes' =
     (case new_Graph numNodes' of
        Inl e \<Rightarrow> Inl e
      | Inr g0 \<Rightarrow>
          let n = nat numNodes' in
          (case edge_loops bit_at len n g0 of
             Inl e \<Rightarrow> Inl e
           | Inr (g1, _, _) \<Rightarrow> for_each (connect_step n) [0..<n - 1] g1))"

text \<open>
  Server: \<open>hash\<close> is the 32-byte \<open>Buffer\<close> that
  \<open>crypto.createHash('sha256').update(seed).digest()\<close> returns. SHA-256 is the
  platform's, not this repository's, and is a parameter here. A read beyond the
  buffer's end is \<open>undefined\<close>, whose shift is \<open>0\<close>.
\<close>

definition server_bit :: "8 word list \<Rightarrow> nat \<Rightarrow> nat \<Rightarrow> bool" where
  "server_bit hash byteIndex bitIndex =
     (byteIndex < length hash \<and> drop_bit bitIndex (hash ! byteIndex) AND 1 = 1)"

definition generateSecretGraph_digest :: "8 word list \<Rightarrow> int \<Rightarrow> error + graph" where
  "generateSecretGraph_digest hash numNodes' =
     generate_from (server_bit hash) (length hash) numNodes'"

definition generateSecretGraph :: "(string \<Rightarrow> 8 word list) \<Rightarrow> string \<Rightarrow> int \<Rightarrow> error + graph" where
  "generateSecretGraph sha256_digest seed numNodes' =
     generateSecretGraph_digest (sha256_digest seed) numNodes'"

text \<open>
  Client: \<open>sha256(seed)\<close> of crypto/ecdh.js (browser) is the same digest, written as
  text, two lower-case hexadecimal digits for each byte; \<open>generateSecretGraph\<close> cuts the
  text into pieces of two characters and reads each with \<open>parseInt(..., 16)\<close>. The
  shift of \<open>NaN\<close> or of \<open>undefined\<close> is \<open>0\<close>.
\<close>

definition sha256_hex :: "8 word list \<Rightarrow> string" where
  "sha256_hex digest = concat (map (\<lambda>b. padStart 2 CHR ''0'' (toString16 (uint b))) digest)"

fun substr2 :: "string \<Rightarrow> string list" where
  "substr2 (a # b # rest) = [a, b] # substr2 rest"
| "substr2 [a] = [[a]]"
| "substr2 [] = []"

definition client_bit :: "int option list \<Rightarrow> nat \<Rightarrow> nat \<Rightarrow> bool" where
  "client_bit hashBytes byteIndex bitIndex =
     (byteIndex < length hashBytes \<and>
      (case hashBytes ! byteIndex of
         None \<Rightarrow> False
       | Some b \<Rightarrow> drop_bit bitIndex b AND 1 = 1))"

definition generateSecretGraph_client ::
  "(string \<Rightarrow> 8 word list) \<Rightarrow> string \<Rightarrow> int \<Rightarrow> error + graph" where
  "generateSecretGraph_client sha256_digest seed numNodes' =
     (let hashHex = sha256_hex (sha256_digest seed);
          hashBytes = map parseInt16 (substr2 hashHex)
      in generate_from (client_bit hashBytes) (length hashBytes) numNodes')"

text \<open>The node has no neighbour / at least one neighbour.\<close>

definition degree :: "graph \<Rightarrow> int \<Rightarrow> nat option" where
  "degree g i = (case getNeighbors g i of Inl e \<Rightarrow> None | Inr ns \<Rightarrow> Some (length ns))"

text \<open>The SHA-256 digest of the seed \<open>seed115\<close> (UTF-8), as the platform computes it.\<close>

definition digest_seed115 :: "8 word list" where
  "digest_seed115 =
     [13, 199, 148, 192, 174, 123, 132, 150, 218, 23, 197, 23, 111, 250, 147, 214,
      94, 248, 71, 5, 147, 224, 250, 110, 225, 187, 216, 223, 23, 118, 246, 137]"

section \<open>Finite-field arithmetic (crypto/ecc.js)\<close>

text \<open>
  The numbers are \<open>BigInt\<close>s, modelled as \<open>int\<close>. \<open>a % m\<close> takes the sign of \<open>a\<close> and
  \<open>a / m\<close> truncates towards zero; both throw a RangeError for \<open>m = 0\<close>, which the
  callers below check for, or rule out, before they divide.
\<close>

definition bigint_rem :: "int \<Rightarrow> int \<Rightarrow> int" where
  "bigint_rem a m = sgn a * (\<bar>a\<bar> mod \<bar>m\<bar>)"

definition bigint_div :: "int \<Rightarrow> int \<Rightarrow> int" where
  "bigint_div a m = sgn a * sgn m * (\<bar>a\<bar> div \<bar>m\<bar>)"

text \<open>\<open>mod(a, m)\<close>, for \<open>m \<noteq> 0\<close>.\<close>

definition mod_js :: "int \<Rightarrow> int \<Rightarrow> int" where
  "mod_js a m = (let result = bigint_rem a m in if result \<ge> 0 then result else result + m)"

text \<open>
  \<open>extendedGcd(a, b)\<close> returns \<open>{gcd, x, y}\<close>. The recursion need not end (it does not
  for \<open>a = -3\<close>, \<open>b = -5\<close>, where the arguments grow), so the result is an option and
  \<open>None\<close> stands for a call that never returns.
\<close>

partial_function (option) extendedGcd :: "int \<Rightarrow> int \<Rightarrow> (int \<times> int \<times> int) option" where
  "extendedGcd a b =
     (if a = 0 then Some (b, 0, 1)
      else Option.bind (extendedGcd (mod_js b a) a)
             (\<lambda>(g, x, y). Some (g, y - bigint_div b a * x, x)))"

declare extendedGcd.simps [code]

text \<open>
  The result of a function that can throw and can fail to return: \<open>None\<close> for a call
  that never returns, \<open>Some (Inl e)\<close> for the exception \<open>e\<close>, \<open>Some (Inr v)\<close> for the
  value \<open>v\<close>.
\<close>

type_synonym 'a result = "(error + 'a) option"

definition modInverse :: "int \<Rightarrow> int \<Rightarrow> int result" where
  "modInverse a m =
     (if m = 0 then Some (Inl RangeError)
      else case extendedGcd (mod_js a m) m of
             None \<Rightarrow> None
           | Some (g, x, y) \<Rightarrow>
               if g \<noteq> 1 then Some (Inl NoInverse) else Some (Inr (mod_js x m)))"

text \<open>
  \<open>modPow(base, exp, m)\<close>: the loop runs while \<open>exp > 0\<close> and halves \<open>exp\<close>.
\<close>

function modPow_loop :: "int \<Rightarrow> int \<Rightarrow> int \<Rightarrow> int \<Rightarrow> int" where
  "modPow_loop base exp m result =
     (if exp > 0 then
        modPow_loop (mod_js (base * base) m) (bigint_div exp 2) m
          (if bigint_rem exp 2 = 1 then mod_js (result * base) m else result)
      else result)"
  by pat_completeness auto
termination
  by (relation "measure (\<lambda>(base, exp, m, result). nat exp)")
     (auto simp: bigint_div_def sgn_if)

declare modPow_loop.simps [simp del]

definition modPow :: "int \<Rightarrow> int \<Rightarrow> int \<Rightarrow> error + int" where
  "modPow base exp m =
     (if m = 0 then Inl RangeError else Inr (modPow_loop (mod_js base m) exp m 1))"

section \<open>The elliptic-curve group (crypto/ecc.js)\<close>

text \<open>The secp256k1 parameters, \<open>CURVE\<close>.\<close>

definition CURVE_p :: int where
  "CURVE_p = 0xFFFFFFFFFFFFFFFFFFFFFFFFFFFFFFFFFFFFFFFFFFFFFFFFFFFFFFFEFFFFFC2F"

definition CURVE_a :: int where
  "CURVE_a = 0"

definition CURVE_b :: int where
  "CURVE_b = 7"

definition CURVE_Gx :: int where
  "CURVE_Gx = 0x79BE667EF9DCBBAC55A06295CE870B07029BFCDB2DCE28D959F2815B16F81798"

definition CURVE_Gy :: int where
  "CURVE_Gy = 0x483ADA7726A3C4655DA4FBFC0E1108A8FD17B448A68554199C47D08FFB10D4B8"

definition CURVE_n :: int where
  "CURVE_n = 0xFFFFFFFFFFFFFFFFFFFFFFFFFFFFFFFEBAAEDCE6AF48A03BBFD25E8CD0364141"

text \<open>
  A \<open>Point\<close> object: \<open>Infinity\<close> is \<open>new Point(null, null)\<close>, the identity; the code
  builds no point with one coordinate \<open>null\<close>.
\<close>

datatype point = Infinity | Point int int

definition isInfinity :: "point \<Rightarrow> bool" where
  "isInfinity P = (P = Infinity)"

definition isOnCurve :: "point \<Rightarrow> bool" where
  "isOnCurve P =
     (case P of
        Infinity \<Rightarrow> True
      | Point x y \<Rightarrow>
          mod_js (y * y) CURVE_p = mod_js (x * x * x + CURVE_a * x + CURVE_b) CURVE_p)"

definition negate :: "point \<Rightarrow> point" where
  "negate P = (case P of Infinity \<Rightarrow> Infinity | Point x y \<Rightarrow> Point x (mod_js (- y) CURVE_p))"

text \<open>
  \<open>pointAdd(P, Q)\<close>. The slope divides by way of \<open>modInverse\<close>, whose exception (and
  whose not returning) is the addition's.
\<close>

definition slope_point :: "int \<Rightarrow> int \<Rightarrow> int \<Rightarrow> int \<Rightarrow> int \<Rightarrow> point result" where
  "slope_point numerator denominator x1 y1 x2 =
     (case modInverse denominator CURVE_p of
        None \<Rightarrow> None
      | Some (Inl e) \<Rightarrow> Some (Inl e)
      | Some (Inr d_inv) \<Rightarrow>
          let s = mod_js (numerator * d_inv) CURVE_p;
              x3 = mod_js (s * s - x1 - x2) CURVE_p;
              y3 = mod_js (s * (x1 - x3) - y1) CURVE_p
          in Some (Inr (Point x3 y3)))"

definition pointAdd :: "point \<Rightarrow> point \<Rightarrow> point result" where
  "pointAdd P Q =
     (case P of
        Infinity \<Rightarrow> Some (Inr Q)
      | Point x1 y1 \<Rightarrow>
     (case Q of
        Infinity \<Rightarrow> Some (Inr P)
      | Point x2 y2 \<Rightarrow>
          if x1 = x2 \<and> mod_js (y1 + y2) CURVE_p = 0 then Some (Inr Infinity)
          else if x1 = x2 \<and> y1 = y2 then
            (if y1 = 0 then Some (Inr Infinity)
             else slope_point (mod_js (3 * x1 * x1 + CURVE_a) CURVE_p)
                    (mod_js (2 * y1) CURVE_p) x1 y1 x2)
          else slope_point (mod_js (y2 - y1) CURVE_p) (mod_js (x2 - x1) CURVE_p) x1 y1 x2))"

definition pointDouble :: "point \<Rightarrow> point result" where
  "pointDouble P = pointAdd P P"

text \<open>
  \<open>scalarMultiply(k, P)\<close>: the loop runs while \<open>k > 0\<close>, adds the addend when
  \<open>k & 1n\<close> is not zero, doubles the addend and shifts \<open>k\<close> right.
\<close>

function scalarMultiply_loop :: "int \<Rightarrow> point \<Rightarrow> point \<Rightarrow> point result" where
  "scalarMultiply_loop k result addend =
     (if k > 0 then
        (case (if k AND 1 \<noteq> 0 then pointAdd result addend else Some (Inr result)) of
           None \<Rightarrow> None
         | Some (Inl e) \<Rightarrow> Some (Inl e)
         | Some (Inr result') \<Rightarrow>
             (case pointDouble addend of
                None \<Rightarrow> None
              | Some (Inl e) \<Rightarrow> Some (Inl e)
              | Some (Inr addend') \<Rightarrow> scalarMultiply_loop (drop_bit 1 k) result' addend'))
      else Some (Inr result))"
  by pat_completeness auto
termination
  by (relation "measure (\<lambda>(k, result, addend). nat k)")
     (auto simp: drop_bit_eq_div)

declare scalarMultiply_loop.simps [simp del]

definition scalarMultiply :: "int \<Rightarrow> point \<Rightarrow> point result" where
  "scalarMultiply k P =
     (if k = 0 then Some (Inr Infinity)
      else if k < 0 then scalarMultiply_loop (- k) Infinity (negate P)
      else scalarMultiply_loop k Infinity P)"

definition getGenerator :: point where
  "getGenerator = Point CURVE_Gx CURVE_Gy"

text \<open>
  \<open>generatePrivateKeySync()\<close>: \<open>bytes\<close> are the 32 bytes \<open>crypto.randomBytes(32)\<close>
  returned, read as a big-endian number.
\<close>

definition generatePrivateKeySync :: "8 word list \<Rightarrow> int" where
  "generatePrivateKeySync bytes =
     mod_js (foldl (\<lambda>privateKey byte. push_bit 8 privateKey + uint byte) 0 bytes) (CURVE_n - 1) + 1"

definition generatePublicKey :: "int \<Rightarrow> point result" where
  "generatePublicKey privateKey = scalarMultiply privateKey getGenerator"

text \<open>\<open>BigInt.prototype.toString(16)\<close>, and \<open>privateKeyToHex\<close>.\<close>

definition bigint_toString16 :: "int \<Rightarrow> string" where
  "bigint_toString16 x = (if x < 0 then CHR ''-'' # toString16 (- x) else toString16 x)"

definition privateKeyToHex :: "int \<Rightarrow> string" where
  "privateKeyToHex privateKey = padStart 64 CHR ''0'' (bigint_toString16 privateKey)"

text \<open>\<open>compressPublicKey\<close>: \<open>y % 2n === 0n\<close> picks the prefix.\<close>

definition compressPublicKey :: "point \<Rightarrow> string" where
  "compressPublicKey publicKey =
     (case publicKey of
        Infinity \<Rightarrow> ''00''
      | Point x y \<Rightarrow>
          (if bigint_rem y 2 = 0 then ''02'' else ''03'')
          @ padStart 64 CHR ''0'' (bigint_toString16 x))"

text \<open>
  \<open>BigInt('0x' + digits)\<close>: white space at the end is trimmed; what is left must be one
  hexadecimal digit or more, or a SyntaxError is thrown.
\<close>

definition BigInt_0x :: "string \<Rightarrow> error + int" where
  "BigInt_0x digits =
     (let ds = rev (dropWhile is_space (rev digits))
      in if ds \<noteq> [] \<and> list_all is_hex ds then Inr (hex_number ds) else Inl SyntaxError)"

text \<open>\<open>decompressPublicKey\<close>; the modulus of \<open>modPow\<close> is \<open>CURVE.p\<close>, which is not zero.\<close>

definition decompressPublicKey :: "string \<Rightarrow> error + point" where
  "decompressPublicKey compressed =
     (if compressed = ''00'' then Inr Infinity
      else
        let prefix = take 2 compressed in
        (case BigInt_0x (drop 2 compressed) of
           Inl e \<Rightarrow> Inl e
         | Inr x \<Rightarrow>
             let ySquared = mod_js (x * x * x + CURVE_a * x + CURVE_b) CURVE_p in
             (case modPow ySquared (bigint_div (CURVE_p + 1) 4) CURVE_p of
                Inl e \<Rightarrow> Inl e
              | Inr y \<Rightarrow>
                  let isEven = (bigint_rem y 2 = 0) in
                  if (prefix = ''02'' \<and> \<not> isEven) \<or> (prefix = ''03'' \<and> isEven)
                  then Inr (Point x (mod_js (- y) CURVE_p))
                  else Inr (Point x y))))"

section \<open>Key agreement (crypto/ecdh.js)\<close>

text \<open>
  \<open>computeSharedSecret\<close> for a \<open>BigInt\<close> private key and a \<open>Point\<close>, as \<open>ECDHSession\<close>
  calls it: the x-coordinate of the product, which is \<open>null\<close> (here \<open>None\<close>) for the
  identity.
\<close>

definition computeSharedSecret :: "int \<Rightarrow> point \<Rightarrow> int option result" where
  "computeSharedSecret ourPrivateKey theirPublicKey =
     (case scalarMultiply ourPrivateKey theirPublicKey of
        None \<Rightarrow> None
      | Some (Inl e) \<Rightarrow> Some (Inl e)
      | Some (Inr sharedPoint) \<Rightarrow>
          Some (Inr (case sharedPoint of Infinity \<Rightarrow> None | Point x y \<Rightarrow> Some x)))"

text \<open>
  \<open>Buffer.from(text, 'hex')\<close>: one byte for every two hexadecimal digits, up to the first
  pair that is not two such digits.
\<close>

fun Buffer_from_hex :: "string \<Rightarrow> 8 word list" where
  "Buffer_from_hex (a # b # rest) =
     (if is_hex a \<and> is_hex b then of_int (hex_number [a, b]) # Buffer_from_hex rest else [])"
| "Buffer_from_hex [a] = []"
| "Buffer_from_hex [] = []"

text \<open>
  \<open>deriveSymmetricKey\<close>: SHA-256 (the platform's, a parameter) of the secret's 64
  hexadecimal digits read as bytes. \<open>null.toString\<close> is a TypeError.
\<close>

definition deriveSymmetricKey :: "(8 word list \<Rightarrow> 8 word list) \<Rightarrow> int option \<Rightarrow> error + 8 word list" where
  "deriveSymmetricKey sha256 sharedSecret =
     (case sharedSecret of
        None \<Rightarrow> Inl TypeError
      | Some x \<Rightarrow>
          let secretHex = padStart 64 CHR ''0'' (bigint_toString16 x);
              secretBuffer = Buffer_from_hex secretHex
          in Inr (sha256 secretBuffer))"

definition performECDH ::
  "(8 word list \<Rightarrow> 8 word list) \<Rightarrow> int \<Rightarrow> point \<Rightarrow> 8 word list result" where
  "performECDH sha256 ourPrivateKey theirPublicKey =
     (case computeSharedSecret ourPrivateKey theirPublicKey of
        None \<Rightarrow> None
      | Some (Inl e) \<Rightarrow> Some (Inl e)
      | Some (Inr sharedSecret) \<Rightarrow> Some (deriveSymmetricKey sha256 sharedSecret))"

record ECDHSession =
  privateKey :: int
  publicKey :: point
  privateKeyHex :: string
  publicKeyCompressed :: string
  sessionKey :: "8 word list option"
  peerPublicKey :: "point option"

text \<open>The constructor, over the random bytes that \<open>generateEphemeralKeyPair\<close> draws.\<close>

definition new_ECDHSession :: "8 word list \<Rightarrow> ECDHSession result" where
  "new_ECDHSession bytes =
     (let k = generatePrivateKeySync bytes in
      case generatePublicKey k of
        None \<Rightarrow> None
      | Some (Inl e) \<Rightarrow> Some (Inl e)
      | Some (Inr K) \<Rightarrow>
          Some (Inr \<lparr>privateKey = k, publicKey = K, privateKeyHex = privateKeyToHex k,
                     publicKeyCompressed = compressPublicKey K,
                     sessionKey = None, peerPublicKey = None\<rparr>))"

text \<open>
  \<open>setRemotePublicKey\<close> assigns \<open>peerPublicKey\<close>, then \<open>sessionKey\<close>; the session is
  returned as the call leaves it, also when it throws.
\<close>

definition setRemotePublicKey ::
  "(8 word list \<Rightarrow> 8 word list) \<Rightarrow> ECDHSession \<Rightarrow> string
     \<Rightarrow> ((error + 8 word list) \<times> ECDHSession) option" where
  "setRemotePublicKey sha256 s peerPublicKeyCompressed =
     (case decompressPublicKey peerPublicKeyCompressed of
        Inl e \<Rightarrow> Some (Inl e, s)
      | Inr P \<Rightarrow>
          let s1 = s\<lparr>peerPublicKey := Some P\<rparr> in
          (case performECDH sha256 (privateKey s1) P of
             None \<Rightarrow> None
           | Some (Inl e) \<Rightarrow> Some (Inl e, s1)
           | Some (Inr key) \<Rightarrow> Some (Inr key, s1\<lparr>sessionKey := Some key\<rparr>)))"

text \<open>\<open>getSessionKey\<close>: \<open>!this.sessionKey\<close> holds for \<open>null\<close> only, a \<open>Buffer\<close> being an object.\<close>

definition getSessionKey :: "ECDHSession \<Rightarrow> error + 8 word list" where
  "getSessionKey s =
     (case sessionKey s of None \<Rightarrow> Inl KeyNotDerived | Some key \<Rightarrow> Inr key)"

text \<open>
  For the examples: a session whose random bytes are all zero (its private key is \<open>1\<close>),
  and a peer key that compresses the curve point with \<open>y = 1\<close>.
\<close>

definition demo_peer_x :: int where
  "demo_peer_x = 0x1fe1e5ef3fceb5c135ab7741333ce5a6e80d68167653f6b2b24bcbcfaaaff507"

definition demo_peer_key :: string where
  "demo_peer_key = ''031fe1e5ef3fceb5c135ab7741333ce5a6e80d68167653f6b2b24bcbcfaaaff507''"

definition demo_ecdh_session :: ECDHSession where
  "demo_ecdh_session =
     \<lparr>privateKey = 1, publicKey = getGenerator, privateKeyHex = privateKeyToHex 1,
      publicKeyCompressed = compressPublicKey getGenerator,
      sessionKey = None, peerPublicKey = None\<rparr>"

section \<open>Primes\<close>

text \<open>
  The curve's arithmetic is arithmetic in a field only because \<open>CURVE.p\<close> is a prime
  number, a fact the code relies on without a check.
\<close>

definition is_prime :: "int \<Rightarrow> bool" where
  "is_prime p \<longleftrightarrow> 1 < p \<and> (\<forall>d. 1 < d \<and> d < p \<longrightarrow> \<not> d dvd p)"

text \<open>
  Checking a power of two modulo \<open>N = B - c\<close> by repeated squaring, the quotient of
  every squaring being supplied: from \<open>(x, e)\<close> with \<open>x = 2 ^ e mod N\<close>, a step
  \<open>(b, k)\<close> takes \<open>y = x * x - k * N\<close>, which must lie in \<open>[0, N)\<close>, and doubles it
  modulo \<open>N\<close> when \<open>b\<close> is set; the exponent becomes \<open>2 * e\<close> or \<open>2 * e + 1\<close>.
\<close>

definition pow2mod :: "int \<Rightarrow> int \<Rightarrow> int" where
  "pow2mod N e = 2 ^ nat e mod N"

definition double_mod :: "int \<Rightarrow> int \<Rightarrow> int" where
  "double_mod N y = (if 2 * y < N then 2 * y else 2 * y - N)"

fun pow2_chain :: "int \<Rightarrow> int \<Rightarrow> int \<times> int \<Rightarrow> (bool \<times> int) list \<Rightarrow> (int \<times> int) option" where
  "pow2_chain B c (x, e) [] = Some (x, e)"
| "pow2_chain B c (x, e) ((b, k) # cert) =
     (let y = x * x - k * B + k * c in
      if 0 \<le> y \<and> y < B - c then
        pow2_chain B c (if b then (double_mod (B - c) y, 2 * e + 1) else (y, 2 * e)) cert
      else None)"

text \<open>
  The condition of Pocklington's criterion on a prime factor \<open>q\<close> of \<open>N - 1\<close>, for the
  base \<open>2\<close>.
\<close>

definition pock_factor :: "int \<Rightarrow> int \<Rightarrow> bool" where
  "pock_factor N q \<longleftrightarrow>
     is_prime q \<and> q dvd N - 1 \<and> coprime (2 ^ nat ((N - 1) div q) - 1) N"

section \<open>Properties of the verifier's session state machine\<close>

lemma startSession_session:
  "snd (startSession v sessionId h) sessionId
     = Some \<lparr>registeredHash = h, rounds = [], currentRound = 0, maxRounds = 5\<rparr>"
  by (simp add: startSession_def)

lemma demo_from_protocol:
  "generateChallenge (\<lambda>m. ''h'') drawn (snd (startSession Map.empty ''sid'' ''reg'')) ''sid''
     demo_graph
     = Inr (\<lparr>cr_challengeNode = drawn, cr_round = 0\<rparr>, demo_verifier drawn)"
  by (simp add: demo_verifier_def demo_session_def generateChallenge_def startSession_def
      fromJSON_def new_Graph_def demo_graph_def)

lemma reachable_demo: "reachable (demo_verifier drawn)"
  using challenged [OF started [OF constructed] demo_from_protocol] .


lemma demo_check_passes: "check_response demo_graph demo_graph [0, 1, 2] 1 = Inr True"
  by code_simp

lemma generateChallenge_Inr:
  assumes "generateChallenge getHash drawn v sessionId pg = Inr (c, v')"
  shows "\<exists>s0 r. v sessionId = Some s0 \<and> cr_round c = currentRound s0
           \<and> v' = v(sessionId \<mapsto> s0\<lparr>rounds := rounds s0 @ [r]\<rparr>)"
  using assms
  by (auto simp: generateChallenge_def Let_def split: option.splits sum.splits if_splits)

lemma verifyResponse_Inr:
  assumes "verifyResponse v sessionId og perm cn = Inr (res, v')"
  shows "\<exists>s0. v sessionId = Some s0 \<and> 0 \<le> currentRound s0
           \<and> currentRound s0 < int (length (rounds s0))
           \<and> check_response og (permutedGraph (rounds s0 ! nat (currentRound s0))) perm cn
                 = Inr (vr_valid res)
           \<and> v' = v(sessionId \<mapsto>
                    s0\<lparr>rounds := (rounds s0)[nat (currentRound s0) :=
                          (rounds s0 ! nat (currentRound s0))\<lparr>verified := vr_valid res\<rparr>],
                       currentRound := currentRound s0 + 1\<rparr>)"
  using assms
  by (auto simp: verifyResponse_def Let_def split: option.splits sum.splits if_splits)

lemma reachable_session_ok:
  assumes "reachable v" and "v sid = Some s"
  shows "session_ok s"
  using assms
proof (induction arbitrary: sid s rule: reachable.induct)
  case constructed
  then show ?case by simp
next
  case (started v sessionId h)
  then show ?case
    by (auto simp: startSession_def session_ok_def split: if_splits)
next
  case (challenged v getHash drawn sessionId pg c v')
  from generateChallenge_Inr [OF challenged.hyps(2)] obtain s0 r where
    s0: "v sessionId = Some s0" and v': "v' = v(sessionId \<mapsto> s0\<lparr>rounds := rounds s0 @ [r]\<rparr>)"
    by blast
  show ?case
  proof (cases "sid = sessionId")
    case True
    with challenged.prems v' have "s = s0\<lparr>rounds := rounds s0 @ [r]\<rparr>" by simp
    with challenged.IH [OF s0] show ?thesis by (simp add: session_ok_def)
  next
    case False
    with challenged.prems v' have "v sid = Some s" by simp
    then show ?thesis by (rule challenged.IH)
  qed
next
  case (responded v sessionId og perm cn res v')
  from verifyResponse_Inr [OF responded.hyps(2)] obtain s0 rs where
    s0: "v sessionId = Some s0" and len: "length rs = length (rounds s0)"
    and v': "v' = v(sessionId \<mapsto> s0\<lparr>rounds := rs, currentRound := currentRound s0 + 1\<rparr>)"
    and rng: "currentRound s0 < int (length (rounds s0))"
    by (metis length_list_update)
  show ?case
  proof (cases "sid = sessionId")
    case True
    with responded.prems v'
    have "s = s0\<lparr>rounds := rs, currentRound := currentRound s0 + 1\<rparr>" by simp
    with responded.IH [OF s0] len rng show ?thesis by (simp add: session_ok_def)
  next
    case False
    with responded.prems v' have "v sid = Some s" by simp
    then show ?thesis by (rule responded.IH)
  qed
next
  case (ended v sessionId)
  then show ?case
    by (auto simp: endSession_def split: if_splits)
qed
lemma reachable_play:
  "reachable v \<Longrightarrow> play v sessionId rs = Inr v' \<Longrightarrow> reachable v'"
proof (induction rs arbitrary: v)
  case Nil
  then show ?case by simp
next
  case (Cons r rs)
  obtain pg og perm cn where r: "r = (pg, og, perm, cn)" by (cases r) auto
  from Cons.prems(2) r obtain c v1 res v2 where
    g: "generateChallenge (\<lambda>m. ''h'') cn v sessionId pg = Inr (c, v1)"
    and vr: "verifyResponse v1 sessionId og perm cn = Inr (res, v2)"
    and p: "play v2 sessionId rs = Inr v'"
    by (auto split: sum.splits)
  from challenged [OF Cons.prems(1) g] have "reachable v1" .
  from responded [OF this vr] have "reachable v2" .
  from Cons.IH [OF this p] show ?case .
qed

lemma reachable_demo_run: "demo_run rs = Inr v \<Longrightarrow> reachable v"
  unfolding demo_run_def by (rule reachable_play [OF started [OF constructed]])

lemma demo_run_failed:
  "map_sum id (\<lambda>v. map_option session_summary (v ''sid''))
     (demo_run [good_round, good_round, bad_round, good_round, good_round])
   = Inr (Some (5, 5, [True, True, False, True, True]))"
  by code_simp

lemma demo_run_passed:
  "map_sum id (\<lambda>v. map_option session_summary (v ''sid''))
     (demo_run [good_round, good_round, good_round, good_round, good_round])
   = Inr (Some (5, 5, [True, True, True, True, True]))"
  by code_simp

text \<open>
  Claim C1. In every store the verifier can reach, a stored session has the
  \<open>maxRounds = 5\<close> that \<open>startSession\<close> fixed; \<open>isComplete\<close> reports
  \<open>complete\<close> exactly when \<open>currentRound\<close> has reached \<open>maxRounds\<close>, and \<open>success\<close>
  exactly when it is complete and every recorded round has \<open>verified = true\<close>; one round
  with \<open>verified = false\<close> makes \<open>success\<close> false.
\<close>

theorem isComplete_spec:
  assumes "reachable v" and "v sid = Some s"
  shows "maxRounds s = 5
       \<and> (complete (isComplete v sid) \<longleftrightarrow> maxRounds s \<le> currentRound s)
       \<and> (success (isComplete v sid) \<longleftrightarrow>
            complete (isComplete v sid) \<and> (\<forall>r \<in> set (rounds s). verified r))
       \<and> ((\<exists>r \<in> set (rounds s). \<not> verified r) \<longrightarrow> \<not> success (isComplete v sid))"
  using assms(2) reachable_session_ok [OF assms]
  by (auto simp: isComplete_def Let_def list_all_iff session_ok_def)

text \<open>
  Three runs from \<open>startSession\<close>: five rounds with the third one failing (complete,
  no success), five rounds all passing (complete and success), two rounds (not complete).
\<close>

theorem isComplete_spec_witness:
  "(\<exists>v. demo_run [good_round, good_round, bad_round, good_round, good_round] = Inr v
        \<and> complete (isComplete v ''sid'') \<and> \<not> success (isComplete v ''sid''))
 \<and> (\<exists>v. demo_run [good_round, good_round, good_round, good_round, good_round] = Inr v
        \<and> complete (isComplete v ''sid'') \<and> success (isComplete v ''sid''))
 \<and> (\<exists>v. demo_run [good_round, bad_round] = Inr v \<and> \<not> complete (isComplete v ''sid''))"
proof -
  have run: "\<exists>v. demo_run rs = Inr v \<and> complete (isComplete v ''sid'') = c
                \<and> success (isComplete v ''sid'') = (c \<and> list_all id bs)"
    if "map_sum id (\<lambda>v. map_option session_summary (v ''sid''))
          (demo_run rs) = Inr (Some (k, 5, bs))" and "c = (5 \<le> k)" for rs k bs c
  proof -
    from that(1) obtain v s where v: "demo_run rs = Inr v" and s: "v ''sid'' = Some s"
      and f: "currentRound s = k" "map verified (rounds s) = bs"
      by (cases "demo_run rs") (auto simp: session_summary_def)
    from f(2) have "list_all id bs \<longleftrightarrow> (\<forall>r \<in> set (rounds s). verified r)"
      by (auto simp: list_all_iff)
    with isComplete_spec [OF reachable_demo_run [OF v] s] v f(1) that(2) show ?thesis
      by auto
  qed
  have r3: "map_sum id (\<lambda>v. map_option session_summary (v ''sid''))
     (demo_run [good_round, bad_round]) = Inr (Some (2, 5, [True, False]))"
    by code_simp
  from run [OF demo_run_failed, of True] run [OF demo_run_passed, of True] run [OF r3, of False]
  show ?thesis by simp blast
qed



text \<open>
  Claim C3. For a session whose current round exists, the validity \<open>verifyResponse\<close>
  returns (or the exception of the check) is a function of the arguments \<open>originalGraph\<close>,
  \<open>permutation\<close>, \<open>challengeNode\<close> and of the permuted graph stored for that round, and of
  nothing else: two stores that agree on that graph only, and may differ in the challenge
  node that was drawn and recorded, in the hashes, in the other rounds, in the flags and in
  the counters, give the same validity for the same arguments.
\<close>

theorem verifyResponse_validity_depends_on_permuted_graph:
  assumes "v1 sid = Some s1" and "v2 sid = Some s2"
    and "0 \<le> currentRound s1" and "currentRound s1 < int (length (rounds s1))"
    and "0 \<le> currentRound s2" and "currentRound s2 < int (length (rounds s2))"
    and "permutedGraph (rounds s1 ! nat (currentRound s1))
           = permutedGraph (rounds s2 ! nat (currentRound s2))"
  shows "map_sum id (vr_valid \<circ> fst) (verifyResponse v1 sid og perm cn)
           = map_sum id (vr_valid \<circ> fst) (verifyResponse v2 sid og perm cn)
         \<and> map_sum id (vr_valid \<circ> fst) (verifyResponse v1 sid og perm cn)
           = check_response og (permutedGraph (rounds s1 ! nat (currentRound s1))) perm cn"
  using assms by (simp add: verifyResponse_def Let_def split: sum.splits)

text \<open>
  Two sessions that share nothing but the permuted graph of the round that is open: the
  same response is judged the same, here valid.
\<close>

theorem verifyResponse_validity_depends_on_permuted_graph_witness:
  "demo_verifier 0 ''sid'' = Some (demo_session 0)
   \<and> (Map.empty(''sid'' \<mapsto> demo_session_other)) ''sid'' = Some demo_session_other
   \<and> registeredHash (demo_session 0) \<noteq> registeredHash demo_session_other
   \<and> currentRound (demo_session 0) \<noteq> currentRound demo_session_other
   \<and> challengeNode (rounds (demo_session 0) ! 0) \<noteq> challengeNode (rounds demo_session_other ! 1)
   \<and> permutedHash (rounds (demo_session 0) ! 0) \<noteq> permutedHash (rounds demo_session_other ! 1)
   \<and> map_sum id (vr_valid \<circ> fst) (verifyResponse (demo_verifier 0) ''sid'' demo_graph [0, 1, 2] 1)
      = map_sum id (vr_valid \<circ> fst)
          (verifyResponse (Map.empty(''sid'' \<mapsto> demo_session_other)) ''sid'' demo_graph [0, 1, 2] 1)
   \<and> map_sum id (vr_valid \<circ> fst) (verifyResponse (demo_verifier 0) ''sid'' demo_graph [0, 1, 2] 1)
      = Inr True"
proof -
  have a: "demo_verifier 0 ''sid'' = Some (demo_session 0)"
    by (simp add: demo_verifier_def)
  have b: "(Map.empty(''sid'' \<mapsto> demo_session_other)) ''sid'' = Some demo_session_other"
    by simp
  have c: "0 \<le> currentRound (demo_session 0)"
    "currentRound (demo_session 0) < int (length (rounds (demo_session 0)))"
    "0 \<le> currentRound demo_session_other"
    "currentRound demo_session_other < int (length (rounds demo_session_other))"
    by (simp_all add: demo_session_def demo_session_other_def)
  have d: "permutedGraph (rounds (demo_session 0) ! nat (currentRound (demo_session 0)))
             = permutedGraph (rounds demo_session_other ! nat (currentRound demo_session_other))"
    by (simp add: demo_session_def demo_session_other_def)
  have e: "permutedGraph (rounds (demo_session 0) ! nat (currentRound (demo_session 0))) = demo_graph"
    by (simp add: demo_session_def)
  note th = verifyResponse_validity_depends_on_permuted_graph
         [of "demo_verifier 0" "''sid''" "demo_session 0" "Map.empty(''sid'' \<mapsto> demo_session_other)"
            demo_session_other demo_graph "[0, 1, 2]" 1, OF a b c d]
  from th have f: "map_sum id (vr_valid \<circ> fst) (verifyResponse (demo_verifier 0) ''sid'' demo_graph [0, 1, 2] 1)
      = map_sum id (vr_valid \<circ> fst)
          (verifyResponse (Map.empty(''sid'' \<mapsto> demo_session_other)) ''sid'' demo_graph [0, 1, 2] 1)"
    by (rule conjunct1)
  from th have "map_sum id (vr_valid \<circ> fst) (verifyResponse (demo_verifier 0) ''sid'' demo_graph [0, 1, 2] 1)
      = check_response demo_graph
          (permutedGraph (rounds (demo_session 0) ! nat (currentRound (demo_session 0)))) [0, 1, 2] 1"
    by (rule conjunct2)
  then have g: "map_sum id (vr_valid \<circ> fst) (verifyResponse (demo_verifier 0) ''sid'' demo_graph [0, 1, 2] 1)
      = Inr True"
    by (simp only: e demo_check_passes)
  have h: "registeredHash (demo_session 0) \<noteq> registeredHash demo_session_other"
    "currentRound (demo_session 0) \<noteq> currentRound demo_session_other"
    "challengeNode (rounds (demo_session 0) ! 0) \<noteq> challengeNode (rounds demo_session_other ! 1)"
    "permutedHash (rounds (demo_session 0) ! 0) \<noteq> permutedHash (rounds demo_session_other ! 1)"
    by (simp_all add: demo_session_def demo_session_other_def)
  from a b h f g show ?thesis by (intro conjI)
qed

section \<open>Properties of the secret-graph derivation\<close>

lemma lt16_cases:
  "0 \<le> a \<Longrightarrow> a < (16::int) \<Longrightarrow>
     a = 0 \<or> a = 1 \<or> a = 2 \<or> a = 3 \<or> a = 4 \<or> a = 5 \<or> a = 6 \<or> a = 7
     \<or> a = 8 \<or> a = 9 \<or> a = 10 \<or> a = 11 \<or> a = 12 \<or> a = 13 \<or> a = 14 \<or> a = 15"
  by presburger

lemma hex_value_hex_digit: "0 \<le> a \<Longrightarrow> a < 16 \<Longrightarrow> hex_value (hex_digit a) = Some (nat a)"
  by (drule (1) lt16_cases) (auto simp: hex_value_def hex_digit_def)

lemma hex_digit_plain:
  "0 \<le> a \<Longrightarrow> a < 16 \<Longrightarrow>
     \<not> is_space (hex_digit a) \<and> hex_digit a \<noteq> CHR ''-'' \<and> hex_digit a \<noteq> CHR ''+''
     \<and> hex_digit a \<noteq> CHR ''x'' \<and> hex_digit a \<noteq> CHR ''X''"
  by (drule (1) lt16_cases) (auto simp: is_space_def hex_digit_def)

lemma is_hex_hex_digit: "0 \<le> a \<Longrightarrow> a < 16 \<Longrightarrow> is_hex (hex_digit a)"
  by (simp add: is_hex_def hex_value_hex_digit)

lemma parseInt16_two_digits:
  assumes "0 \<le> a" "a < 16" "0 \<le> b" "b < 16"
  shows "parseInt16 [hex_digit a, hex_digit b] = Some (16 * a + b)"
  using hex_digit_plain [OF assms(1,2)] hex_digit_plain [OF assms(3,4)]
    hex_value_hex_digit [OF assms(1,2)] hex_value_hex_digit [OF assms(3,4)] assms
  by (simp add: parseInt16_def is_hex_def hex_number_def Let_def)

lemma toString16_digit: "n < 16 \<Longrightarrow> toString16 n = [hex_digit n]"
  by (subst toString16.simps) simp

lemma byte_hex:
  assumes "0 \<le> n" "n < 256"
  shows "padStart 2 CHR ''0'' (toString16 n) = [hex_digit (n div 16), hex_digit (n mod 16)]"
proof (cases "n < 16")
  case True
  with assms(1) have "n div 16 = 0" "n mod 16 = n" by simp_all
  with True show ?thesis
    by (simp add: toString16_digit padStart_def hex_digit_def)
next
  case False
  with assms have "n div 16 < 16" by simp
  then have "toString16 (n div 16) = [hex_digit (n div 16)]" by (rule toString16_digit)
  with False have "toString16 n = [hex_digit (n div 16), hex_digit (n mod 16)]"
    by (subst toString16.simps) simp
  then show ?thesis by (simp add: padStart_def)
qed

lemma parse_sha256_hex:
  "map parseInt16 (substr2 (sha256_hex digest)) = map (\<lambda>b. Some (uint b)) digest"
proof (induction digest)
  case Nil
  then show ?case by (simp add: sha256_hex_def)
next
  case (Cons b bs)
  let ?n = "uint b"
  have n: "0 \<le> ?n" "?n < 256" using uint_lt2p [of b] by simp_all
  then have d: "0 \<le> ?n div 16" "?n div 16 < 16" "0 \<le> ?n mod 16" "?n mod 16 < 16"
    by (simp_all add: pos_imp_zdiv_nonneg_iff)
  have "sha256_hex (b # bs) = hex_digit (?n div 16) # hex_digit (?n mod 16) # sha256_hex bs"
    using byte_hex [OF n] by (simp add: sha256_hex_def)
  moreover have "16 * (?n div 16) + ?n mod 16 = uint b"
    by simp
  ultimately show ?case
    using Cons.IH parseInt16_two_digits [OF d] by simp
qed

lemma client_bit_server_bit:
  "client_bit (map (\<lambda>b. Some (uint b)) hash) = server_bit hash"
proof (intro ext)
  fix byteIndex bitIndex
  have "(drop_bit bitIndex (uint w) AND 1 = 1) \<longleftrightarrow> (drop_bit bitIndex w AND 1 = 1)" for w :: "8 word"
  proof -
    have "(drop_bit bitIndex (uint w) AND 1 = 1) \<longleftrightarrow> bit (uint w) bitIndex"
      by (simp add: and_one_eq bit_iff_odd_drop_bit mod_2_eq_odd)
    also have "\<dots> \<longleftrightarrow> bit w bitIndex"
      by (auto simp: bit_uint_iff dest: bit_imp_le_length)
    also have "\<dots> \<longleftrightarrow> (drop_bit bitIndex w AND 1 = 1)"
      by (simp add: and_one_eq bit_iff_odd_drop_bit mod_2_eq_odd)
    finally show ?thesis .
  qed
  then show "client_bit (map (\<lambda>b. Some (uint b)) hash) byteIndex bitIndex = server_bit hash byteIndex bitIndex"
    by (cases "byteIndex < length hash") (simp_all add: client_bit_def server_bit_def)
qed

lemma length_parse_sha256_hex:
  "length (substr2 (sha256_hex digest)) = length digest"
  using arg_cong [OF parse_sha256_hex [of digest], of length] by simp

text \<open>
  Claim C5. For every seed and node count the client's \<open>generateSecretGraph\<close> and the
  server's return the same result (the same matrix, or the same exception): reading the
  digest back from its hexadecimal text gives the bytes the server reads from the buffer.
  Both are functions of the seed and the node count alone, so two calls with the same
  arguments agree.
\<close>

theorem generateSecretGraph_client_server:
  "generateSecretGraph_client sha256_digest seed n = generateSecretGraph sha256_digest seed n"
  by (simp add: length_parse_sha256_hex generateSecretGraph_client_def generateSecretGraph_def
      generateSecretGraph_digest_def parse_sha256_hex client_bit_server_bit Let_def)

text \<open>
  Claim C4, evaluated at the seed \<open>seed115\<close> with the default of eight nodes: the graph
  that is returned has no edge at node 7. The second loop stops at \<open>i < numNodes - 1\<close>
  and never looks at the last node.
\<close>

theorem generateSecretGraph_last_node_isolated:
  "generateSecretGraph_digest digest_seed115 8 = Inr
     \<lparr>numNodes = 8, adjacencyMatrix =
        [[0, 1, 0, 1, 1, 0, 0, 0],
         [1, 0, 0, 1, 1, 1, 0, 0],
         [0, 0, 0, 0, 1, 1, 0, 0],
         [1, 1, 0, 0, 1, 0, 1, 0],
         [1, 1, 1, 1, 0, 0, 1, 0],
         [0, 1, 1, 0, 0, 0, 0, 0],
         [0, 0, 0, 1, 1, 0, 0, 0],
         [0, 0, 0, 0, 0, 0, 0, 0]]\<rparr>
   \<and> map_sum id (\<lambda>g. degree g 7) (generateSecretGraph_digest digest_seed115 8) = Inr (Some 0)"
  by code_simp

section \<open>Properties of the field arithmetic\<close>

lemma mod_js_pos:
  assumes "0 < m"
  shows "mod_js a m = a mod m"
proof (cases "0 \<le> a")
  case True
  with assms show ?thesis
    by (simp add: mod_js_def bigint_rem_def sgn_if)
next
  case False
  then have a: "a < 0" by simp
  have r: "bigint_rem a m = - ((- a) mod m)"
    using a assms by (simp add: bigint_rem_def sgn_if)
  show ?thesis
  proof (cases "a mod m = 0")
    case True
    then have "(- a) mod m = 0" by (simp add: zmod_zminus1_eq_if)
    with r True show ?thesis by (simp add: mod_js_def)
  next
    case False
    then have "(- a) mod m = m - a mod m" by (simp add: zmod_zminus1_eq_if)
    moreover have "a mod m < m" using assms by simp
    ultimately show ?thesis using r by (simp add: mod_js_def Let_def)
  qed
qed

lemma bigint_div_nonneg: "0 \<le> a \<Longrightarrow> 0 < m \<Longrightarrow> bigint_div a m = a div m"
  by (simp add: bigint_div_def sgn_if)

lemma bigint_rem_nonneg: "0 \<le> a \<Longrightarrow> 0 < m \<Longrightarrow> bigint_rem a m = a mod m"
  by (simp add: bigint_rem_def sgn_if)

lemma extendedGcd_nonneg:
  "0 \<le> a \<Longrightarrow> 0 \<le> b \<Longrightarrow>
     \<exists>x y. extendedGcd a b = Some (gcd a b, x, y) \<and> a * x + b * y = gcd a b"
proof (induction "nat a" arbitrary: a b rule: less_induct)
  case less
  show ?case
  proof (cases "a = 0")
    case True
    with less.prems show ?thesis by (simp add: extendedGcd.simps)
  next
    case False
    with less.prems have a: "0 < a" by simp
    then have m: "mod_js b a = b mod a" by (rule mod_js_pos)
    have "nat (b mod a) < nat a" using a by (simp add: nat_less_iff)
    from less.hyps [OF this, of a] a obtain x y where
      r: "extendedGcd (b mod a) a = Some (gcd (b mod a) a, x, y)"
      and e: "(b mod a) * x + a * y = gcd (b mod a) a"
      by auto
    have g: "gcd (b mod a) a = gcd a b"
      by (metis gcd.commute gcd_red_int)
    have "a * (y - (b div a) * x) + b * x = (b mod a) * x + a * y"
    proof -
      have "b * x = (a * (b div a) + b mod a) * x" by simp
      also have "\<dots> = a * (b div a) * x + (b mod a) * x" by (rule distrib_right)
      finally show ?thesis by (simp add: right_diff_distrib)
    qed
    with r e g m False a less.prems show ?thesis
      by (subst extendedGcd.simps) (simp add: bigint_div_nonneg)
  qed
qed

lemma modInverse_pos:
  assumes "0 < m"
  shows "\<exists>x y. a * x + m * y = gcd a m \<and>
           modInverse a m = (if gcd a m \<noteq> 1 then Some (Inl NoInverse) else Some (Inr (x mod m)))"
proof -
  have r: "0 \<le> a mod m" using assms by simp
  from extendedGcd_nonneg [OF r, of m] assms obtain x y where
    e: "extendedGcd (a mod m) m = Some (gcd (a mod m) m, x, y)"
    and b: "(a mod m) * x + m * y = gcd (a mod m) m"
    by auto
  have g: "gcd (a mod m) m = gcd a m"
    by (metis gcd.commute gcd_red_int)
  have "a * x + m * (y - (a div m) * x) = (a mod m) * x + m * y"
  proof -
    have "a * x = (m * (a div m) + a mod m) * x" by simp
    also have "\<dots> = m * (a div m) * x + (a mod m) * x" by (rule distrib_right)
    finally show ?thesis by (simp add: right_diff_distrib)
  qed
  with b g have "a * x + m * (y - (a div m) * x) = gcd a m" by simp
  moreover have "modInverse a m
      = (if gcd a m \<noteq> 1 then Some (Inl NoInverse) else Some (Inr (x mod m)))"
    using assms e g by (simp add: modInverse_def mod_js_pos)
  ultimately show ?thesis by blast
qed

text \<open>
  Claim C9. For a modulus \<open>m \<ge> 1\<close>: \<open>modInverse(a, m)\<close> throws
  \<open>'Modular inverse does not exist'\<close> whenever \<open>gcd(a, m) \<noteq> 1\<close>, and so returns no
  value then; when \<open>gcd(a, m) = 1\<close> it returns the inverse of \<open>a\<close> modulo \<open>m\<close>, in
  \<open>[0, m)\<close>; and \<open>modInverse(0, m)\<close> throws for every \<open>m > 1\<close>.
\<close>

theorem modInverse_spec:
  assumes "0 < m"
  shows "(gcd a m \<noteq> 1 \<longrightarrow> modInverse a m = Some (Inl NoInverse))
       \<and> (gcd a m = 1 \<longrightarrow>
            (\<exists>x. modInverse a m = Some (Inr x) \<and> 0 \<le> x \<and> x < m \<and> (a * x) mod m = 1 mod m))
       \<and> (1 < m \<longrightarrow> modInverse 0 m = Some (Inl NoInverse))"
proof (intro conjI impI)
  assume "gcd a m \<noteq> 1"
  with modInverse_pos [OF assms, of a] show "modInverse a m = Some (Inl NoInverse)" by auto
next
  assume g: "gcd a m = 1"
  with modInverse_pos [OF assms, of a] obtain x y where
    b: "a * x + m * y = 1" and r: "modInverse a m = Some (Inr (x mod m))"
    by auto
  have "(a * (x mod m)) mod m = (a * x) mod m"
    by (simp add: mod_mult_right_eq)
  also have "\<dots> = (a * x + m * y) mod m" by simp
  also have "\<dots> = 1 mod m" using b by simp
  finally have "(a * (x mod m)) mod m = 1 mod m" .
  with r assms show "\<exists>x. modInverse a m = Some (Inr x) \<and> 0 \<le> x \<and> x < m \<and> (a * x) mod m = 1 mod m"
    by auto
next
  assume "1 < m"
  then have "gcd 0 m \<noteq> 1" by simp
  with modInverse_pos [OF assms, of 0] show "modInverse 0 m = Some (Inl NoInverse)" by auto
qed

theorem modInverse_spec_witness:
  "(0::int) < 7 \<and> gcd (3::int) 7 = 1 \<and> modInverse 3 7 = Some (Inr 5)
     \<and> gcd (6::int) 9 \<noteq> 1 \<and> modInverse 6 9 = Some (Inl NoInverse)
     \<and> modInverse 0 7 = Some (Inl NoInverse)"
proof -
  have g1: "gcd (3::int) 7 = 1" by code_simp
  have g2: "gcd (6::int) 9 \<noteq> 1" by code_simp
  have "modInverse 3 7 = Some (Inr 5)"
    by (simp add: modInverse_def extendedGcd.simps mod_js_def bigint_rem_def bigint_div_def)
  moreover from modInverse_spec [of 9 6] g2 have "modInverse 6 9 = Some (Inl NoInverse)" by simp
  moreover from modInverse_spec [of 7 0] have "modInverse 0 7 = Some (Inl NoInverse)" by simp
  moreover from modInverse_spec [of 7 3] g1
  have "\<exists>x. modInverse 3 7 = Some (Inr x) \<and> 0 \<le> x \<and> x < 7 \<and> (3 * x) mod 7 = 1"
    by simp
  ultimately show ?thesis using g1 g2 by simp
qed

lemma modInverse_eqI:
  assumes m: "1 < m" and i: "0 \<le> i" "i < m" and ai: "(a * i) mod m = 1"
  shows "modInverse a m = Some (Inr i)"
proof -
  from m have m0: "0 < m" by simp
  have g: "gcd a m = 1"
  proof -
    have "gcd a m dvd a * i" by simp
    moreover have "gcd a m dvd m" by simp
    ultimately have "gcd a m dvd (a * i) mod m" by (simp add: dvd_mod)
    with ai have "gcd a m dvd 1" by simp
    then show ?thesis by simp
  qed
  from modInverse_pos [OF m0, of a] g obtain x y where
    b: "a * x + m * y = 1" and r: "modInverse a m = Some (Inr (x mod m))"
    by auto
  have ax: "(a * x) mod m = 1"
  proof -
    have "(a * x) mod m = (a * x + m * y) mod m" by simp
    also have "\<dots> = 1 mod m" using b by simp
    finally show ?thesis using m by simp
  qed
  have "i mod m = (i * ((a * x) mod m)) mod m" using ax by simp
  also have "\<dots> = (i * (a * x)) mod m" by (simp add: mod_mult_right_eq)
  also have "\<dots> = ((a * i) * x) mod m"
    by (simp add: mult.commute mult.left_commute)
  also have "\<dots> = (((a * i) mod m) * x) mod m"
    by (simp only: mod_mult_left_eq)
  also have "\<dots> = x mod m" using ai by simp
  finally have "x mod m = i" using i by simp
  with r show ?thesis by simp
qed

lemma modPow_loop_one:
  assumes "1 < m"
  shows "modPow_loop 1 e m 1 = 1"
proof (induction "nat e" arbitrary: e rule: less_induct)
  case less
  show ?case
  proof (cases "0 < e")
    case True
    then have "nat (bigint_div e 2) < nat e"
      by (simp add: bigint_div_def sgn_if)
    from less.hyps [OF this] True assms show ?thesis
      by (subst modPow_loop.simps) (simp add: mod_js_pos)
  next
    case False
    then show ?thesis by (subst modPow_loop.simps) simp
  qed
qed

lemma pointDouble_returns:
  assumes "y \<noteq> 0" and "mod_js (y + y) CURVE_p \<noteq> 0"
    and "modInverse (mod_js (2 * y) CURVE_p) CURVE_p = Some (Inr i)"
  shows "\<exists>Q. pointDouble (Point x y) = Some (Inr Q)"
  using assms by (simp add: pointDouble_def pointAdd_def slope_point_def Let_def)

lemma scalarMultiply_one:
  assumes "pointDouble P = Some (Inr Q)"
  shows "scalarMultiply 1 P = Some (Inr P)"
proof -
  have "scalarMultiply_loop 0 P Q = Some (Inr P)"
    by (subst scalarMultiply_loop.simps) simp
  moreover have "pointAdd Infinity P = Some (Inr P)"
    by (simp add: pointAdd_def)
  ultimately have "scalarMultiply_loop 1 Infinity P = Some (Inr P)"
    using assms by (subst scalarMultiply_loop.simps) simp
  then show ?thesis by (simp add: scalarMultiply_def)
qed

section \<open>Properties of the key-agreement session\<close>

lemma CURVE_p_gt_1: "1 < CURVE_p"
  by (simp add: CURVE_p_def)

lemma generator_doubles: "\<exists>Q. pointDouble getGenerator = Some (Inr Q)"
proof -
  have 1: "CURVE_Gy \<noteq> 0" by code_simp
  have 2: "mod_js (CURVE_Gy + CURVE_Gy) CURVE_p \<noteq> 0" by code_simp
  have 3: "(mod_js (2 * CURVE_Gy) CURVE_p
              * 83174505189910067536517124096019359197644205712500122884473429251812128958118)
            mod CURVE_p = 1"
    by code_simp
  have 4: "(0::int) \<le> 83174505189910067536517124096019359197644205712500122884473429251812128958118"
    by simp
  have 5: "83174505189910067536517124096019359197644205712500122884473429251812128958118 < CURVE_p"
    by code_simp
  from pointDouble_returns [OF 1 2 modInverse_eqI [OF CURVE_p_gt_1 4 5 3]]
  show ?thesis unfolding getGenerator_def .
qed

lemma new_ECDHSession_zero: "new_ECDHSession (replicate 32 0) = Some (Inr demo_ecdh_session)"
proof -
  have k: "generatePrivateKeySync (replicate 32 0) = 1" by code_simp
  from generator_doubles obtain Q where "pointDouble getGenerator = Some (Inr Q)" ..
  then have "scalarMultiply 1 getGenerator = Some (Inr getGenerator)"
    by (rule scalarMultiply_one)
  with k show ?thesis
    by (simp add: new_ECDHSession_def generatePublicKey_def demo_ecdh_session_def)
qed

lemma decompress_demo_peer_key: "decompressPublicKey demo_peer_key = Inr (Point demo_peer_x 1)"
proof -
  have 1: "demo_peer_key \<noteq> ''00''" by code_simp
  have 2: "take 2 demo_peer_key = ''03''" by code_simp
  have 3: "BigInt_0x (drop 2 demo_peer_key) = Inr demo_peer_x" by code_simp
  have 4: "mod_js (demo_peer_x * demo_peer_x * demo_peer_x + CURVE_a * demo_peer_x + CURVE_b)
             CURVE_p = 1"
    by code_simp
  have 5: "modPow 1 (bigint_div (CURVE_p + 1) 4) CURVE_p = Inr 1"
    using CURVE_p_gt_1 modPow_loop_one [OF CURVE_p_gt_1]
    by (simp add: modPow_def mod_js_pos)
  have 6: "bigint_rem 1 2 = 1" by code_simp
  show ?thesis
    by (simp add: decompressPublicKey_def 1 2 3 4 5 6 Let_def)
qed

lemma demo_peer_doubles: "\<exists>Q. pointDouble (Point demo_peer_x 1) = Some (Inr Q)"
proof -
  have 2: "mod_js (1 + 1) CURVE_p \<noteq> 0" by code_simp
  have 3: "(mod_js (2 * 1) CURVE_p * ((CURVE_p + 1) div 2)) mod CURVE_p = 1" by code_simp
  have 4: "0 \<le> (CURVE_p + 1) div 2" by code_simp
  have 5: "(CURVE_p + 1) div 2 < CURVE_p" by code_simp
  from pointDouble_returns [OF _ 2 modInverse_eqI [OF CURVE_p_gt_1 4 5 3]]
  show ?thesis by simp
qed

text \<open>
  Claim C10. While the stored session key is \<open>null\<close>, as it is in every session the
  constructor returns, \<open>getSessionKey\<close> throws. When \<open>setRemotePublicKey\<close> returns a
  key, that key is the one \<open>performECDH\<close> derives from the private key and the
  decompressed peer key, and \<open>getSessionKey\<close> returns it from then on; when
  \<open>setRemotePublicKey\<close> throws instead, \<open>getSessionKey\<close> goes on throwing.
\<close>

theorem getSessionKey_spec:
  "(sessionKey s = None \<longrightarrow> getSessionKey s = Inl KeyNotDerived)
 \<and> (new_ECDHSession bytes = Some (Inr s0) \<longrightarrow> getSessionKey s0 = Inl KeyNotDerived)
 \<and> (setRemotePublicKey sha256 s pk = Some (Inr key, s') \<longrightarrow>
        getSessionKey s' = Inr key
      \<and> (\<exists>P. decompressPublicKey pk = Inr P
             \<and> performECDH sha256 (privateKey s) P = Some (Inr key)))
 \<and> (sessionKey s = None \<and> setRemotePublicKey sha256 s pk = Some (Inl e, s') \<longrightarrow>
        getSessionKey s' = Inl KeyNotDerived)"
proof -
  have a: "getSessionKey s = Inl KeyNotDerived" if "sessionKey s = None" for s
    using that by (simp add: getSessionKey_def)
  have b: "getSessionKey s0 = Inl KeyNotDerived" if "new_ECDHSession bytes = Some (Inr s0)"
  proof -
    from that have "sessionKey s0 = None"
      by (auto simp: new_ECDHSession_def Let_def split: option.splits sum.splits)
    then show ?thesis by (rule a)
  qed
  have c: "getSessionKey s' = Inr key
      \<and> (\<exists>P. decompressPublicKey pk = Inr P
             \<and> performECDH sha256 (privateKey s) P = Some (Inr key))"
    if r: "setRemotePublicKey sha256 s pk = Some (Inr key, s')"
  proof -
    from r obtain P where P: "decompressPublicKey pk = Inr P"
      by (cases "decompressPublicKey pk") (auto simp: setRemotePublicKey_def)
    with r have k: "performECDH sha256 (privateKey s) P = Some (Inr key)"
      and s': "s' = s\<lparr>peerPublicKey := Some P, sessionKey := Some key\<rparr>"
      by (auto simp: setRemotePublicKey_def Let_def split: option.splits sum.splits)
    from s' have "getSessionKey s' = Inr key" by (simp add: getSessionKey_def)
    with P k show ?thesis by blast
  qed
  have d: "getSessionKey s' = Inl KeyNotDerived"
    if "sessionKey s = None \<and> setRemotePublicKey sha256 s pk = Some (Inl e, s')"
  proof -
    from that have "sessionKey s' = None"
      by (auto simp: setRemotePublicKey_def Let_def split: option.splits sum.splits)
    then show ?thesis by (rule a)
  qed
  from a b c d show ?thesis by blast
qed

text \<open>
  The session with private key \<open>1\<close>, the identity function standing in for SHA-256:
  no key before the peer's key is set; a key after
  the peer key of the point with \<open>y = 1\<close>; and the peer key \<open>00\<close> (the identity) makes
  \<open>setRemotePublicKey\<close> throw, the shared secret being \<open>null\<close>.
\<close>

theorem getSessionKey_spec_witness:
  "new_ECDHSession (replicate 32 0) = Some (Inr demo_ecdh_session)
 \<and> getSessionKey demo_ecdh_session = Inl KeyNotDerived
 \<and> (\<exists>key s'. setRemotePublicKey (\<lambda>b. b) demo_ecdh_session demo_peer_key = Some (Inr key, s')
        \<and> getSessionKey s' = Inr key)
 \<and> (\<exists>e s'. setRemotePublicKey (\<lambda>b. b) demo_ecdh_session ''00'' = Some (Inl e, s')
        \<and> getSessionKey s' = Inl KeyNotDerived)"
proof -
  let ?s = demo_ecdh_session
  have n: "sessionKey ?s = None" by (simp add: demo_ecdh_session_def)
  from demo_peer_doubles obtain Q where "pointDouble (Point demo_peer_x 1) = Some (Inr Q)" ..
  then have m: "scalarMultiply 1 (Point demo_peer_x 1) = Some (Inr (Point demo_peer_x 1))"
    by (rule scalarMultiply_one)
  obtain key where key: "deriveSymmetricKey (\<lambda>b. b) (Some demo_peer_x) = Inr key"
    by (simp add: deriveSymmetricKey_def Let_def)
  let ?s' = "?s\<lparr>peerPublicKey := Some (Point demo_peer_x 1), sessionKey := Some key\<rparr>"
  have ok: "setRemotePublicKey (\<lambda>b. b) ?s demo_peer_key = Some (Inr key, ?s')"
    using m key
    by (simp add: setRemotePublicKey_def decompress_demo_peer_key performECDH_def
        computeSharedSecret_def demo_ecdh_session_def)
  let ?t = "?s\<lparr>peerPublicKey := Some Infinity\<rparr>"
  have bad: "setRemotePublicKey (\<lambda>b. b) ?s ''00'' = Some (Inl TypeError, ?t)"
    by (simp add: setRemotePublicKey_def decompressPublicKey_def performECDH_def
        computeSharedSecret_def scalarMultiply_def demo_ecdh_session_def deriveSymmetricKey_def
        scalarMultiply_loop.simps [of 1] scalarMultiply_loop.simps [of 0]
        pointAdd_def pointDouble_def)
  from getSessionKey_spec [of ?s "replicate 32 0" ?s "\<lambda>b. b" demo_peer_key key ?s' TypeError]
    new_ECDHSession_zero n ok
  have 1: "getSessionKey ?s = Inl KeyNotDerived" and 2: "getSessionKey ?s' = Inr key"
    by simp_all
  from getSessionKey_spec [of ?s "replicate 32 0" ?s "\<lambda>b. b" "''00''" key ?t TypeError] n bad
  have 3: "getSessionKey ?t = Inl KeyNotDerived" by simp
  from new_ECDHSession_zero 1 2 3 ok bad show ?thesis by blast
qed

section \<open>Primes: Fermat's little theorem and Pocklington's criterion\<close>

lemma is_prime_gt_1: "is_prime p \<Longrightarrow> 1 < p"
  by (simp add: is_prime_def)

lemma is_prime_divisor:
  assumes "is_prime p" and "0 < d" and "d dvd p"
  shows "d = 1 \<or> d = p"
proof -
  from assms have "d \<le> p" by (simp add: is_prime_def zdvd_imp_le)
  show ?thesis
  proof (rule ccontr)
    assume "\<not> (d = 1 \<or> d = p)"
    with \<open>d \<le> p\<close> assms(2) have "1 < d \<and> d < p" by linarith
    with assms(1,3) show False by (simp add: is_prime_def)
  qed
qed

lemma is_prime_coprime:
  assumes "is_prime p" and "\<not> p dvd a"
  shows "coprime a p"
proof -
  let ?g = "gcd a p"
  from assms(1) have "p \<noteq> 0" by (auto simp: is_prime_def)
  then have "0 < ?g" by (simp add: gcd_pos_int)
  moreover have "?g dvd p" by simp
  ultimately have "?g = 1 \<or> ?g = p" using assms(1) by (rule is_prime_divisor [rotated 1])
  moreover have "?g \<noteq> p"
  proof
    assume "?g = p"
    then have "p dvd a" by (metis gcd_dvd1)
    with assms(2) show False ..
  qed
  ultimately show ?thesis by (simp add: coprime_iff_gcd_eq_1)
qed

lemma is_prime_dvd_mult:
  assumes "is_prime p" and "p dvd a * b"
  shows "p dvd a \<or> p dvd b"
proof (cases "p dvd a")
  case True
  then show ?thesis ..
next
  case False
  with assms(1) have "coprime p a" by (simp add: is_prime_coprime coprime_commute)
  with assms(2) have "p dvd b" by (simp add: coprime_dvd_mult_right_iff)
  then show ?thesis ..
qed

lemma is_prime_dvd_power:
  assumes "is_prime p" and "p dvd a ^ n"
  shows "p dvd a"
  using assms(2)
proof (induction n)
  case 0
  with assms(1) show ?case by (auto simp: is_prime_def)
next
  case (Suc n)
  with is_prime_dvd_mult [OF assms(1), of a "a ^ n"] show ?case by auto
qed

lemma prime_factor:
  assumes "1 < n"
  shows "\<exists>q. is_prime q \<and> q dvd n"
  using assms
proof (induction "nat n" arbitrary: n rule: less_induct)
  case less
  show ?case
  proof (cases "is_prime n")
    case True
    then show ?thesis by auto
  next
    case False
    with less.prems obtain d where d: "1 < d" "d < n" "d dvd n"
      by (auto simp: is_prime_def)
    then have "nat d < nat n" by simp
    from less.hyps [OF this d(1)] obtain q where "is_prime q" "q dvd d" by auto
    with d(3) show ?thesis by (meson dvd_trans)
  qed
qed

lemma small_prime_factor:
  assumes "1 < n" and "\<not> is_prime n"
  shows "\<exists>q. is_prime q \<and> q dvd n \<and> q * q \<le> n"
proof -
  from assms obtain d where d: "1 < d" "d < n" "d dvd n"
    by (auto simp: is_prime_def)
  then obtain e where e: "n = d * e" by (auto elim: dvdE)
  have e1: "1 < e"
  proof -
    from d(1,2) e have "d * 1 < d * e" by simp
    with d(1) show ?thesis by (simp only: mult_less_cancel_left_pos)
  qed
  define m where "m = min d e"
  have m: "1 < m" "m dvd n" "m * m \<le> n"
  proof -
    show "1 < m" using d(1) e1 by (simp add: m_def)
    show "m dvd n" using e by (auto simp: m_def min_def)
    have "m * m \<le> d * e"
      using d(1) e1 by (intro mult_mono) (auto simp: m_def)
    then show "m * m \<le> n" using e by simp
  qed
  from prime_factor [OF m(1)] obtain q where q: "is_prime q" "q dvd m" by auto
  from q(2) m(1) have "q \<le> m" by (simp add: zdvd_imp_le)
  moreover from q(1) have "0 < q" by (simp add: is_prime_def)
  ultimately have "q * q \<le> m * m" by (intro mult_mono) auto
  with m(3) have "q * q \<le> n" by simp
  moreover from q(2) m(2) have "q dvd n" by (rule dvd_trans)
  ultimately show ?thesis using q(1) by auto
qed


lemma is_prime_dvd_binomial:
  assumes "is_prime p" and "0 < k" and "int k < p"
  shows "p dvd int (nat p choose k)"
proof -
  have "k * (nat p choose k) = nat p * ((nat p - 1) choose (k - 1))"
    using assms(2) by (rule times_binomial_minus1_eq)
  then have "int k * int (nat p choose k) = int (nat p) * int ((nat p - 1) choose (k - 1))"
    by (metis of_nat_mult)
  moreover from assms(1) have "int (nat p) = p" by (simp add: is_prime_def)
  ultimately have "p dvd int k * int (nat p choose k)" by simp
  then have "p dvd int k \<or> p dvd int (nat p choose k)"
    by (rule is_prime_dvd_mult [OF assms(1)])
  moreover have "\<not> p dvd int k"
  proof
    assume "p dvd int k"
    with assms(2) have "p \<le> int k" by (simp add: zdvd_imp_le)
    with assms(3) show False by simp
  qed
  ultimately show ?thesis by simp
qed

lemma fermat_step:
  assumes "is_prime p"
  shows "((a + 1) ^ nat p) mod p = (a ^ nat p + 1) mod p"
proof -
  let ?n = "nat p"
  from assms have n: "0 < ?n" "int ?n = p" by (simp_all add: is_prime_def)
  have "(a + 1) ^ ?n = (\<Sum>k\<le>?n. int (?n choose k) * a ^ k * 1 ^ (?n - k))"
    by (simp only: binomial_ring of_nat_id)
  also have "\<dots> = (\<Sum>k\<le>?n. int (?n choose k) * a ^ k)"
    by simp
  also have "{..?n} = insert 0 (insert ?n {0<..<?n})"
    using n(1) by auto
  also have "(\<Sum>k\<in>insert 0 (insert ?n {0<..<?n}). int (?n choose k) * a ^ k)
      = 1 + a ^ ?n + (\<Sum>k\<in>{0<..<?n}. int (?n choose k) * a ^ k)"
    using n(1) by simp
  finally have e: "(a + 1) ^ ?n = a ^ ?n + 1 + (\<Sum>k\<in>{0<..<?n}. int (?n choose k) * a ^ k)"
    by simp
  have "p dvd (\<Sum>k\<in>{0<..<?n}. int (?n choose k) * a ^ k)"
  proof (rule dvd_sum)
    fix k assume "k \<in> {0<..<?n}"
    then have "0 < k" "int k < p" using n(2) by auto
    from is_prime_dvd_binomial [OF assms this] show "p dvd int (?n choose k) * a ^ k"
      by simp
  qed
  then obtain m where "(\<Sum>k\<in>{0<..<?n}. int (?n choose k) * a ^ k) = p * m" ..
  with e have "(a + 1) ^ ?n = a ^ ?n + 1 + p * m" by simp
  then show ?thesis by simp
qed

lemma fermat_nonneg:
  assumes "is_prime p"
  shows "(int a ^ nat p) mod p = int a mod p"
proof (induction a)
  case 0
  from assms have "nat p \<noteq> 0" by (simp add: is_prime_def)
  then show ?case by (simp add: power_0_left)
next
  case (Suc a)
  have "(int (Suc a)) ^ nat p mod p = ((int a + 1) ^ nat p) mod p"
    by (simp add: add.commute)
  also have "\<dots> = (int a ^ nat p + 1) mod p"
    by (rule fermat_step [OF assms])
  also have "\<dots> = ((int a ^ nat p) mod p + 1) mod p"
    by (simp add: mod_add_left_eq)
  also have "\<dots> = (int a mod p + 1) mod p"
    by (simp only: Suc.IH)
  also have "\<dots> = (int a + 1) mod p"
    by (rule mod_add_left_eq)
  also have "\<dots> = int (Suc a) mod p"
    by (simp add: add.commute)
  finally show ?case .
qed

lemma fermat_power_p:
  assumes "is_prime p"
  shows "(a ^ nat p) mod p = a mod p"
proof -
  from assms have p: "0 < p" by (simp add: is_prime_def)
  then have "0 \<le> a mod p" by simp
  then obtain b where b: "a mod p = int b" by (metis nonneg_int_cases)
  have "(a ^ nat p) mod p = ((a mod p) ^ nat p) mod p"
    by (simp add: power_mod)
  also have "\<dots> = int b mod p"
    unfolding b by (rule fermat_nonneg [OF assms])
  also have "\<dots> = a mod p"
    using b [symmetric] by simp
  finally show ?thesis .
qed

lemma fermat_little:
  assumes "is_prime p" and "\<not> p dvd a"
  shows "a ^ nat (p - 1) mod p = 1"
proof -
  from assms(1) have p: "1 < p" by (simp add: is_prime_def)
  then have n: "nat p = Suc (nat (p - 1))" by simp
  have "(a * a ^ nat (p - 1)) mod p = (a * 1) mod p"
    using fermat_power_p [OF assms(1), of a] by (simp add: n)
  then have "p dvd a * a ^ nat (p - 1) - a * 1"
    by (simp add: mod_eq_dvd_iff)
  then have "p dvd a * (a ^ nat (p - 1) - 1)"
    by (simp add: right_diff_distrib)
  with is_prime_dvd_mult [OF assms(1)] assms(2) have "p dvd a ^ nat (p - 1) - 1"
    by blast
  then have "a ^ nat (p - 1) mod p = 1 mod p"
    by (simp add: mod_eq_dvd_iff)
  with p show ?thesis by simp
qed


lemma one_mod_int: "1 < r \<Longrightarrow> (1::int) mod r = 1"
  by (simp add: mod_pos_pos_trivial)

lemma power_mod_one_mult:
  assumes "(a::int) ^ n mod r = 1"
  shows "a ^ (n * k) mod r = 1 mod r"
proof -
  have "a ^ (n * k) mod r = ((a ^ n) ^ k) mod r"
    by (simp only: power_mult)
  also have "\<dots> = ((a ^ n mod r) ^ k) mod r"
    by (simp add: power_mod)
  finally show ?thesis using assms by simp
qed

lemma power_gcd_one:
  assumes n: "(a::int) ^ n mod r = 1" and m: "a ^ m mod r = 1" and "n \<noteq> 0" and r: "1 < r"
  shows "a ^ gcd n m mod r = 1"
proof -
  from bezout_nat [OF \<open>n \<noteq> 0\<close>, of m] obtain x y where b: "n * x = m * y + gcd n m"
    by blast
  have "a ^ (n * x) mod r = 1" using power_mod_one_mult [OF n, of x] r by (simp add: one_mod_int)
  moreover have "a ^ (m * y + gcd n m) mod r = ((a ^ (m * y) mod r) * a ^ gcd n m) mod r"
    by (simp add: power_add mod_mult_left_eq)
  moreover have "a ^ (m * y) mod r = 1" using power_mod_one_mult [OF m, of y] r by (simp add: one_mod_int)
  ultimately show ?thesis using b by simp
qed

lemma pocklington_factor:
  assumes r: "is_prime r" "r dvd N" and N: "1 < N"
    and q: "is_prime q" "q dvd N - 1"
    and a: "a ^ nat (N - 1) mod N = 1"
    and c: "coprime (a ^ nat ((N - 1) div q) - 1) N"
  shows "q dvd r - 1"
proof (rule ccontr)
  assume nq: "\<not> q dvd r - 1"
  from r(1) have r1: "1 < r" by (simp add: is_prime_def)
  let ?n = "nat (N - 1)" and ?m = "nat (r - 1)"
  have n0: "?n \<noteq> 0" using N by simp
  have an: "a ^ ?n mod r = 1"
  proof -
    have "a ^ ?n mod r = (a ^ ?n mod N) mod r"
      using r(2) by (simp add: mod_mod_cancel)
    with a r1 show ?thesis by simp
  qed
  have "\<not> r dvd a"
  proof
    assume "r dvd a"
    moreover have "a dvd a ^ ?n" using n0 by (intro dvd_power) simp
    ultimately have "r dvd a ^ ?n" by (rule dvd_trans)
    then have "a ^ ?n mod r = 0" by simp
    with an show False by simp
  qed
  with r(1) have am: "a ^ ?m mod r = 1" by (rule fermat_little)
  let ?g = "gcd ?n ?m"
  from power_gcd_one [OF an am n0 r1] have ag: "a ^ ?g mod r = 1" .
  have "int ?g dvd r - 1"
  proof -
    have "?g dvd ?m" by simp
    then have "int ?g dvd int ?m" by (simp only: int_dvd_int_iff)
    with r1 show ?thesis by simp
  qed
  with nq have "\<not> q dvd int ?g" by (meson dvd_trans)
  with q(1) have "coprime (int ?g) q" by (rule is_prime_coprime)
  then have cop: "coprime q (int ?g)" by (simp add: coprime_commute)
  let ?k = "(N - 1) div q"
  from q(2) have k: "N - 1 = q * ?k" by simp
  have "int ?g dvd N - 1"
  proof -
    have "?g dvd ?n" by simp
    then have "int ?g dvd int ?n" by (simp only: int_dvd_int_iff)
    with N show ?thesis by simp
  qed
  with k have "int ?g dvd q * ?k" by simp
  with cop have gk: "int ?g dvd ?k"
    by (simp add: coprime_dvd_mult_right_iff coprime_commute)
  from q(1) have "0 < q" by (simp add: is_prime_def)
  with N k have k0: "0 \<le> ?k" by (simp add: pos_imp_zdiv_nonneg_iff)
  from gk k0 have "?g dvd nat ?k"
    by (metis int_dvd_int_iff int_nat_eq)
  then obtain j where j: "nat ?k = ?g * j" ..
  have "a ^ nat ?k mod r = 1"
    using power_mod_one_mult [OF ag, of j] r1 by (simp add: j one_mod_int)
  then have "r dvd a ^ nat ?k - 1"
    using r1 by (simp add: mod_eq_dvd_iff [of _ r 1, symmetric])
  with r(2) c have "is_unit r"
    by (meson coprime_common_divisor)
  with r1 show False by simp
qed

lemma is_prime_distinct_coprime:
  assumes "is_prime p" "is_prime q" "p \<noteq> q"
  shows "coprime p q"
proof -
  have "\<not> q dvd p"
  proof
    assume "q dvd p"
    moreover from assms(2) have "0 < q" "q \<noteq> 1" by (simp_all add: is_prime_def)
    ultimately show False using is_prime_divisor [OF assms(1), of q] assms(3) by auto
  qed
  with assms(2) show ?thesis by (rule is_prime_coprime)
qed

lemma distinct_primes_prod_dvd:
  assumes "distinct qs" and "\<forall>q \<in> set qs. is_prime q \<and> q dvd M"
  shows "prod_list qs dvd M"
  using assms
proof (induction qs)
  case Nil
  then show ?case by simp
next
  case (Cons q qs)
  then have IH: "prod_list qs dvd M" by simp
  from Cons.prems have q: "is_prime q" "q dvd M" by simp_all
  have "coprime q (prod_list qs)"
  proof (rule prod_list_coprime_right)
    fix x assume x: "x \<in> set qs"
    with Cons.prems have "is_prime x" "q \<noteq> x" by auto
    with q(1) show "coprime q x" by (simp add: is_prime_distinct_coprime)
  qed
  with q(2) IH show ?case by (simp add: divides_mult)
qed

theorem pocklington:
  assumes N: "1 < N"
    and qs: "\<forall>q \<in> set qs. is_prime q \<and> q dvd N - 1
                \<and> coprime (a ^ nat ((N - 1) div q) - 1) N"
    and d: "distinct qs"
    and a: "a ^ nat (N - 1) mod N = 1"
    and big: "N < prod_list qs * prod_list qs"
  shows "is_prime N"
proof (rule ccontr)
  assume "\<not> is_prime N"
  from small_prime_factor [OF N this] obtain r where
    r: "is_prime r" "r dvd N" "r * r \<le> N" by blast
  have "\<forall>q \<in> set qs. is_prime q \<and> q dvd r - 1"
    using qs pocklington_factor [OF r(1,2) N _ _ a] by blast
  with d have "prod_list qs dvd r - 1" by (rule distinct_primes_prod_dvd)
  moreover from r(1) have "0 < r - 1" by (simp add: is_prime_def)
  ultimately have le: "prod_list qs \<le> r - 1" by (rule zdvd_imp_le)
  have "0 \<le> prod_list qs"
  proof (rule prod_list_nonneg)
    fix x assume "x \<in> set qs"
    with qs show "0 \<le> x" by (auto simp: is_prime_def)
  qed
  with le have "prod_list qs * prod_list qs \<le> (r - 1) * (r - 1)"
    by (intro mult_mono) auto
  also have "\<dots> < r * r"
    using \<open>0 < r - 1\<close> by (simp add: algebra_simps)
  finally show False using big r(3) by simp
qed

lemma is_prime_small:
  assumes "1 < p \<and> list_all (\<lambda>d. p mod d \<noteq> 0) [2..p - 1]"
  shows "is_prime p"
  using assms by (auto simp: is_prime_def list_all_iff mod_eq_0_iff_dvd)

lemma double_mod_eq:
  assumes "0 \<le> y" and "y < N"
  shows "double_mod N y = (2 * y) mod N"
proof (cases "2 * y < N")
  case True
  with assms show ?thesis by (simp add: double_mod_def mod_pos_pos_trivial)
next
  case False
  with assms have "0 \<le> 2 * y - N" "2 * y - N < N" by simp_all
  then have "(2 * y - N) mod N = 2 * y - N" by (rule mod_pos_pos_trivial)
  moreover have "(2 * y - N) mod N = (2 * y) mod N" by simp
  ultimately have "(2 * y) mod N = 2 * y - N" by (simp only:)
  with False show ?thesis by (simp add: double_mod_def)
qed

lemma pow2_chain_sound_aux:
  assumes "1 < N"
  shows "0 \<le> e \<Longrightarrow> pow2mod N e = x \<Longrightarrow> pow2_chain (N + c) c (x, e) cert = Some (x', e')
           \<Longrightarrow> pow2mod N e' = x' \<and> 0 \<le> e'"
proof (induction cert arbitrary: x e)
  case Nil
  then show ?case by simp
next
  case (Cons s cert)
  obtain b k where s: "s = (b, k)" by (cases s)
  define y where "y = x * x - k * (N + c) + k * c"
  have y: "y = x * x - k * N" by (simp add: y_def algebra_simps)
  from Cons.prems(3) have range: "0 \<le> y" "y < N"
    by (auto simp: s y_def [symmetric] Let_def split: if_splits)
  from Cons.prems(3) range
  have next_call:
    "pow2_chain (N + c) c (if b then (double_mod N y, 2 * e + 1) else (y, 2 * e)) cert
       = Some (x', e')"
    by (cases b) (simp_all add: s y_def [symmetric] Let_def)
  have "y mod N = (x * x) mod N"
    by (simp add: y mod_diff_right_eq [symmetric, of "x * x" "k * N" N])
  with range have ysq: "y = (x * x) mod N" by (simp add: mod_pos_pos_trivial)
  have "(x * x) mod N = 2 ^ nat (2 * e) mod N"
  proof -
    have "nat (2 * e) = nat e + nat e" using Cons.prems(1) by simp
    then have "(2::int) ^ nat (2 * e) = 2 ^ nat e * 2 ^ nat e" by (simp add: power_add)
    then show ?thesis
      using Cons.prems(2) unfolding pow2mod_def by (metis mod_mult_eq)
  qed
  with ysq have y2: "pow2mod N (2 * e) = y" by (simp add: pow2mod_def)
  show ?case
  proof (cases b)
    case False
    with next_call have "pow2_chain (N + c) c (y, 2 * e) cert = Some (x', e')" by simp
    moreover have "0 \<le> 2 * e" using Cons.prems(1) by simp
    ultimately show ?thesis using y2 by (rule Cons.IH [rotated 2])
  next
    case True
    with next_call
    have "pow2_chain (N + c) c (double_mod N y, 2 * e + 1) cert = Some (x', e')" by simp
    moreover have "0 \<le> 2 * e + 1" using Cons.prems(1) by simp
    moreover have "pow2mod N (2 * e + 1) = double_mod N y"
    proof -
      have "nat (2 * e + 1) = Suc (nat (2 * e))" using Cons.prems(1) by simp
      then have "(2::int) ^ nat (2 * e + 1) mod N = (2 * (2 ^ nat (2 * e) mod N)) mod N"
        by (simp add: mod_mult_right_eq)
      also have "\<dots> = (2 * y) mod N" using y2 by (simp only: pow2mod_def)
      also have "\<dots> = double_mod N y" using range by (simp add: double_mod_eq)
      finally show ?thesis by (simp only: pow2mod_def)
    qed
    ultimately show ?thesis by (rule Cons.IH [rotated 2])
  qed
qed

lemma pow2_chain_sound:
  assumes "B = N + c" and "1 < N" and "0 \<le> e"
    and "pow2mod N e = x" and "pow2_chain B c (x, e) cert = Some (x', e')"
  shows "pow2mod N e' = x'"
  using pow2_chain_sound_aux [OF assms(2,3,4), of c cert x' e'] assms(1,5) by simp

lemma pock_factorI:
  assumes "is_prime q" and "N - 1 = q * m" and "pow2mod N m = x"
    and "u * (x - 1) + v * N = 1"
  shows "pock_factor N q"
proof -
  define A where "A = (2::int) ^ nat m"
  define D where "D = A div N"
  have "A mod N = x" using assms(3) by (simp add: A_def pow2mod_def)
  then have A: "A = N * D + x" unfolding D_def by (metis mult_div_mod_eq)
  have "u * (A - 1) + (v - u * D) * N = u * (x - 1) + v * N"
    unfolding A by (simp add: algebra_simps)
  with assms(4) have b: "u * (A - 1) + (v - u * D) * N = 1" by simp
  have "coprime (A - 1) N"
  proof (rule coprimeI)
    fix d assume "d dvd A - 1" "d dvd N"
    then have "d dvd u * (A - 1) + (v - u * D) * N" by simp
    with b show "is_unit d" by simp
  qed
  moreover from assms(1) have "q \<noteq> 0" by (auto simp: is_prime_def)
  with assms(2) have "(N - 1) div q = m" by simp
  ultimately show ?thesis
    using assms(1,2) by (simp add: pock_factor_def A_def)
qed

lemma pocklington_base2:
  assumes "1 < N" and "list_all (pock_factor N) qs" and "distinct qs"
    and "pow2mod N e = 1" and "e = N - 1" and "N < prod_list qs * prod_list qs"
  shows "is_prime N"
proof (rule pocklington [where a = 2 and qs = qs])
  show "1 < N" by fact
  show "\<forall>q\<in>set qs. is_prime q \<and> q dvd N - 1 \<and> coprime (2 ^ nat ((N - 1) div q) - 1) N"
    using assms(2) by (simp add: list_all_iff pock_factor_def)
  show "distinct qs" by fact
  show "2 ^ nat (N - 1) mod N = 1" using assms(4,5) by (simp add: pow2mod_def)
  show "N < prod_list qs * prod_list qs" by fact
qed

section \<open>The field prime is a prime\<close>

text \<open>
  A chain of Pocklington certificates, base \<open>2\<close> throughout, from primes below 200 (found
  prime by trial division) up to \<open>CURVE.p\<close>. For each number \<open>N\<close> of the chain the powers
  \<open>2 ^ (N - 1)\<close> and \<open>2 ^ ((N - 1) div q)\<close> modulo \<open>N\<close> are checked by repeated squaring,
  sixteen squarings to a lemma.
\<close>

lemma p0_prime: "is_prime 53"
  by (rule is_prime_small) code_simp

lemma p1_prime: "is_prime 29"
  by (rule is_prime_small) code_simp

lemma p2_prime: "is_prime 7"
  by (rule is_prime_small) code_simp

text \<open>The number 107590001.\<close>

lemma p3_a_0: "pow2mod 107590001 1 = 2"
  by (simp add: pow2mod_def)

lemma p3_a_c1:
  "pow2_chain 107590001 0 (2, 1)
     [(True, 0), (False, 0), (False, 0), (True, 0), (True, 10464726), (False, 25205767), (True, 9695613), (False, 52732226), (False, 56857484), (True, 48861207), (True, 45984273), (False, 101317510), (True, 42681096), (True, 6062430), (False, 9877833), (False, 6117839)]
   = Some (76230450, 105068)"
  by code_simp

lemma p3_a_1: "pow2mod 107590001 105068 = 76230450"
  by (rule pow2_chain_sound [OF _ _ _ p3_a_0 p3_a_c1]) simp_all

lemma p3_a_c2:
  "pow2_chain 107590001 0 (76230450, 105068)
     [(False, 54011352), (True, 77835208), (False, 85400649), (True, 48790090), (True, 48442203), (True, 2541423), (False, 102568249), (False, 3903225), (False, 107589999), (False, 0)]
   = Some (1, 107590000)"
  by code_simp

lemma p3_a_2: "pow2mod 107590001 107590000 = 1"
  by (rule pow2_chain_sound [OF _ _ _ p3_a_1 p3_a_c2]) simp_all

lemma p3_q0_0: "pow2mod 107590001 1 = 2"
  by (simp add: pow2mod_def)

lemma p3_q0_c1:
  "pow2_chain 107590001 0 (2, 1)
     [(True, 0), (True, 0), (True, 0), (False, 9), (True, 103316920), (True, 43694632), (True, 104249335), (True, 92617350), (True, 26726281), (False, 4264316), (False, 18757964), (True, 180239), (True, 65692453), (False, 12485615), (True, 38084903), (True, 33183019)]
   = Some (81575212, 126875)"
  by code_simp

lemma p3_q0_1: "pow2mod 107590001 126875 = 81575212"
  by (rule pow2_chain_sound [OF _ _ _ p3_q0_0 p3_q0_c1]) simp_all

lemma p3_q0_c2:
  "pow2_chain 107590001 0 (81575212, 126875)
     [(False, 61850684), (False, 32832337), (False, 77112418), (False, 339838)]
   = Some (26896163, 2030000)"
  by code_simp

lemma p3_q0_2: "pow2mod 107590001 2030000 = 26896163"
  by (rule pow2_chain_sound [OF _ _ _ p3_q0_1 p3_q0_c2]) simp_all

lemma p3_f0: "pock_factor 107590001 53"
proof (rule pock_factorI [OF p0_prime _ p3_q0_2])
  show "(107590001::int) - 1 = 53 * 2030000" by code_simp
  show "(-31877030) * (26896163 - 1) + (7968861) * 107590001 = (1::int)" by code_simp
qed

lemma p3_q1_0: "pow2mod 107590001 1 = 2"
  by (simp add: pow2mod_def)

lemma p3_q1_c1:
  "pow2_chain 107590001 0 (2, 1)
     [(True, 0), (True, 0), (False, 0), (False, 2), (False, 26360659), (True, 25691780), (False, 68318081), (False, 2231563), (True, 1563489), (True, 35289655), (True, 8925366), (False, 1180), (False, 9929352), (False, 94935105), (False, 69885122), (True, 53039981)]
   = Some (86264669, 115937)"
  by code_simp

lemma p3_q1_1: "pow2mod 107590001 115937 = 86264669"
  by (rule pow2_chain_sound [OF _ _ _ p3_q1_0 p3_q1_c1]) simp_all

lemma p3_q1_c2:
  "pow2_chain 107590001 0 (86264669, 115937)
     [(True, 69166214), (False, 34490598), (False, 1509913), (False, 56887639), (False, 83352379)]
   = Some (68236646, 3710000)"
  by code_simp

lemma p3_q1_2: "pow2mod 107590001 3710000 = 68236646"
  by (rule pow2_chain_sound [OF _ _ _ p3_q1_1 p3_q1_c2]) simp_all

lemma p3_f1: "pock_factor 107590001 29"
proof (rule pock_factorI [OF p1_prime _ p3_q1_2])
  show "(107590001::int) - 1 = 29 * 3710000" by code_simp
  show "(-7504781) * (68236646 - 1) + (4759746) * 107590001 = (1::int)" by code_simp
qed

lemma p3_q2_0: "pow2mod 107590001 1 = 2"
  by (simp add: pow2mod_def)

lemma p3_q2_c1:
  "pow2_chain 107590001 0 (2, 1)
     [(True, 0), (True, 0), (False, 0), (True, 2), (False, 105442637), (True, 98054831), (False, 60479924), (True, 81203948), (False, 29561622), (False, 17391012), (False, 1569278), (False, 744513), (True, 83857978), (True, 53963993), (True, 82264658), (False, 32384372)]
   = Some (43224464, 120078)"
  by code_simp

lemma p3_q2_1: "pow2mod 107590001 120078 = 43224464"
  by (rule pow2_chain_sound [OF _ _ _ p3_q2_0 p3_q2_c1]) simp_all

lemma p3_q2_c2:
  "pow2_chain 107590001 0 (43224464, 120078)
     [(False, 17365501), (False, 3055692), (True, 66501047), (False, 10942389), (False, 2222500), (False, 11022841), (False, 35636176)]
   = Some (95730224, 15370000)"
  by code_simp

lemma p3_q2_2: "pow2mod 107590001 15370000 = 95730224"
  by (rule pow2_chain_sound [OF _ _ _ p3_q2_1 p3_q2_c2]) simp_all

lemma p3_f2: "pock_factor 107590001 7"
proof (rule pock_factorI [OF p2_prime _ p3_q2_2])
  show "(107590001::int) - 1 = 7 * 15370000" by code_simp
  show "(4923006) * (95730224 - 1) + (-4380337) * 107590001 = (1::int)" by code_simp
qed

lemma p3_prime: "is_prime 107590001"
proof (rule pocklington_base2 [OF _ _ _ p3_a_2])
  show "(1::int) < 107590001" by simp
  show "list_all (pock_factor 107590001) [53, 29, 7]"
    using p3_f0 p3_f1 p3_f2 by simp
  show "distinct ([53, 29, 7] :: int list)" by simp
  show "(107590000::int) = 107590001 - 1" by simp
  show "(107590001::int) < prod_list [53, 29, 7] * prod_list [53, 29, 7]" by code_simp
qed

lemma p4_prime: "is_prime 19"
  by (rule is_prime_small) code_simp

lemma p5_prime: "is_prime 11"
  by (rule is_prime_small) code_simp

text \<open>The number 419.\<close>

lemma p6_a_0: "pow2mod 419 1 = 2"
  by (simp add: pow2mod_def)

lemma p6_a_c1:
  "pow2_chain 419 0 (2, 1)
     [(True, 0), (False, 0), (True, 9), (False, 127), (False, 52), (False, 32), (True, 5), (False, 417)]
   = Some (1, 418)"
  by code_simp

lemma p6_a_1: "pow2mod 419 418 = 1"
  by (rule pow2_chain_sound [OF _ _ _ p6_a_0 p6_a_c1]) simp_all

lemma p6_q0_0: "pow2mod 419 1 = 2"
  by (simp add: pow2mod_def)

lemma p6_q0_c1:
  "pow2_chain 419 0 (2, 1)
     [(False, 0), (True, 0), (True, 2), (False, 330)]
   = Some (114, 22)"
  by code_simp

lemma p6_q0_1: "pow2mod 419 22 = 114"
  by (rule pow2_chain_sound [OF _ _ _ p6_q0_0 p6_q0_c1]) simp_all

lemma p6_f0: "pock_factor 419 19"
proof (rule pock_factorI [OF p4_prime _ p6_q0_1])
  show "(419::int) - 1 = 19 * 22" by code_simp
  show "(89) * (114 - 1) + (-24) * 419 = (1::int)" by code_simp
qed

lemma p6_q1_0: "pow2mod 419 1 = 2"
  by (simp add: pow2mod_def)

lemma p6_q1_c1:
  "pow2_chain 419 0 (2, 1)
     [(False, 0), (False, 0), (True, 0), (True, 20), (False, 33)]
   = Some (334, 38)"
  by code_simp

lemma p6_q1_1: "pow2mod 419 38 = 334"
  by (rule pow2_chain_sound [OF _ _ _ p6_q1_0 p6_q1_c1]) simp_all

lemma p6_f1: "pock_factor 419 11"
proof (rule pock_factorI [OF p5_prime _ p6_q1_1])
  show "(419::int) - 1 = 11 * 38" by code_simp
  show "(190) * (334 - 1) + (-151) * 419 = (1::int)" by code_simp
qed

lemma p6_prime: "is_prime 419"
proof (rule pocklington_base2 [OF _ _ _ p6_a_1])
  show "(1::int) < 419" by simp
  show "list_all (pock_factor 419) [19, 11]"
    using p6_f0 p6_f1 by simp
  show "distinct ([19, 11] :: int list)" by simp
  show "(418::int) = 419 - 1" by simp
  show "(419::int) < prod_list [19, 11] * prod_list [19, 11]" by code_simp
qed

text \<open>The number 20113.\<close>

lemma p7_a_0: "pow2mod 20113 1 = 2"
  by (simp add: pow2mod_def)

lemma p7_a_c1:
  "pow2_chain 20113 0 (2, 1)
     [(False, 0), (False, 0), (True, 0), (True, 13), (True, 90), (False, 1027), (True, 18248), (False, 9578), (False, 7262), (True, 5788), (False, 20111), (False, 0), (False, 0), (False, 0)]
   = Some (1, 20112)"
  by code_simp

lemma p7_a_1: "pow2mod 20113 20112 = 1"
  by (rule pow2_chain_sound [OF _ _ _ p7_a_0 p7_a_c1]) simp_all

lemma p7_q0_0: "pow2mod 20113 1 = 2"
  by (simp add: pow2mod_def)

lemma p7_q0_c1:
  "pow2_chain 20113 0 (2, 1)
     [(True, 0), (False, 0), (False, 0), (False, 834), (False, 439)]
   = Some (15069, 48)"
  by code_simp

lemma p7_q0_1: "pow2mod 20113 48 = 15069"
  by (rule pow2_chain_sound [OF _ _ _ p7_q0_0 p7_q0_c1]) simp_all

lemma p7_f0: "pock_factor 20113 419"
proof (rule pock_factorI [OF p6_prime _ p7_q0_1])
  show "(20113::int) - 1 = 419 * 48" by code_simp
  show "(-3002) * (15069 - 1) + (2249) * 20113 = (1::int)" by code_simp
qed

lemma p7_prime: "is_prime 20113"
proof (rule pocklington_base2 [OF _ _ _ p7_a_1])
  show "(1::int) < 20113" by simp
  show "list_all (pock_factor 20113) [419]"
    using p7_f0 by simp
  show "distinct ([419] :: int list)" by simp
  show "(20112::int) = 20113 - 1" by simp
  show "(20113::int) < prod_list [419] * prod_list [419]" by code_simp
qed

text \<open>The number 1206781.\<close>

lemma p8_a_0: "pow2mod 1206781 1 = 2"
  by (simp add: pow2mod_def)

lemma p8_a_c1:
  "pow2_chain 1206781 0 (2, 1)
     [(False, 0), (False, 0), (True, 0), (False, 0), (False, 56944), (True, 241162), (True, 337851), (False, 53929), (True, 9905), (False, 340304), (False, 733473), (True, 815424), (True, 1076), (True, 837802), (True, 117521), (True, 104722)]
   = Some (565487, 75423)"
  by code_simp

lemma p8_a_1: "pow2mod 1206781 75423 = 565487"
  by (rule pow2_chain_sound [OF _ _ _ p8_a_0 p8_a_c1]) simp_all

lemma p8_a_c2:
  "pow2_chain 1206781 0 (565487, 75423)
     [(True, 264982), (True, 306779), (False, 1186609), (False, 1206779)]
   = Some (1, 1206780)"
  by code_simp

lemma p8_a_2: "pow2mod 1206781 1206780 = 1"
  by (rule pow2_chain_sound [OF _ _ _ p8_a_1 p8_a_c2]) simp_all

lemma p8_q0_0: "pow2mod 1206781 1 = 2"
  by (simp add: pow2mod_def)

lemma p8_q0_c1:
  "pow2_chain 1206781 0 (2, 1)
     [(True, 0), (True, 0), (True, 0), (False, 889), (False, 691517)]
   = Some (78448, 60)"
  by code_simp

lemma p8_q0_1: "pow2mod 1206781 60 = 78448"
  by (rule pow2_chain_sound [OF _ _ _ p8_q0_0 p8_q0_c1]) simp_all

lemma p8_f0: "pock_factor 1206781 20113"
proof (rule pock_factorI [OF p7_prime _ p8_q0_1])
  show "(1206781::int) - 1 = 20113 * 60" by code_simp
  show "(-497422) * (78448 - 1) + (32335) * 1206781 = (1::int)" by code_simp
qed

lemma p8_prime: "is_prime 1206781"
proof (rule pocklington_base2 [OF _ _ _ p8_a_2])
  show "(1::int) < 1206781" by simp
  show "list_all (pock_factor 1206781) [20113]"
    using p8_f0 by simp
  show "distinct ([20113] :: int list)" by simp
  show "(1206780::int) = 1206781 - 1" by simp
  show "(1206781::int) < prod_list [20113] * prod_list [20113]" by code_simp
qed

text \<open>The number 7240687.\<close>

lemma p9_a_0: "pow2mod 7240687 1 = 2"
  by (simp add: pow2mod_def)

lemma p9_a_c1:
  "pow2_chain 7240687 0 (2, 1)
     [(True, 0), (False, 0), (True, 0), (True, 9), (True, 2084890), (False, 2104108), (False, 262171), (True, 363108), (True, 30911), (True, 2595605), (True, 278029), (False, 15610), (True, 4981099), (True, 72697), (True, 1408088), (True, 1971545)]
   = Some (5981541, 113135)"
  by code_simp

lemma p9_a_1: "pow2mod 7240687 113135 = 5981541"
  by (rule pow2_chain_sound [OF _ _ _ p9_a_0 p9_a_c1]) simp_all

lemma p9_a_c2:
  "pow2_chain 7240687 0 (5981541, 113135)
     [(True, 4941358), (False, 3401502), (True, 1987170), (True, 102188), (True, 6653076), (False, 0)]
   = Some (1, 7240686)"
  by code_simp

lemma p9_a_2: "pow2mod 7240687 7240686 = 1"
  by (rule pow2_chain_sound [OF _ _ _ p9_a_1 p9_a_c2]) simp_all

lemma p9_q0_0: "pow2mod 7240687 1 = 2"
  by (simp add: pow2mod_def)

lemma p9_q0_c1:
  "pow2_chain 7240687 0 (2, 1)
     [(True, 0), (False, 0)]
   = Some (64, 6)"
  by code_simp

lemma p9_q0_1: "pow2mod 7240687 6 = 64"
  by (rule pow2_chain_sound [OF _ _ _ p9_q0_0 p9_q0_c1]) simp_all

lemma p9_f0: "pock_factor 7240687 1206781"
proof (rule pock_factorI [OF p8_prime _ p9_q0_1])
  show "(7240687::int) - 1 = 1206781 * 6" by code_simp
  show "(-1494110) * (64 - 1) + (13) * 7240687 = (1::int)" by code_simp
qed

lemma p9_prime: "is_prime 7240687"
proof (rule pocklington_base2 [OF _ _ _ p9_a_2])
  show "(1::int) < 7240687" by simp
  show "list_all (pock_factor 7240687) [1206781]"
    using p9_f0 by simp
  show "distinct ([1206781] :: int list)" by simp
  show "(7240686::int) = 7240687 - 1" by simp
  show "(7240687::int) < prod_list [1206781] * prod_list [1206781]" by code_simp
qed

lemma p10_prime: "is_prime 17"
  by (rule is_prime_small) code_simp

text \<open>The number 239.\<close>

lemma p11_a_0: "pow2mod 239 1 = 2"
  by (simp add: pow2mod_def)

lemma p11_a_c1:
  "pow2_chain 239 0 (2, 1)
     [(True, 0), (True, 0), (False, 68), (True, 72), (True, 155), (True, 119), (False, 0)]
   = Some (1, 238)"
  by code_simp

lemma p11_a_1: "pow2mod 239 238 = 1"
  by (rule pow2_chain_sound [OF _ _ _ p11_a_0 p11_a_c1]) simp_all

lemma p11_q0_0: "pow2mod 239 1 = 2"
  by (simp add: pow2mod_def)

lemma p11_q0_c1:
  "pow2_chain 239 0 (2, 1)
     [(True, 0), (True, 0), (False, 68)]
   = Some (132, 14)"
  by code_simp

lemma p11_q0_1: "pow2mod 239 14 = 132"
  by (rule pow2_chain_sound [OF _ _ _ p11_q0_0 p11_q0_c1]) simp_all

lemma p11_f0: "pock_factor 239 17"
proof (rule pock_factorI [OF p10_prime _ p11_q0_1])
  show "(239::int) - 1 = 17 * 14" by code_simp
  show "(104) * (132 - 1) + (-57) * 239 = (1::int)" by code_simp
qed

lemma p11_prime: "is_prime 239"
proof (rule pocklington_base2 [OF _ _ _ p11_a_1])
  show "(1::int) < 239" by simp
  show "list_all (pock_factor 239) [17]"
    using p11_f0 by simp
  show "distinct ([17] :: int list)" by simp
  show "(238::int) = 239 - 1" by simp
  show "(239::int) < prod_list [17] * prod_list [17]" by code_simp
qed

lemma p12_prime: "is_prime 101"
  by (rule is_prime_small) code_simp

text \<open>The number 96557.\<close>

lemma p13_a_0: "pow2mod 96557 1 = 2"
  by (simp add: pow2mod_def)

lemma p13_a_c1:
  "pow2_chain 96557 0 (2, 1)
     [(False, 0), (True, 0), (True, 0), (True, 43), (True, 74309), (False, 677), (False, 40886), (True, 9774), (False, 83469), (False, 12249), (True, 71296), (False, 4734), (True, 22223), (True, 48221), (False, 33225), (False, 96555)]
   = Some (1, 96556)"
  by code_simp

lemma p13_a_1: "pow2mod 96557 96556 = 1"
  by (rule pow2_chain_sound [OF _ _ _ p13_a_0 p13_a_c1]) simp_all

lemma p13_q0_0: "pow2mod 96557 1 = 2"
  by (simp add: pow2mod_def)

lemma p13_q0_c1:
  "pow2_chain 96557 0 (2, 1)
     [(True, 0), (False, 0), (False, 0), (True, 173), (False, 25021), (True, 43369), (False, 8273), (False, 91830)]
   = Some (29586, 404)"
  by code_simp

lemma p13_q0_1: "pow2mod 96557 404 = 29586"
  by (rule pow2_chain_sound [OF _ _ _ p13_q0_0 p13_q0_c1]) simp_all

lemma p13_f0: "pock_factor 96557 239"
proof (rule pock_factorI [OF p11_prime _ p13_q0_1])
  show "(96557::int) - 1 = 239 * 404" by code_simp
  show "(8329) * (29586 - 1) + (-2552) * 96557 = (1::int)" by code_simp
qed

lemma p13_q1_0: "pow2mod 96557 1 = 2"
  by (simp add: pow2mod_def)

lemma p13_q1_c1:
  "pow2_chain 96557 0 (2, 1)
     [(True, 0), (True, 0), (False, 0), (True, 2780), (True, 2027), (True, 1885), (True, 330), (False, 19529), (False, 49267)]
   = Some (63065, 956)"
  by code_simp

lemma p13_q1_1: "pow2mod 96557 956 = 63065"
  by (rule pow2_chain_sound [OF _ _ _ p13_q1_0 p13_q1_c1]) simp_all

lemma p13_f1: "pock_factor 96557 101"
proof (rule pock_factorI [OF p12_prime _ p13_q1_1])
  show "(96557::int) - 1 = 101 * 956" by code_simp
  show "(-46112) * (63065 - 1) + (30117) * 96557 = (1::int)" by code_simp
qed

lemma p13_prime: "is_prime 96557"
proof (rule pocklington_base2 [OF _ _ _ p13_a_1])
  show "(1::int) < 96557" by simp
  show "list_all (pock_factor 96557) [239, 101]"
    using p13_f0 p13_f1 by simp
  show "distinct ([239, 101] :: int list)" by simp
  show "(96556::int) = 96557 - 1" by simp
  show "(96557::int) < prod_list [239, 101] * prod_list [239, 101]" by code_simp
qed

text \<open>The number 255515944373312847190720520512484175977.\<close>

lemma p14_a_0: "pow2mod 255515944373312847190720520512484175977 1 = 2"
  by (simp add: pow2mod_def)

lemma p14_a_c1:
  "pow2_chain 255515944373312847190720520512484175977 0 (2, 1)
     [(True, 0), (False, 0), (False, 0), (False, 0), (False, 0), (False, 0), (False, 24566379803742249345), (False, 14610306825015486936207942625559247229), (False, 36949249960270170451221735682029689424), (True, 24585793494887671998), (True, 184901752158420527241247474598422559), (True, 267243119913084690147030845429364068), (False, 2693280521724855079127552412004393494), (True, 139180221899703503727266792028787637501), (False, 409696260215894889297275876140432803), (True, 242096224950005592273524830302518180605)]
   = Some (12698290031915882013083085899832193301, 98421)"
  by code_simp

lemma p14_a_1: "pow2mod 255515944373312847190720520512484175977 98421 = 12698290031915882013083085899832193301"
  by (rule pow2_chain_sound [OF _ _ _ p14_a_0 p14_a_c1]) simp_all

lemma p14_a_c2:
  "pow2_chain 255515944373312847190720520512484175977 0 (12698290031915882013083085899832193301, 98421)
     [(False, 631062652978987706908550617408150575), (False, 71093233522435237645872549396223918451), (True, 181339519698558097884704452426427453013), (False, 182658270305190462036011640926073297641), (True, 56303035490423472196803717485919693547), (False, 156916383439228507258315167603071460596), (False, 193826173722551988141431441894089304947), (True, 2884005876658903067657935626208665845), (False, 25713994213331247004676466350723166380), (True, 29276475280251769630290783167703250585), (True, 100817527949667206440548315686527162897), (False, 332689154630972619752383429784532060), (False, 17326617149185966709812261176907147600), (True, 142595520948289773248378479358665162752), (False, 215254844958142521227607225043665337055), (True, 19293740171650450120260136747665810)]
   = Some (62361696166074177822623366576755942532, 6450129253)"
  by code_simp

lemma p14_a_2: "pow2mod 255515944373312847190720520512484175977 6450129253 = 62361696166074177822623366576755942532"
  by (rule pow2_chain_sound [OF _ _ _ p14_a_1 p14_a_c2]) simp_all

lemma p14_a_c3:
  "pow2_chain 255515944373312847190720520512484175977 0 (62361696166074177822623366576755942532, 6450129253)
     [(True, 15220111442548131838112167081733905642), (False, 120229159385353803132218638050074302821), (True, 6734824616119988417223543788946126452), (False, 12482511459773290283009316364721360673), (False, 36943523457650433689158398155817970119), (True, 195188380432028949875150250231664381517), (True, 115586947826758880483213766099545984674), (True, 34939089989674737190677073376038324161), (True, 5563716458100572728523151839783985222), (True, 20837215373208797248072184197641165555), (False, 180443828704674929602587859124335524158), (False, 54896565852545077672966582959702395438), (True, 91820977515636777166954787585928045236), (True, 44399612942784616402779871640072304205), (False, 54415461963441692113198525082625049769), (False, 141607619020017962837147654757608536425)]
   = Some (9983898558043467700132339094353176336, 422715670767564)"
  by code_simp

lemma p14_a_3: "pow2mod 255515944373312847190720520512484175977 422715670767564 = 9983898558043467700132339094353176336"
  by (rule pow2_chain_sound [OF _ _ _ p14_a_2 p14_a_c3]) simp_all

lemma p14_a_c4:
  "pow2_chain 255515944373312847190720520512484175977 0 (9983898558043467700132339094353176336, 422715670767564)
     [(True, 390105715953564753099492765302862317), (False, 13126748001705909956530436615073356031), (False, 147260834454076757005048838346915139), (False, 828324179198374651238376291445812109), (True, 16419843879941070547033849763389507387), (False, 208409615992736836714958370023112244519), (False, 13108820705891649125572483590541046829), (False, 16179210254874490583000704288299619170), (False, 1201109796873465525848258603747804698), (False, 156673645095843433774121489116348867817), (True, 3827129781381252301536283145869370149), (True, 3396137486083718530622092526521973229), (False, 376449639752616031171928224220933784), (False, 193382343350735385194077924046831050193), (True, 155376193114626919142230292958783100171), (True, 4947212216333398895974250274010881937)]
   = Some (199560282884013589022947527527635337463, 27703094199423109171)"
  by code_simp

lemma p14_a_4: "pow2mod 255515944373312847190720520512484175977 27703094199423109171 = 199560282884013589022947527527635337463"
  by (rule pow2_chain_sound [OF _ _ _ p14_a_3 p14_a_c4]) simp_all

lemma p14_a_c5:
  "pow2_chain 255515944373312847190720520512484175977 0 (199560282884013589022947527527635337463, 27703094199423109171)
     [(False, 155858400940191754149037352775175915879), (True, 122249958600690633611629025911397569054), (False, 97267586506047739752244781775265269044), (False, 91609559198368713579541640481488335349), (False, 5979202410340614293126886356779184233), (False, 34429868919289443940530168916459218738), (False, 32223071392100459148536850777397403494), (False, 74612242513437841465925080255621984748), (True, 1070872977406649139669114016432955871), (False, 215539748669413048380415238106587746869), (True, 5081246302139006512662932176564833634), (True, 233156593424723088441921905256369432404), (True, 13794824744953609638182889066064395278), (False, 237802953527380702955239696132617431345), (False, 17120951023211313858543903730852177181), (True, 12411520260213165005664628549570618981)]
   = Some (10556857642951359471806204924711222237, 1815549981453392882647225)"
  by code_simp

lemma p14_a_5: "pow2mod 255515944373312847190720520512484175977 1815549981453392882647225 = 10556857642951359471806204924711222237"
  by (rule pow2_chain_sound [OF _ _ _ p14_a_4 p14_a_c5]) simp_all

lemma p14_a_c6:
  "pow2_chain 255515944373312847190720520512484175977 0 (10556857642951359471806204924711222237, 1815549981453392882647225)
     [(True, 436165514316062966268842633007924058), (False, 150242952391364413637711401702773389035), (True, 21636629783945700498519154084204510853), (True, 107528339015295627636341063513962339961), (False, 33601766556972791819205638352265337338), (False, 25690265886087465213074731156730180298), (False, 188318994630056294920325949651992897536), (True, 164300911490235210434643910471678226922), (True, 134802530406657162537752814980951421796), (False, 7083892592818767285713405357071148838), (False, 38037258182654992438174965723189499120), (True, 25511373723772432996713706899952955820), (True, 2289283010696897324010837535463014269), (False, 48679638927452581128035024802768146888), (False, 132956794685344399134158711212270308920), (True, 13759108232029192158334486484498510)]
   = Some (207709412782537676500635426537277462660, 118983883584529555957168583065)"
  by code_simp

lemma p14_a_6: "pow2mod 255515944373312847190720520512484175977 118983883584529555957168583065 = 207709412782537676500635426537277462660"
  by (rule pow2_chain_sound [OF _ _ _ p14_a_5 p14_a_c6]) simp_all

lemma p14_a_c7:
  "pow2_chain 255515944373312847190720520512484175977 0 (207709412782537676500635426537277462660, 118983883584529555957168583065)
     [(False, 168847389403745882256642855617090921860), (True, 245131167487970023970949808994666934281), (True, 99682611653502087016191450382262063386), (True, 118794367550871644421120755276910295), (True, 168449575286697187015415217181169600127), (True, 27799809548110325588245922226052145938), (True, 163801037195009894312183660661540209318), (True, 92326209843860292512272355684599455226), (False, 121311172122134333016416875070172917210), (False, 108269111452805675994124971452926951231), (True, 10217276371726269470758033942316555858), (True, 186063542778610148935037187240593037481), (False, 962864693348123604718005577862504656), (False, 71146477091755847188136502538936452962), (False, 34239851023091510423681352000681708236), (False, 24847860716651885851582936251411568941)]
   = Some (111961108817268241116430038589274960587, 7797727794595728979209000259780400)"
  by code_simp

lemma p14_a_7: "pow2mod 255515944373312847190720520512484175977 7797727794595728979209000259780400 = 111961108817268241116430038589274960587"
  by (rule pow2_chain_sound [OF _ _ _ p14_a_6 p14_a_c7]) simp_all

lemma p14_a_c8:
  "pow2_chain 255515944373312847190720520512484175977 0 (111961108817268241116430038589274960587, 7797727794595728979209000259780400)
     [(True, 49058738460868504357320960754656971961), (True, 118633159127804683366207001088651989663), (True, 1324820244628199556439413144425076261), (False, 43028994497377127828332868946333652408), (False, 14837304689172726868984441174555406110), (False, 202603244497155552462308440796403832959), (False, 158727558002247209068094756800629715913), (False, 8047612181460457418689672835071569067), (True, 65692955454512887232356118961180141532), (True, 50929662299624950440760169203596604392), (False, 73383088134649900444115742467793992336), (True, 108475539214167800120579640058119031183), (False, 124086544165663215338441986460605545025), (False, 255515944373312847190720520512484175975), (False, 0)]
   = Some (1, 255515944373312847190720520512484175976)"
  by code_simp

lemma p14_a_8: "pow2mod 255515944373312847190720520512484175977 255515944373312847190720520512484175976 = 1"
  by (rule pow2_chain_sound [OF _ _ _ p14_a_7 p14_a_c8]) simp_all

lemma p14_q0_0: "pow2mod 255515944373312847190720520512484175977 1 = 2"
  by (simp add: pow2mod_def)

lemma p14_q0_c1:
  "pow2_chain 255515944373312847190720520512484175977 0 (2, 1)
     [(True, 0), (True, 0), (False, 0), (True, 0), (True, 0), (True, 0), (True, 1728705295780869887611362426295192), (True, 67108064247377672327476753469858820297), (True, 254148461943707289822278152215500123177), (False, 146345925063028580650480709592123234699), (False, 43300538450320718474859067922392793938), (True, 172484589394259038440102160162591183947), (True, 150573273086434469689049591495683921899), (False, 107051707546674325652964344852226551195), (True, 176829507359185287621715099315968414081), (True, 1404123755907057323949307620540206569)]
   = Some (140895826273951344678988147920053289879, 122779)"
  by code_simp

lemma p14_q0_1: "pow2mod 255515944373312847190720520512484175977 122779 = 140895826273951344678988147920053289879"
  by (rule pow2_chain_sound [OF _ _ _ p14_q0_0 p14_q0_c1]) simp_all

lemma p14_q0_c2:
  "pow2_chain 255515944373312847190720520512484175977 0 (140895826273951344678988147920053289879, 122779)
     [(True, 77692348749931339482249822156582944490), (False, 214849390742979531510678320011475759822), (True, 156569638394210147166468054781568384400), (False, 242021446384486415758359894033000487406), (True, 92010994810131043311127268066673824299), (False, 81929298152514434571515035231742342392), (True, 9662310859301629323210367199355766836), (True, 1946155755999164253978640202403550679), (False, 198473670628428478930929079206596597775), (True, 70595415337214859520108311148297227698), (False, 7777141421665799007481091944063901629), (False, 20885997987957383229902133412206854297), (False, 5778979548343018529665370084587144332), (True, 109465278727875305907120535033803331873), (False, 174670868963371536518089320508336176837), (False, 32838709500830364879020472634183316713)]
   = Some (155668976390723463726473780740870434943, 8046488388)"
  by code_simp

lemma p14_q0_2: "pow2mod 255515944373312847190720520512484175977 8046488388 = 155668976390723463726473780740870434943"
  by (rule pow2_chain_sound [OF _ _ _ p14_q0_1 p14_q0_c2]) simp_all

lemma p14_q0_c3:
  "pow2_chain 255515944373312847190720520512484175977 0 (155668976390723463726473780740870434943, 8046488388)
     [(False, 94838818258366960769294301671544674908), (False, 71555480166795662573488823956374120551), (True, 7173320848835392517208880467839813966), (True, 509688966023179266900275027023340141), (False, 30039008991409224798330930438997088023), (False, 87203101550382067646707978518880644342), (False, 156906394817301094179883521102050290980), (False, 22912272104086743920112147486307924314), (True, 117229958424630877115924805435562868404), (True, 33615963778029663869321818535585255295), (True, 23825195395059866511625695825747066285), (False, 146190871565657765345569888088672296829), (True, 16462644324814319951495733633341519517), (True, 33117799941797450469480099425213506152), (False, 172008367120311649072115795418889483114), (True, 226626963943104202362734551211442150540)]
   = Some (121522704742780614940606581082821693831, 527334663008493)"
  by code_simp

lemma p14_q0_3: "pow2mod 255515944373312847190720520512484175977 527334663008493 = 121522704742780614940606581082821693831"
  by (rule pow2_chain_sound [OF _ _ _ p14_q0_2 p14_q0_c3]) simp_all

lemma p14_q0_c4:
  "pow2_chain 255515944373312847190720520512484175977 0 (121522704742780614940606581082821693831, 527334663008493)
     [(True, 57795875729872618985584141687746576960), (True, 173161679301165327697436397176671714815), (True, 46155786320793677905521663754260530240), (True, 80515525512609587228504785299349619433), (False, 99677507270527197037263805341110013894), (True, 195653508556252323318436048172064454112), (False, 966564533459308500423060730412645740), (False, 84906493813802114072671900144630069710), (False, 12264861607235552297702249412733817572), (True, 54925432288157501791923877901265523049), (False, 4451681379856021732307624982398625879), (True, 5726609502630080090414342668714898808), (True, 32438589368540208512253558999931683643), (True, 60893622763297473618564212509455903912), (True, 224472349949082565316927951969880988162), (True, 51182030490298803950350104214496244568)]
   = Some (37354045813969772171391611626672379759, 34559404474924659807)"
  by code_simp

lemma p14_q0_4: "pow2mod 255515944373312847190720520512484175977 34559404474924659807 = 37354045813969772171391611626672379759"
  by (rule pow2_chain_sound [OF _ _ _ p14_q0_3 p14_q0_c4]) simp_all

lemma p14_q0_c5:
  "pow2_chain 255515944373312847190720520512484175977 0 (37354045813969772171391611626672379759, 34559404474924659807)
     [(True, 5460812796220501552239787518882540307), (True, 243838225262346092199376138633743500074), (True, 124952454623055423863517472267365470839), (True, 5042943674506312175998394943404326711), (False, 80708381405238195587493003354432584713), (False, 2593322097003191108544365964928517129), (True, 14448599934976575539144632909764933010), (False, 181479173387918313712659498192053933), (False, 52814302102655036075642694611192002854), (False, 96595677053044329535340661729165264513), (False, 17815639915313153224225463948862828157), (False, 67116930988245186977805196799698434607), (True, 14723069861452551818804351714379804685), (True, 72377399665935170185172296514250695462), (False, 100483679579594355676248457458403237642), (True, 239263743345327588093004723868305457)]
   = Some (200004652753354200362533318669631398957, 2264885131668662505173517)"
  by code_simp

lemma p14_q0_5: "pow2mod 255515944373312847190720520512484175977 2264885131668662505173517 = 200004652753354200362533318669631398957"
  by (rule pow2_chain_sound [OF _ _ _ p14_q0_4 p14_q0_c5]) simp_all

lemma p14_q0_c6:
  "pow2_chain 255515944373312847190720520512484175977 0 (200004652753354200362533318669631398957, 2264885131668662505173517)
     [(True, 156553287588763699196817970104582151904), (False, 2971465033337081113535150597507718772), (False, 39215802319153663214824484283152762265), (False, 509186024943377597355254406219182551), (True, 34392835604388233042160482358197875130), (True, 35452722052392443581249502603873478454), (False, 63103802877313830957233371279421173079), (False, 172615077376056433431863688730941598500), (False, 245980098876732603564719672942090863292), (False, 98202624662931066776603717129432020921), (True, 3750150585633626026764585792169756160), (False, 147737575047230162002010821334827114571), (True, 855955329885269269458494192027349471), (True, 218805959463953311710835592882383723589), (True, 43296342847941044542165441893229124905), (False, 20140685236376920191445325110661233822)]
   = Some (210818363350331137024961338216790584931, 148431511989037465939051645998)"
  by code_simp

lemma p14_q0_6: "pow2mod 255515944373312847190720520512484175977 148431511989037465939051645998 = 210818363350331137024961338216790584931"
  by (rule pow2_chain_sound [OF _ _ _ p14_q0_5 p14_q0_c6]) simp_all

lemma p14_q0_c7:
  "pow2_chain 255515944373312847190720520512484175977 0 (210818363350331137024961338216790584931, 148431511989037465939051645998)
     [(True, 173939761116348556674710384323431333927), (False, 180502645652683664387257285635960295496), (False, 133528776566131692435872518920831666), (False, 1846846558831222692174286551892198178)]
   = Some (82381214149343919061612748413412685903, 2374904191824599455024826335976)"
  by code_simp

lemma p14_q0_7: "pow2mod 255515944373312847190720520512484175977 2374904191824599455024826335976 = 82381214149343919061612748413412685903"
  by (rule pow2_chain_sound [OF _ _ _ p14_q0_6 p14_q0_c7]) simp_all

lemma p14_f0: "pock_factor 255515944373312847190720520512484175977 107590001"
proof (rule pock_factorI [OF p3_prime _ p14_q0_7])
  show "(255515944373312847190720520512484175977::int) - 1 = 107590001 * 2374904191824599455024826335976" by code_simp
  show "(-20434581617977675058516805285726109250) * (82381214149343919061612748413412685903 - 1) + (6588338933023115121485257253925995413) * 255515944373312847190720520512484175977 = (1::int)" by code_simp
qed

lemma p14_q1_0: "pow2mod 255515944373312847190720520512484175977 1 = 2"
  by (simp add: pow2mod_def)

lemma p14_q1_c1:
  "pow2_chain 255515944373312847190720520512484175977 0 (2, 1)
     [(True, 0), (False, 0), (True, 0), (True, 0), (True, 0), (True, 0), (False, 26377949459546964837819861241), (True, 1496985419807370232877506514040570634), (False, 89011048671186438288527623117368502), (True, 98349296608889390456828025596925670220), (True, 38219469488543091177162901691064076430), (False, 134308865447403958509167781150357755949), (True, 139834044545743747073250650826940802391), (False, 82174109908319696676410417375892211883), (False, 112021948254015322600551746081822841430), (False, 123027862010831328125096933960757918877)]
   = Some (45868653240380168217988212390849322271, 114024)"
  by code_simp

lemma p14_q1_1: "pow2mod 255515944373312847190720520512484175977 114024 = 45868653240380168217988212390849322271"
  by (rule pow2_chain_sound [OF _ _ _ p14_q1_0 p14_q1_c1]) simp_all

lemma p14_q1_c2:
  "pow2_chain 255515944373312847190720520512484175977 0 (45868653240380168217988212390849322271, 114024)
     [(True, 8234058955680503887641331995911866937), (False, 2791934455280999720567926027909563646), (False, 246502492713968845027820667513688638724), (True, 4836692524949725586015720300574485), (True, 925584616629923896010135788480111128), (True, 74963597238684183386195798283709346939), (False, 63933182323559029928510928342073271473), (True, 1009515103308906763364155752628106916), (False, 159666749264955551000942553428812551768), (True, 88117179412524440260379019531148942859), (False, 3548062913180738233727732704980145080), (True, 2506343978238627211764944607718056158), (False, 215740855812640275933884381123768286911), (True, 149101529881675112979998678593811807953), (False, 6916597429682745464595505389632300992), (True, 186561506025979446924422190389345690759)]
   = Some (18726302913202429512298503746842265922, 7472717141)"
  by code_simp

lemma p14_q1_2: "pow2mod 255515944373312847190720520512484175977 7472717141 = 18726302913202429512298503746842265922"
  by (rule pow2_chain_sound [OF _ _ _ p14_q1_1 p14_q1_c2]) simp_all

lemma p14_q1_c3:
  "pow2_chain 255515944373312847190720520512484175977 0 (18726302913202429512298503746842265922, 7472717141)
     [(False, 1372416980306610173217036508142338871), (False, 128925878449152371296806922496337103963), (False, 1158481910384006090861046903227177723), (True, 23947795901734785182014383979261482068), (True, 147753149506137208990287663741156684659), (False, 130253266723001894652175379604153932767), (False, 69325324708240955132701645573427374600), (True, 234722931743271230631564438140868103124), (True, 14337644535397598469100258853469743625), (True, 7058376145822132135467976028479739374), (True, 143437670808738824451051107500951857285), (False, 26379147541803809108492257277794779492), (False, 22404821947427985059349619945817549423), (True, 25545797051866275820318389744390357083), (False, 21978549629430294324130621876748447977), (False, 45605845825829581792689990769920838121)]
   = Some (36300746573802945571239079664896740783, 489731990559204)"
  by code_simp

lemma p14_q1_3: "pow2mod 255515944373312847190720520512484175977 489731990559204 = 36300746573802945571239079664896740783"
  by (rule pow2_chain_sound [OF _ _ _ p14_q1_2 p14_q1_c3]) simp_all

lemma p14_q1_c4:
  "pow2_chain 255515944373312847190720520512484175977 0 (36300746573802945571239079664896740783, 489731990559204)
     [(True, 5157189720772262702919076871472124215), (True, 32273707737463897608837481929287071329), (True, 15534737858375793273538848146643396149), (True, 3842523233947148878619890649424737002), (False, 17661372736795641792194885410048114742), (False, 26178063794700565152999344050094691768), (False, 2518586994153733646133557125087269664), (True, 50011808786999257384322783441355565315), (True, 49875426491404458159754862132735087828), (True, 191771764423546698848656856671452449393), (False, 137246688518582416157875799535386802631), (True, 63237174601126124781800804728530075716), (True, 108067475402529141225267639531538144752), (True, 97413421565840497566071413604809727062), (False, 61671047030276417818320581014616174254), (False, 117629877616559735758358567777075117816)]
   = Some (235692727601034117800288964308280782529, 32095075733288055260)"
  by code_simp

lemma p14_q1_4: "pow2mod 255515944373312847190720520512484175977 32095075733288055260 = 235692727601034117800288964308280782529"
  by (rule pow2_chain_sound [OF _ _ _ p14_q1_3 p14_q1_c4]) simp_all

lemma p14_q1_c5:
  "pow2_chain 255515944373312847190720520512484175977 0 (235692727601034117800288964308280782529, 32095075733288055260)
     [(False, 217407418469566374538108836697640596676), (True, 131593113017557297198827236472732349707), (False, 23420020587670763911148943926296263706), (True, 76148603855669268024604964513237909), (False, 6583121287661600908898706992132666395), (True, 209060682072755643754577292851234807671), (True, 608182633090213223643531891255944), (True, 90415358147670461716055073171177220492), (True, 50443476018258717683031851261331625264), (False, 98652364941549990268566532382831960948), (True, 101827059297403654010925787609949006582), (True, 1287040275133573338820227710585373023), (True, 50811386409320360386042321920000113069), (False, 86782212751714340530234834437679854541), (True, 28597419650897177083578567608093351057), (False, 148023930762742299135126468332689297628)]
   = Some (194220468455944727448620855333294773700, 2103382883256765989541818)"
  by code_simp

lemma p14_q1_5: "pow2mod 255515944373312847190720520512484175977 2103382883256765989541818 = 194220468455944727448620855333294773700"
  by (rule pow2_chain_sound [OF _ _ _ p14_q1_4 p14_q1_c5]) simp_all

lemma p14_q1_c6:
  "pow2_chain 255515944373312847190720520512484175977 0 (194220468455944727448620855333294773700, 2103382883256765989541818)
     [(False, 147629105728661609917016358313417254578), (False, 104028977926901659417810937610694593588), (True, 226995500000858063125773535633848482005), (False, 220376489610296459931981272194259017776), (False, 119262144961437407281230077293736317329), (True, 42211642442682062722644786591757180554), (True, 180169763407119165458709106187437934090), (False, 35057969069242520455870870310057025621), (False, 13875601463092388944047318062480722773), (True, 197684117398996257318528532288475997931), (False, 128838915397496828814450233735568670187), (False, 16815190908622555235780372471461993671), (True, 53982372226042125571508072952617246174), (True, 13600757848679955227498866479048937146), (True, 560856979070568170611033479339472057), (False, 244365834984666469310153033339304246851)]
   = Some (109425801919768123565506786152973158222, 137847300637115415890612594254)"
  by code_simp

lemma p14_q1_6: "pow2mod 255515944373312847190720520512484175977 137847300637115415890612594254 = 109425801919768123565506786152973158222"
  by (rule pow2_chain_sound [OF _ _ _ p14_q1_5 p14_q1_c6]) simp_all

lemma p14_q1_c7:
  "pow2_chain 255515944373312847190720520512484175977 0 (109425801919768123565506786152973158222, 137847300637115415890612594254)
     [(False, 46862070213082735456700667475539066939), (False, 41635619715894099174621976943554700034), (False, 16683466714349391405320276113531860726), (True, 131918730912138242136706275916453284089), (True, 803059928420065642688906943840911198), (False, 39662714718619212649784115972841809295), (False, 83615112516797612093998251114030380894), (False, 31887033962467208190229398548298203565)]
   = Some (111233916942653821000329437866037388564, 35288908963101546467996824129048)"
  by code_simp

lemma p14_q1_7: "pow2mod 255515944373312847190720520512484175977 35288908963101546467996824129048 = 111233916942653821000329437866037388564"
  by (rule pow2_chain_sound [OF _ _ _ p14_q1_6 p14_q1_c7]) simp_all

lemma p14_f1: "pock_factor 255515944373312847190720520512484175977 7240687"
proof (rule pock_factorI [OF p9_prime _ p14_q1_7])
  show "(255515944373312847190720520512484175977::int) - 1 = 7240687 * 35288908963101546467996824129048" by code_simp
  show "(-79971550269287466041211257148389035036) * (111233916942653821000329437866037388564 - 1) + (34814065330626291403893160521781755597) * 255515944373312847190720520512484175977 = (1::int)" by code_simp
qed

lemma p14_q2_0: "pow2mod 255515944373312847190720520512484175977 1 = 2"
  by (simp add: pow2mod_def)

lemma p14_q2_c1:
  "pow2_chain 255515944373312847190720520512484175977 0 (2, 1)
     [(False, 0), (False, 0), (False, 0), (False, 0), (False, 0), (True, 0), (False, 5), (False, 27319469410168334320916585601006002305), (True, 0), (True, 349293), (True, 24076832941500518737300004613295568639), (True, 45658114382581714812650337477608278402), (False, 1794434275389905974774224119389840908), (False, 12025652785404342481496275331279503942), (False, 12592887627859861699541340799020582546), (True, 225945116621868356577222778035229905201)]
   = Some (17729011275520640505154125973424565447, 66801)"
  by code_simp

lemma p14_q2_1: "pow2mod 255515944373312847190720520512484175977 66801 = 17729011275520640505154125973424565447"
  by (rule pow2_chain_sound [OF _ _ _ p14_q2_0 p14_q2_c1]) simp_all

lemma p14_q2_c2:
  "pow2_chain 255515944373312847190720520512484175977 0 (17729011275520640505154125973424565447, 66801)
     [(False, 1230130047572744258664468369734212258), (True, 97007577872886208176823077458497135971), (False, 9445785126033261025835149142665501456), (False, 9058122114478036969722591540855763667), (False, 134060180815232995944987869849412960698), (False, 13166726113308300863596795599483974041), (True, 36172507824540787217978564558812314822), (False, 11956808038707413796954363769745126908), (True, 4908483357222014219185822497738211440), (False, 195652635107786420775168951099149716491), (False, 120933080558356802790052202110365818739), (False, 252219795710622679607924002363062084963), (True, 154985998195265935200588713897167098382), (False, 97977312123974705420556580701706826961), (False, 4561626390465659835585182996097676887), (True, 68986137464626564375320289222704934066)]
   = Some (58489725414427242908292112914512311509, 4377887369)"
  by code_simp

lemma p14_q2_2: "pow2mod 255515944373312847190720520512484175977 4377887369 = 58489725414427242908292112914512311509"
  by (rule pow2_chain_sound [OF _ _ _ p14_q2_1 p14_q2_c2]) simp_all

lemma p14_q2_c3:
  "pow2_chain 255515944373312847190720520512484175977 0 (58489725414427242908292112914512311509, 4377887369)
     [(True, 13388784748621756289488801175515415629), (True, 44932543388974741691479661350663261011), (False, 132671016822004742154993143162294116667), (True, 245900469124395201268852943235362384248), (False, 6713296006650784302209328312043712363), (False, 34463904622958697487783775075439632994), (False, 652442833540574466887282486794046874), (True, 152235563148555785300715275461279909177), (True, 90601216060137149677402541251063023955), (False, 81837734931431198429292276988952403193), (False, 24470541035300165033448121221350613325), (False, 237314842957820125622949674591392692014), (True, 38074109570371551806127478702364611875), (False, 114597329147077348690645481909493810583), (False, 16075778174482103277341256389720103134), (False, 141491848719602514052173457037763552413)]
   = Some (105707206993883940182144066813919498623, 286909226668424)"
  by code_simp

lemma p14_q2_3: "pow2mod 255515944373312847190720520512484175977 286909226668424 = 105707206993883940182144066813919498623"
  by (rule pow2_chain_sound [OF _ _ _ p14_q2_2 p14_q2_c3]) simp_all

lemma p14_q2_c4:
  "pow2_chain 255515944373312847190720520512484175977 0 (105707206993883940182144066813919498623, 286909226668424)
     [(True, 43731179429344787556112255938773482889), (True, 56262807487436329011367995337158391124), (True, 59358999651538113132136614403048048322), (True, 570568024987191148295275510182782365), (False, 6240714266759748374280123841237061143), (True, 43036243169662449416323153319882002575), (True, 147074075106886479177524705054712147735), (False, 120892038945770987015377639254285598889), (True, 32283934799807257114867055074484306682), (False, 110033698673882626194222669184434506), (False, 2509694582392570392655190715594319), (True, 139743288808377243520185893785741161983), (False, 228893940531288421474630954989181011400), (False, 84467572424874244376352750335325528966), (True, 41365083973844936766461721372914832031), (True, 56215438957439783165324005885679887815)]
   = Some (198313873906042750377372599599538533508, 18802883078941898387)"
  by code_simp

lemma p14_q2_4: "pow2mod 255515944373312847190720520512484175977 18802883078941898387 = 198313873906042750377372599599538533508"
  by (rule pow2_chain_sound [OF _ _ _ p14_q2_3 p14_q2_c4]) simp_all

lemma p14_q2_c5:
  "pow2_chain 255515944373312847190720520512484175977 0 (198313873906042750377372599599538533508, 18802883078941898387)
     [(True, 153917567375609321557926484369600877248), (True, 223179512715711942718232977459731821622), (True, 73186544238356735156196142420134905193), (True, 81091561852429772888991859450566629009), (True, 96788790812165988218244059560258531204), (False, 2340142646675007828274647135674191236), (False, 94449391718474105614283745089616902254), (False, 1006652914194948901113514258170959102), (False, 69687385562305159958875766022415566902), (True, 31267718387517696339489353556539362846), (False, 12435768963696180930747075518878731025), (True, 58979837939835565342125170234630507901), (False, 231338847509827558512289949161443503031), (True, 90233168148373947536745270223310808047), (True, 38016712639817584410091685873672171452), (False, 183253581595296619872625777544107715709)]
   = Some (241224020412542647068620052201358013407, 1232265745461536252754006)"
  by code_simp

lemma p14_q2_5: "pow2mod 255515944373312847190720520512484175977 1232265745461536252754006 = 241224020412542647068620052201358013407"
  by (rule pow2_chain_sound [OF _ _ _ p14_q2_4 p14_q2_c5]) simp_all

lemma p14_q2_c6:
  "pow2_chain 255515944373312847190720520512484175977 0 (241224020412542647068620052201358013407, 1232265745461536252754006)
     [(False, 227731495060737575142220768690418431535), (True, 117384280732334460737889740476006689279), (False, 116452689801887769080325321711972201447), (False, 13059614517735069531341623233211998655), (False, 74767277644908041608239120245326912068), (True, 163102637158756774806186998942950755293), (False, 74202874981289945552824305286862541909), (False, 165572706060574415328894107434853739965), (False, 105631503322860764716964744122426611144), (False, 28558474019974299313739560271028524390), (True, 46169990710063004377381787274531821587), (True, 97188350978384108684835525371355987782), (False, 166074887051185244502713814638898730), (False, 138464971819245559477989784029642277090), (True, 156039449457189885271961248857364), (True, 71445105284611393804408031624771443577)]
   = Some (169548144835425102499257846292652371584, 80757767894567239860486554675)"
  by code_simp

lemma p14_q2_6: "pow2mod 255515944373312847190720520512484175977 80757767894567239860486554675 = 169548144835425102499257846292652371584"
  by (rule pow2_chain_sound [OF _ _ _ p14_q2_5 p14_q2_c6]) simp_all

lemma p14_q2_c7:
  "pow2_chain 255515944373312847190720520512484175977 0 (169548144835425102499257846292652371584, 80757767894567239860486554675)
     [(False, 112504029788196262918104943357011643387), (True, 119313513280570093358094327843069622922), (False, 109804503818339641102471609560441279842), (False, 90387142173172622647181594689290144559), (False, 52471740730765244501434368747713101761), (True, 195943870924329768265551177286569247297), (True, 13357019192642166846451904803425129639), (False, 113058031546168797194928008600447839952), (False, 2763676988881205275078663490606704604), (False, 34884567204812597856830346847979683650), (False, 22810009665739189838834210196992549197), (True, 142077169160392573271062553394998435292), (False, 5225856433502904380901396607022694668), (False, 63874196346288347099671787301728038811), (False, 86863305148040860860403045264993419965)]
   = Some (47418180093458530687350227428022525796, 2646270538369179315748423423599368)"
  by code_simp

lemma p14_q2_7: "pow2mod 255515944373312847190720520512484175977 2646270538369179315748423423599368 = 47418180093458530687350227428022525796"
  by (rule pow2_chain_sound [OF _ _ _ p14_q2_6 p14_q2_c7]) simp_all

lemma p14_f2: "pock_factor 255515944373312847190720520512484175977 96557"
proof (rule pock_factorI [OF p13_prime _ p14_q2_7])
  show "(255515944373312847190720520512484175977::int) - 1 = 96557 * 2646270538369179315748423423599368" by code_simp
  show "(52333299885033245219942804006191421971) * (47418180093458530687350227428022525796 - 1) + (-9711917762783113719871713016506270872) * 255515944373312847190720520512484175977 = (1::int)" by code_simp
qed

lemma p14_prime: "is_prime 255515944373312847190720520512484175977"
proof (rule pocklington_base2 [OF _ _ _ p14_a_8])
  show "(1::int) < 255515944373312847190720520512484175977" by simp
  show "list_all (pock_factor 255515944373312847190720520512484175977) [107590001, 7240687, 96557]"
    using p14_f0 p14_f1 p14_f2 by simp
  show "distinct ([107590001, 7240687, 96557] :: int list)" by simp
  show "(255515944373312847190720520512484175976::int) = 255515944373312847190720520512484175977 - 1" by simp
  show "(255515944373312847190720520512484175977::int) < prod_list [107590001, 7240687, 96557] * prod_list [107590001, 7240687, 96557]" by code_simp
qed

text \<open>The number 205115282021455665897114700593932402728804164701536103180137503955397371.\<close>

lemma p15_a_0: "pow2mod 205115282021455665897114700593932402728804164701536103180137503955397371 1 = 2"
  by (simp add: pow2mod_def)

lemma p15_a_c1:
  "pow2_chain 205115282021455665897114700593932402728804164701536103180137503955397371 0 (2, 1)
     [(True, 0), (True, 0), (False, 0), (True, 0), (True, 0), (False, 0), (True, 0), (True, 1207937896128544097618648704366772946042378665466505183760520274562415), (True, 20549076288413847234197990390372473251137074037616329765480707069639931), (False, 35550820893513083319357632618014007560697337924119516414732938670256246), (False, 153801928288424932429004302207239922278790372939557213525951353341313833), (False, 106599407043613271137344244061538220835727348486686992572452894935157354), (False, 77764191842869196654283316579069886182340882023994734620420779054274563), (False, 122239961626743919853631709556371149272453072453767564328975925336865143), (True, 672305482384437662499200084487859702831721838981176641055764242416008), (False, 52914076501360136073163226360808961266259598293920137990493577076837626)]
   = Some (11418665122751554659359162204955523932464609489602092329184865528237779, 121730)"
  by code_simp

lemma p15_a_1: "pow2mod 205115282021455665897114700593932402728804164701536103180137503955397371 121730 = 11418665122751554659359162204955523932464609489602092329184865528237779"
  by (rule pow2_chain_sound [OF _ _ _ p15_a_0 p15_a_c1]) simp_all

lemma p15_a_c2:
  "pow2_chain 205115282021455665897114700593932402728804164701536103180137503955397371 0 (11418665122751554659359162204955523932464609489602092329184865528237779, 121730)
     [(False, 635671374168522578499281874985757892023391936900839117321431547574031), (True, 106146003609082459655675773243407358966125160674839163465905715476130451), (True, 14902248493223685915356319099344711322387434862819264876492687498163855), (False, 2602231845868414776769982008874139398907128888983332413595286653067515), (False, 104541560287381565774061573952646123043638552169750360828552586163415561), (False, 61214778210210278438653890139409598619278089694932808314446483397925259), (False, 156313425558901106431435660056037145521669800918338107116131747892261988), (False, 263291567540687092922040248910968432113551858450247460252450407438429), (True, 151725105941897142772253226367233850365738060938271058793778374756530164), (True, 61796739949906605333827793006483885089452963746006290279627816511100870), (True, 19100152960380755826037239520106233435569353707819243530146459284779852), (False, 23640225574259813969248066083017097663331362858401388612326532668760099), (False, 78339991171244541547541835943906038472901177256613339720661431946835292), (True, 165895459562198000189886071185971442459324983815431085266476087533236178), (False, 67578274477604135220773042794734118356285333969088841448118023787848139), (True, 33638729211265111095679997008598699328683928021169295610907347069380470)]
   = Some (132301181903708909517160602566100579454573367042337167759705377617037468, 7977722085)"
  by code_simp

lemma p15_a_2: "pow2mod 205115282021455665897114700593932402728804164701536103180137503955397371 7977722085 = 132301181903708909517160602566100579454573367042337167759705377617037468"
  by (rule pow2_chain_sound [OF _ _ _ p15_a_1 p15_a_c2]) simp_all

lemma p15_a_c3:
  "pow2_chain 205115282021455665897114700593932402728804164701536103180137503955397371 0 (132301181903708909517160602566100579454573367042337167759705377617037468, 7977722085)
     [(True, 85335439469046217419058309722839298875881820727175788049574933430677390), (True, 104708056658120196533418147956606083667792643385623959522221007634344539), (True, 89157489766725830928457348921252706874282683694865741108846263293419790), (False, 178638600893928430619276058540622917144961917604864093870251107462491829), (False, 144625969870549160734219381152577993838185111292401470287269948085107020), (False, 161849043470783878430892672097333375135312602587025496623704540401651424), (True, 3015085046535383978747582383530987738616527840632629163513048570297407), (True, 91099563517840944596365498930364422802773235651337440104551063863640), (True, 121923462453317201416887979466297084659986663083959295194090594008118891), (False, 109880602717592283632219802003622727540751328029461136485032169941998067), (True, 27095141172874918555790343523169323940961504124156821320811816513783528), (True, 43274798098108712415798742758468055703391968627003702155462967201066398), (False, 74616474104034494287752749134261045479221394411870972003249443037412712), (True, 13892642821659977411774549652416550793065654245011248968187167768515794), (False, 136784138928211359896549933493873952018857762324427140833264453473079803), (False, 381735649311854888743245992683447945111616910780434885130024516346846)]
   = Some (4471078135824667661665963417707534952372735224723664154883939395502998, 522827994620852)"
  by code_simp

lemma p15_a_3: "pow2mod 205115282021455665897114700593932402728804164701536103180137503955397371 522827994620852 = 4471078135824667661665963417707534952372735224723664154883939395502998"
  by (rule pow2_chain_sound [OF _ _ _ p15_a_2 p15_a_c3]) simp_all

lemma p15_a_c4:
  "pow2_chain 205115282021455665897114700593932402728804164701536103180137503955397371 0 (4471078135824667661665963417707534952372735224723664154883939395502998, 522827994620852)
     [(False, 97460021016660843816860793998029516432820477475198227553590391709660), (True, 174731408505798420169847309307252656433972197895837515089237733828006982), (True, 45036075315294372702138506636358043550163425864963789800204256858533710), (False, 9312049606053250710553247367089434388885545470466594180994889905467446), (False, 142688537164908128876057664686329437151643800689331433009773933068821497), (False, 135134196767900701760058354535200356450404603041058185253391234893457674), (False, 190719075908720165586440593545887785116559221858117486032842910527056670), (False, 179687891075863828669675827693517432190833560052603699231919617191832340), (True, 202577612530040993879798592979483917944645892718995921398081161191430000), (False, 10244447655252534720060087446177735457363033663713972573920721996251526), (True, 58892448251657063094178399972912523465650356070261048547927084426497561), (False, 137931617492803464634968567448519465758537332169538581208081227602388566), (False, 129592952865862953177564100675061779516617803166992355821589955462922831), (True, 188532998000991484293431599227150373026002922439568527108852922713512588), (False, 23570943423523653684178866808218596928983647113867366409615704402263795), (False, 31078009042599797973736656377758491310648228716305917091396014463545468)]
   = Some (98962885562981968627659848888398066265448635588191303318078501146713772, 34264055455472181412)"
  by code_simp

lemma p15_a_4: "pow2mod 205115282021455665897114700593932402728804164701536103180137503955397371 34264055455472181412 = 98962885562981968627659848888398066265448635588191303318078501146713772"
  by (rule pow2_chain_sound [OF _ _ _ p15_a_3 p15_a_c4]) simp_all

lemma p15_a_c5:
  "pow2_chain 205115282021455665897114700593932402728804164701536103180137503955397371 0 (98962885562981968627659848888398066265448635588191303318078501146713772, 34264055455472181412)
     [(False, 47747065076932784939133169206244523582104474972849804195237803828952646), (True, 3999380115077678896234001100609422910083941157504487509952396297914027), (True, 45480848383182644149097761247337628853495516367189984119764852142217812), (False, 84213575092617589343314966192407256606033176403279527454161294019912261), (True, 31826661130134770374856960298591864529306461199245053660583789021778267), (False, 192217759208040327904546341648706257056119100304893699188641310465027173), (True, 78873445336951408717573230166411763792124168138404327305412004590641876), (False, 1933381957061895301469703113900055972756426325697295988391750890861594), (False, 5996776908720142948887928177128168878231705945279660372151302325715925), (False, 128347363441269616125514373716912323344610095932393169308866104861758712), (False, 73628579112335341175516070902954561335179778723508397582128502902198097), (False, 107131610223394808352223116238223033578597577172885283513733036968316824), (False, 61389509217632836918153453105214965191080605975062243876399373787735050), (False, 200547933386240573116404516548702184534686556226900587374918126995675784), (False, 193754018888963391981302977221273533168102292976152242558708518584793512), (False, 197977806650169810746818923829700536949925627612385780306319806736752414)]
   = Some (76472167110289535651032859745861294883219262532976567153064945834268630, 2245529138329824881043968)"
  by code_simp

lemma p15_a_5: "pow2mod 205115282021455665897114700593932402728804164701536103180137503955397371 2245529138329824881043968 = 76472167110289535651032859745861294883219262532976567153064945834268630"
  by (rule pow2_chain_sound [OF _ _ _ p15_a_4 p15_a_c5]) simp_all

lemma p15_a_c6:
  "pow2_chain 205115282021455665897114700593932402728804164701536103180137503955397371 0 (76472167110289535651032859745861294883219262532976567153064945834268630, 2245529138329824881043968)
     [(True, 28510758851855471563945402676946543681907435601910005995369793771250904), (False, 35563193451847905540223687970925212962693875947606623250999269498986789), (False, 102324205500075188504934297054020073907674006931897705720148444115520439), (False, 163323360205000350853678885539327411711932110808574591873900860236487217), (True, 2327568198556168113302849677640162117575248661583257216704033335512998), (False, 142186356878291886752409604644992421383110179152992105883449549050021281), (False, 14141310389613458622057396652268778103212702090898713338723205204886168), (False, 25957208215712234879831733246990029597637480959615635688568746570497699), (True, 57571261723301558650846549406820331350328745200855891357680180905715633), (True, 69856486540555983714782784709846433622293862685163903927860146337110812), (True, 6708125812939176714440218902077623796251102225625788532180288094295991), (True, 90002199488046088548087062740023717243259585909169437076581541646120038), (True, 50320792711489167439493218543433667061085383321395754788604658418924707), (True, 18416625006440357512649753509445307207726405907353121336492511236823194), (False, 160076075762308174178825747850904653466850374651430807613559412832172739), (False, 178878581014865757397503023213372666569626230301067563996141394750975438)]
   = Some (175319122268286918595207280466096657390546346113198691818798104454964551, 147162997609583403404097521916)"
  by code_simp

lemma p15_a_6: "pow2mod 205115282021455665897114700593932402728804164701536103180137503955397371 147162997609583403404097521916 = 175319122268286918595207280466096657390546346113198691818798104454964551"
  by (rule pow2_chain_sound [OF _ _ _ p15_a_5 p15_a_c6]) simp_all

lemma p15_a_c7:
  "pow2_chain 205115282021455665897114700593932402728804164701536103180137503955397371 0 (175319122268286918595207280466096657390546346113198691818798104454964551, 147162997609583403404097521916)
     [(True, 149851314490099174367852647339817680233399159975253906224401614026316880), (True, 154016530275544574836914804603767119627704647164833778030652939124624), (False, 57141316789019222323819882688949455094317587637083251009757199329538766), (False, 22716466532017075359952547289375741207085804606363529886668155065232496), (True, 12844028614732536027163222036721938071114363006835830944537359326992734), (True, 169735216417695246283867576036844718642219154174041166008413686153200336), (True, 69174663616376458535289260122849772780438393762385441606744494855019814), (True, 156980882477221859604303942750325723784850281994562941434060327843240011), (False, 103990467914848236947950523611253160188693705401152794812263932900222217), (True, 25182116093681979885452637969811685007699898218069022582929355680162507), (True, 51212301664700770483590662748952163647344597170308332829068749267927884), (False, 166449293616412508086244042531846415494998429921087583647455163392722574), (True, 14363560747496475354002937764372954277389032956048371703909266907858134), (False, 126843311920203221672855518743043953439938090349971219456564056464755318), (True, 162665205638422581698294212886013684868396510264190907732559406881801760), (False, 145563232581563199463406721993810469936945328341052046440854222217673526)]
   = Some (135561323979403484842717078337678783448090633230501645955341287900581138, 9644474211341657925490935196340074)"
  by code_simp

lemma p15_a_7: "pow2mod 205115282021455665897114700593932402728804164701536103180137503955397371 9644474211341657925490935196340074 = 135561323979403484842717078337678783448090633230501645955341287900581138"
  by (rule pow2_chain_sound [OF _ _ _ p15_a_6 p15_a_c7]) simp_all

lemma p15_a_c8:
  "pow2_chain 205115282021455665897114700593932402728804164701536103180137503955397371 0 (135561323979403484842717078337678783448090633230501645955341287900581138, 9644474211341657925490935196340074)
     [(False, 89592898090969735659264247852055971544280600848298581487053359702171225), (False, 42631339458992362934248208191429479325127436415789634650715346056940563), (True, 194527302346305156545692891966492670117202506992721072129298674182733515), (True, 5079842470737628115740358224659123582098975121065333861197160107117115), (True, 24151834714281346357347195632826789328485258342998716471547879985985232), (False, 146567035351998917354971481303361769644077353236796041126023513755754305), (True, 722833191335679533090757476251304800929084877919863815625969406588329), (False, 83129918212098261658691265477272521613963824064448920657969711225581928), (False, 77024722283745591147853861386310634990134077294396143315590209344565452), (True, 15334266334566941310503938486357088452071943692729473560426240026656517), (False, 5247995458023905522634746230953189730169056878899639875566789070822169), (True, 81009661183878019558673114819194031961137928227967145474240655847935268), (True, 138233528015076705736826379355902689476198118316004060277817485445059704), (False, 99974751579764443165560550183260343480602274382542868628389914519299999), (False, 35306269091134799578153378209516610263047846810901123854497019376995394), (True, 33875244293335814159024951241221374678081076152011750931073275330050758)]
   = Some (14677926130464032370762369441858508098364078510650930168005372125090564, 632060261914486893804973929027343104601)"
  by code_simp

lemma p15_a_8: "pow2mod 205115282021455665897114700593932402728804164701536103180137503955397371 632060261914486893804973929027343104601 = 14677926130464032370762369441858508098364078510650930168005372125090564"
  by (rule pow2_chain_sound [OF _ _ _ p15_a_7 p15_a_c8]) simp_all

lemma p15_a_c9:
  "pow2_chain 205115282021455665897114700593932402728804164701536103180137503955397371 0 (14677926130464032370762369441858508098364078510650930168005372125090564, 632060261914486893804973929027343104601)
     [(False, 1050343559817366616903490688924220447013751737678545408880868941672347), (False, 116039261467373823068193837220251954155846233208748379459543570290515554), (True, 82022270161817106212558847515354134822452058535784638118513496111491951), (True, 68949885936700008010018341123894026242093635012019690858657025105883324), (False, 93709823108563167516336333190752067248870037491393720714887969807680733), (True, 132915267289804749638357943804230890839912535672444219295954865686525698), (True, 3784781672075602725948232690853216280345724177851048289960314783012080), (False, 3404604545867750995967684289984611146993472884055592027433540724375952), (True, 454597807390504844133687927093754588712632654751965412155734473173405), (True, 182995351948896018667330717664844097202464809721709111199434883591914816), (False, 73082432735739417358410912235553086223095473591728934207312854848030028), (True, 6973728978885764836984213518150695791297555081206464139518432006304648), (False, 124086375172661656619327392739573164178839597759215790450191921108305936), (True, 192569355104995588371008485688388055729414315917067279151583830076503083), (True, 78169935570254911029990726258039255851105970340688130754368249223202696), (True, 23208066563171270115114191609111739078044004744086902385569490768287676)]
   = Some (45337171195820365733551583282745457563273645653347986593495694649921850, 41422701324827813072402771412735957703145175)"
  by code_simp

lemma p15_a_9: "pow2mod 205115282021455665897114700593932402728804164701536103180137503955397371 41422701324827813072402771412735957703145175 = 45337171195820365733551583282745457563273645653347986593495694649921850"
  by (rule pow2_chain_sound [OF _ _ _ p15_a_8 p15_a_c9]) simp_all

lemma p15_a_c10:
  "pow2_chain 205115282021455665897114700593932402728804164701536103180137503955397371 0 (45337171195820365733551583282745457563273645653347986593495694649921850, 41422701324827813072402771412735957703145175)
     [(False, 10020994397794878802247448954657597258610904054216827701178119779420538), (True, 42847472643666927958449102651350333215117327436136980200358708580016584), (False, 49578748099326760101068478544671552905855808253426201963952036524166416), (True, 127101563229722218815416356484722174859143038102372458696247635695670988), (True, 47270390019910674603370942814798032650415221574509141015651586934494378), (True, 6974153959614881305687293232122023436744926854493309363461196023904765), (False, 61523713044668717123677437883649982437695790665380538621604214295901414), (True, 97361775162768480995288909461224204906568879549960581904936537497906655), (True, 182410715980029060248679472041811509013643538741921645054212192632068146), (False, 138376430848216146864282207701602104399882633874323510056677757049772243), (False, 68942879937521186221881475207110324111380483575699615784498245953494039), (False, 14146138295966622635535483144737276479501243729814605638840309236150418), (True, 171214577322952197152986525180684015190025547168393475424564099487125690), (False, 19565757537307321445517025044907629742874396598315648483964641051673617), (False, 61589039671684457983429353382783380500191946898857895189488993973357616), (True, 62433442703256459586576416263726111636758096048133874458194810065565527)]
   = Some (66981609835784553408347571320287778890758630218001906382646587040110344, 2714678154023915557512988027305063724033322212745)"
  by code_simp

lemma p15_a_10: "pow2mod 205115282021455665897114700593932402728804164701536103180137503955397371 2714678154023915557512988027305063724033322212745 = 66981609835784553408347571320287778890758630218001906382646587040110344"
  by (rule pow2_chain_sound [OF _ _ _ p15_a_9 p15_a_c10]) simp_all

lemma p15_a_c11:
  "pow2_chain 205115282021455665897114700593932402728804164701536103180137503955397371 0 (66981609835784553408347571320287778890758630218001906382646587040110344, 2714678154023915557512988027305063724033322212745)
     [(True, 21873241291323993453482939952061527301891174698123244362322473193492441), (False, 114051557309006231173218333042215687802931640486106552171993255830525526), (True, 11238158355236387854309323803376791285620498005108226857109601608948823), (False, 948820294552777781652680399131489530868880475451955043434159090557205), (False, 13295708768837823563345379687931493301280860975705600548982601643583769), (True, 63067126361663132010518450773941755967638935911885977907474405817834480), (True, 33189557049284833176988562315599516665892545759825743617485932863130943), (True, 13669356858714200482020007312866535136709439541530957748586164596929650), (False, 728861105004295649636969930022413136675967213915759431087868626109589), (True, 349739880677654142392042632680751458483768334155819857110800440172664), (True, 38474045754944450381552937962241490842103322660128295116044731133854179), (True, 4453916926375349257766090380254047768322451748213652219178918184512582), (False, 61287605249669415401074092725949589862208994067908322989489139250495016), (True, 55533003658081556317738921077468855304030593927061092743102789572361532), (True, 21491260231387148454315237296919066993197834598939353494121844041090363), (False, 84565934397654493026545480411446994631130890872189178561885842786515836)]
   = Some (138731767297530037588122269579740137667600212737205208825185700006636869, 177909147502111329977171183357464656218247804534499190)"
  by code_simp

lemma p15_a_11: "pow2mod 205115282021455665897114700593932402728804164701536103180137503955397371 177909147502111329977171183357464656218247804534499190 = 138731767297530037588122269579740137667600212737205208825185700006636869"
  by (rule pow2_chain_sound [OF _ _ _ p15_a_10 p15_a_c11]) simp_all

lemma p15_a_c12:
  "pow2_chain 205115282021455665897114700593932402728804164701536103180137503955397371 0 (138731767297530037588122269579740137667600212737205208825185700006636869, 177909147502111329977171183357464656218247804534499190)
     [(True, 93832614848672189887985090413299975162022286484680032728849896310513112), (True, 10590744971114295039138374546719940781391725736605779208445714459833297), (False, 111624221585991274008422312170441876052871150031088211509488434310381886), (True, 103950306659936213303237632236485066946877438982317183004629580079229023), (False, 144327313183749924489506229381996713111350311342121565188084954531856688), (True, 52189862395706783420888546665551310048864870238691505339868572904972762), (False, 78754317639111227342053486066399446936900428021575323320823924167040884), (False, 75799885535124424045420093347279597893326309505310389541286106307475521), (True, 24629409055048035488731329445099588614800416844252965763226629751511823), (True, 118255615643899670049289535120022970374275631191541472093219292214845651), (False, 90726141023892124006248396022384359077223416033276358937311475554222158), (False, 23054339929798964008936544335427288921090030652313062076049562323145670), (False, 4330085182882864129107812721215946471080565545450612648136381973913329), (False, 9617394204260010669585748843555907329060781227776518491127240587780409), (False, 88695803092797083722107431850757947250694434801760212012407905283611567), (False, 172173429561069643986027124340142140543603547855286480439825403626049053)]
   = Some (43069383857855440839555435697207239925234673024608746545638249079145761, 11659453890698368121383890672514803709919088117972938970304)"
  by code_simp

lemma p15_a_12: "pow2mod 205115282021455665897114700593932402728804164701536103180137503955397371 11659453890698368121383890672514803709919088117972938970304 = 43069383857855440839555435697207239925234673024608746545638249079145761"
  by (rule pow2_chain_sound [OF _ _ _ p15_a_11 p15_a_c12]) simp_all

lemma p15_a_c13:
  "pow2_chain 205115282021455665897114700593932402728804164701536103180137503955397371 0 (43069383857855440839555435697207239925234673024608746545638249079145761, 11659453890698368121383890672514803709919088117972938970304)
     [(True, 9043557396670538035273857029848467484025995778153646958657194108461878), (True, 21781992596179608637676601907382396726858045273408676455643872956974409), (False, 8740432453684526264527639765747818517310964293652792079379048748864398), (True, 109274118927806386451434040348565772070097856785919857120828827251020692), (True, 5021934399923097469321507032042445483925346593876661761903925909049696), (False, 138445689866764853648462555733630340126582093199434964046316365937239819), (True, 193140902540666238126188717913130019207824188108348913005754778360093462), (False, 100109607136684464775925118939987704469519002445083793228479529694008482), (False, 91358235100190686063014293446976694142859349784574640025827718159036337), (True, 129024686386698091997307747567996066073916323008479071709148607017774591), (False, 85380571603301881430390360922406126017161634657344391123377445974357186), (False, 85226066127294509920287332592927244678937083795890210891967204724460630), (True, 110002806720081823525513138575728493932814837826569592052297465594067457), (True, 78886517328169663127997780917504423639479364337089620563114774598770738), (True, 84264947594487075637821381666058519903757241672878020681765421373947831), (True, 47319083881566546466753337801695638254937746966981066460114009567925831)]
   = Some (84103351403714850084937152244355304139456782742205451560794776415311448, 764113970180808253203014659113930175933257358899474528357898831)"
  by code_simp

lemma p15_a_13: "pow2mod 205115282021455665897114700593932402728804164701536103180137503955397371 764113970180808253203014659113930175933257358899474528357898831 = 84103351403714850084937152244355304139456782742205451560794776415311448"
  by (rule pow2_chain_sound [OF _ _ _ p15_a_12 p15_a_c13]) simp_all

lemma p15_a_c14:
  "pow2_chain 205115282021455665897114700593932402728804164701536103180137503955397371 0 (84103351403714850084937152244355304139456782742205451560794776415311448, 764113970180808253203014659113930175933257358899474528357898831)
     [(False, 34484869423804554978670977670715237069049026301745788200260240375786302), (False, 64343851850084779939080803908021460068298029431426984499987786299581010), (True, 32792981247573000183392035254566213880466272696445350885088171902965232), (True, 306181978183395023838329476944043590742727563726821927568103596568847), (False, 1060378688289966231787376606039776928966111103892123600187243243275674), (False, 53326297904300836032025559148331037938366297854997379515676997954246621), (True, 7934072601498268704971652102694363370730263416108039871574206714765567), (True, 132594184739964105362040166515444021991375926324633387116253540123616658), (True, 49935474852635474924115677382432087960393554877482318201196350739500541), (False, 199899971188291853907040897795312075346595488757404441897746630282134626), (False, 3823370274982090527470969883027695366607179618545663336883543318172848), (False, 16859363956779654328793710226235505631066536716999918476769161078650561), (True, 97216557016955136453722396685416892413828695212893669121237997103869984), (False, 241330265699424438058244544096556456225276986602614985495146403577699), (True, 69575069770250850863332959320956086133798912611268769141973902113348561), (False, 43075388327192623449141277252422243866107034652047997755317071445931485)]
   = Some (22945956809376718219066221842777258580308375302292436068224535245026290, 50076973149769449681912768699690528009961954272835962690463257801610)"
  by code_simp

lemma p15_a_14: "pow2mod 205115282021455665897114700593932402728804164701536103180137503955397371 50076973149769449681912768699690528009961954272835962690463257801610 = 22945956809376718219066221842777258580308375302292436068224535245026290"
  by (rule pow2_chain_sound [OF _ _ _ p15_a_13 p15_a_c14]) simp_all

lemma p15_a_c15:
  "pow2_chain 205115282021455665897114700593932402728804164701536103180137503955397371 0 (22945956809376718219066221842777258580308375302292436068224535245026290, 50076973149769449681912768699690528009961954272835962690463257801610)
     [(True, 2566931769826426448394862309138661016242400090873651715421679046773822), (False, 49320865864343618184474531978707230410068789628959570964236279239943384), (True, 45033004407112964616616605639683729970995330853572212648374111483186469), (False, 13689470369127379041250255800738036909224351142994186873124165225813994), (True, 28201520054069377022816911231759744192430994216473711446940855175581803), (True, 86572085362499219209120273452310346786616061800497223285784567298816111), (True, 109045471408951462915803320435142527294869686256719112338571004777466141), (True, 194651107195469242348328398376960749286840234676625520965789596954190262), (True, 702245967890118534109713726082285170633195075020023500051900942101626), (False, 162431485516642662366133555844879409721588314803083117728527499662631308), (True, 20054167074371483204528573480214220718870532143762854034463786369988084), (False, 205115282021455665897114700593932402728804164701536103180137503955397369)]
   = Some (1, 205115282021455665897114700593932402728804164701536103180137503955397370)"
  by code_simp

lemma p15_a_15: "pow2mod 205115282021455665897114700593932402728804164701536103180137503955397371 205115282021455665897114700593932402728804164701536103180137503955397370 = 1"
  by (rule pow2_chain_sound [OF _ _ _ p15_a_14 p15_a_c15]) simp_all

lemma p15_q0_0: "pow2mod 205115282021455665897114700593932402728804164701536103180137503955397371 1 = 2"
  by (simp add: pow2mod_def)

lemma p15_q0_c1:
  "pow2_chain 205115282021455665897114700593932402728804164701536103180137503955397371 0 (2, 1)
     [(False, 0), (False, 0), (True, 0), (True, 0), (True, 0), (True, 0), (False, 0), (False, 650849553623666468585472), (True, 0), (False, 11724673907914626136410960774024984892889), (True, 2197909649651599752445202632177680224848372364258596038906360290523824), (False, 117395472437909750473244446506820296382659955103356122103053670776397325), (False, 95622630508968592824108359790230654919223468107801429351277242615631981), (False, 2913674069087366804466864258947782257974030311788440168679713759622250), (False, 90201153309508291792943080569038534480376680380301804129349669207961444), (False, 101637370910190473677705100837340023288221101566725510470953431204590597)]
   = Some (142580549110767473298919306135545511110795299929296592221119573716813314, 81056)"
  by code_simp

lemma p15_q0_1: "pow2mod 205115282021455665897114700593932402728804164701536103180137503955397371 81056 = 142580549110767473298919306135545511110795299929296592221119573716813314"
  by (rule pow2_chain_sound [OF _ _ _ p15_q0_0 p15_q0_c1]) simp_all

lemma p15_q0_c2:
  "pow2_chain 205115282021455665897114700593932402728804164701536103180137503955397371 0 (142580549110767473298919306135545511110795299929296592221119573716813314, 81056)
     [(True, 99111157317871027487782841993769321843010881682121276554267642502600601), (True, 5359231860041780663766354034295794130215958086838963760812959648539859), (True, 146681755107569856271630381230854548636643929828530152055174196831721870), (True, 1249423076515428114719662688172218446597232315991924791907938253947366), (True, 1841312584832539754518688809248740566905711414089628869948439862642558), (False, 38766256912608961969231982650068095531692571954042310384269627912533698), (True, 195601975416448489579100235488274507581458703561801202449414685081726324), (False, 172394811465660924915881892556471541412744231174607337278478973174599781), (True, 2758042554214574500987205085305955085585212602143648717257501060836135), (False, 50473194443283711237943250514676402951370918689456937556043125321185053), (True, 10785833337974784746814540026415591049940603621431567901104168120950707), (True, 99608688677693791510416217217755099498602143565773623535043846235324510), (True, 131680710364350974920433585715420346906875308924499971976383707425927550), (True, 474442440764763208746592082952737684094684772232398537188750117723475), (True, 191728538183710244316488445312636083266331930806700263482694500641609084), (True, 98268023246379775073671887393920895105411972401287907369322152203245760)]
   = Some (100016887223788367237888989419241088653720333470308211093192872453502791, 5312150207)"
  by code_simp

lemma p15_q0_2: "pow2mod 205115282021455665897114700593932402728804164701536103180137503955397371 5312150207 = 100016887223788367237888989419241088653720333470308211093192872453502791"
  by (rule pow2_chain_sound [OF _ _ _ p15_q0_1 p15_q0_c2]) simp_all

lemma p15_q0_c3:
  "pow2_chain 205115282021455665897114700593932402728804164701536103180137503955397371 0 (100016887223788367237888989419241088653720333470308211093192872453502791, 5312150207)
     [(True, 48769538921481324794310005343167790461538482240467037164575512387081223), (True, 25975293780599243091983218042768169342158485321990817484904446915942349), (False, 186377614661044959590429251918280356737506112515689179260562375002120159), (True, 140667918194992211304733827547655095331192223938200569618577031421713908), (True, 52115241018863712900188409054568308893033560653947906298270879943222310), (False, 71895245320360270871084316710183054516421858437349435699200100953843376), (False, 1167947894303311038033506192367460776766769073910142756734174353106788), (True, 79635363253760136875632523114774022051268235643105959299091559476464583), (True, 32426216636738335965252851986846068375652517182446230365332198059758808), (True, 204646111570499702913181166860014341476987645199492707067377914879810), (True, 410700724096426825973005463226219434331113193198327675622611574198687), (False, 2794031888115061145445207134997610334787210657251658925577531183046643), (False, 14168386097403404166973298546255055632106056876304816542355728298479629), (False, 124478370750750867740972434270815795417859472776557217121828297885321138), (False, 109772329335195408689875633345114883187182379914224375099831438603755058), (False, 142956910916016385057254469032568287251274672368448733000993490793170805)]
   = Some (174644606970065121637197842293241570909151008931025288149051471638541234, 348137076021728)"
  by code_simp

lemma p15_q0_3: "pow2mod 205115282021455665897114700593932402728804164701536103180137503955397371 348137076021728 = 174644606970065121637197842293241570909151008931025288149051471638541234"
  by (rule pow2_chain_sound [OF _ _ _ p15_q0_2 p15_q0_c3]) simp_all

lemma p15_q0_c4:
  "pow2_chain 205115282021455665897114700593932402728804164701536103180137503955397371 0 (174644606970065121637197842293241570909151008931025288149051471638541234, 348137076021728)
     [(False, 148700469526878310673382872136954839445936568843008737501854591485488176), (False, 822750825908982021299491315251292090635409418716660458006543287898860), (False, 1001616318041528254637574716468661262001029268592602508199043278368942), (True, 353146585327259012633419422118827136055423922600008293568835941044378), (True, 104347517541971412868937744414695041349131463931980636282720442100312152), (False, 6597367298402096684253786905067611347820349711444335853513304350292170), (True, 2106357478964352618840914267327478340238811108362684083406921673589097), (True, 8164233888556134918981157992355596732821215687263167597558363018745693), (True, 117442473192689757982599729466115488199866435011925668004889159248881079), (False, 34557932914729281553845980167690399242128718454687766987340050642545369), (False, 109474416153361149699700529062385012733143596403177956259448791293513097), (False, 91300834110528094306967936454361379074326425761670375711922199230068091), (True, 33497756880660018952139766114759923400329962508100672935915603475536611), (True, 675061514565260763634877012358466845948074259552160124164266406491785), (False, 100214351539269664995834108957453169901146387594363396436413107169434207), (False, 50797577783932842021681891204699923834003320973178290479864492567583248)]
   = Some (146939282475572003886692913055227612464187315984166265699678238663075081, 22815511414159973260)"
  by code_simp

lemma p15_q0_4: "pow2mod 205115282021455665897114700593932402728804164701536103180137503955397371 22815511414159973260 = 146939282475572003886692913055227612464187315984166265699678238663075081"
  by (rule pow2_chain_sound [OF _ _ _ p15_q0_3 p15_q0_c4]) simp_all

lemma p15_q0_c5:
  "pow2_chain 205115282021455665897114700593932402728804164701536103180137503955397371 0 (146939282475572003886692913055227612464187315984166265699678238663075081, 22815511414159973260)
     [(False, 105263501196256275503475429090422592679638423570838494067807091168278438), (False, 94318424427419507072699922948230059420390719378223354793132453588597477), (False, 149643603994094668061156220705810356165004362863011031171873467856844093), (False, 18230154528432462828374370873579076164805992689983678126085180123467852), (True, 49740080926108025706083245621505038883412245759336115882009271987086399), (True, 168690987101107539505381889398261394127576021479517848722268054261761943), (True, 150259580517784212738214053123144227235891780959343510041331925019683518), (True, 18314451779700137017841898550089282809948063408388191527416517299101137), (True, 127612480950555488713386693644929995518785114923054225202583061289020440), (True, 171554296345219981891439323715432713579306576654063287408510968714761534), (True, 72844351980153767817331174063687905987372280448495824225714785073073014), (False, 74600771141634851727426710518673540448038778168913475352548675233648843), (False, 185162978220505819545027703772695346303396433907209018682175696002576422), (False, 35126203436293125686109964978775765193088199686441859840962041493731719), (False, 110867619543809302837997576739112689610344365405667677697867771331504968), (False, 2031981239816741367606719232694158118306669437930110343344838915788845)]
   = Some (53298581630492405249619864952988673971263432065442730184676194623033889, 1495237356038388007571424)"
  by code_simp

lemma p15_q0_5: "pow2mod 205115282021455665897114700593932402728804164701536103180137503955397371 1495237356038388007571424 = 53298581630492405249619864952988673971263432065442730184676194623033889"
  by (rule pow2_chain_sound [OF _ _ _ p15_q0_4 p15_q0_c5]) simp_all

lemma p15_q0_c6:
  "pow2_chain 205115282021455665897114700593932402728804164701536103180137503955397371 0 (53298581630492405249619864952988673971263432065442730184676194623033889, 1495237356038388007571424)
     [(False, 13849474187521107123875271839873757088229311049150819289622625800713525), (False, 62413864524013509031891969267762665873792098392571845302022669399248365), (True, 121108190904519423077883884289747116069143957005062835230645360041642507), (True, 104744766184380644219475785748655618127127862339346669860642524272483575), (True, 163246167568884708919728629068689136243951128850884325751071575053673411), (True, 113905507639160683688030610846716844363112171518724491505937534420860655), (True, 12188451719714696443553132604081376312870033197376246371267250143981205), (True, 107214432335453483622782121173829238977687274116023246735782081966324110), (True, 26647555627353455495756287029941481835688217624890942418367489544901531), (False, 105334770091505385723359442491527028145075929090883283929618815318848323), (True, 70672497148408159944171730967932957698565720486595041749048345580797861), (False, 136178929471297247513641937295432640755592857448751859772350404745068101), (True, 2449046796405511919873241815849090156165324147600842659772284536125270), (False, 22530988580686664776938064188486157980143306668274606837718656335479614), (False, 189512496376555959604704004135906322947510808525274985217452263808184596), (True, 10732275714840466396692276090775698158190324226717519620171780602323867)]
   = Some (71088854756869852213598486876034955511522467171563218087342587610036115, 97991875365331796464200859561)"
  by code_simp

lemma p15_q0_6: "pow2mod 205115282021455665897114700593932402728804164701536103180137503955397371 97991875365331796464200859561 = 71088854756869852213598486876034955511522467171563218087342587610036115"
  by (rule pow2_chain_sound [OF _ _ _ p15_q0_5 p15_q0_c6]) simp_all

lemma p15_q0_c7:
  "pow2_chain 205115282021455665897114700593932402728804164701536103180137503955397371 0 (71088854756869852213598486876034955511522467171563218087342587610036115, 97991875365331796464200859561)
     [(True, 24637975390418317278387784607548358578030757616771403618480124339130224), (False, 89013486875885873210789914836854876982689353226665142531485462468499106), (False, 1214681154002728390837959366536734856723864069936793590504068776490050), (True, 16610310635056731743764488695010819452629054097417443319857832405827041), (True, 72546591271607080283523081036870191151718421357756008556976252420707703), (True, 33082198683400193309932111360082273766277496395818905793392694045080856), (True, 204224789000694974031384424648897577208023475868227878976478749546563571), (True, 263786448867373103909882539842820589520464353567815450592897484029045), (False, 90833774417036698285292508667431789064418589113208443052031416617243045), (True, 28969095574364809621454965549667937367309175315023184793078157479975187), (False, 4617858437010567990626494472177231882011363744197370384498755238653270), (True, 97478534851575520013351777242727686792389526228025186708862003777844442), (False, 202162151169181986889064343107211261706237136631525002461779801123942165)]
   = Some (53072002638256206696760401718638995221936714922431175139555783581918754, 802749442992798076634733441528810)"
  by code_simp

lemma p15_q0_7: "pow2mod 205115282021455665897114700593932402728804164701536103180137503955397371 802749442992798076634733441528810 = 53072002638256206696760401718638995221936714922431175139555783581918754"
  by (rule pow2_chain_sound [OF _ _ _ p15_q0_6 p15_q0_c7]) simp_all

lemma p15_f0: "pock_factor 205115282021455665897114700593932402728804164701536103180137503955397371 255515944373312847190720520512484175977"
proof (rule pock_factorI [OF p14_prime _ p15_q0_7])
  show "(205115282021455665897114700593932402728804164701536103180137503955397371::int) - 1 = 255515944373312847190720520512484175977 * 802749442992798076634733441528810" by code_simp
  show "(81475874003799270243122483189086420723726815346591292526890606927317739) * (53072002638256206696760401718638995221936714922431175139555783581918754 - 1) + (-21081256147611433302736580915228063873871010806801427666805511047392446) * 205115282021455665897114700593932402728804164701536103180137503955397371 = (1::int)" by code_simp
qed

lemma p15_prime: "is_prime 205115282021455665897114700593932402728804164701536103180137503955397371"
proof (rule pocklington_base2 [OF _ _ _ p15_a_15])
  show "(1::int) < 205115282021455665897114700593932402728804164701536103180137503955397371" by simp
  show "list_all (pock_factor 205115282021455665897114700593932402728804164701536103180137503955397371) [255515944373312847190720520512484175977]"
    using p15_f0 by simp
  show "distinct ([255515944373312847190720520512484175977] :: int list)" by simp
  show "(205115282021455665897114700593932402728804164701536103180137503955397370::int) = 205115282021455665897114700593932402728804164701536103180137503955397371 - 1" by simp
  show "(205115282021455665897114700593932402728804164701536103180137503955397371::int) < prod_list [255515944373312847190720520512484175977] * prod_list [255515944373312847190720520512484175977]" by code_simp
qed

text \<open>The field prime.\<close>

lemma p16_a_0: "pow2mod 115792089237316195423570985008687907853269984665640564039457584007908834671663 1 = 2"
  by (simp add: pow2mod_def)

lemma p16_a_c1:
  "pow2_chain 115792089237316195423570985008687907853269984665640564039457584007913129639936 4294968273 (2, 1)
     [(True, 0), (True, 0), (True, 0), (True, 0), (True, 0), (True, 0), (True, 0), (True, 28948022309329048855892746252171976963317496166410141009864396001979356152052), (True, 28948022309329048855892746252171976963317496166410141009873619378210246969180), (True, 28948022309329048855892746252171976963487637504682492618333131522464933265836), (True, 95866962929641105578169568824037050618327841822550020024490611729), (True, 1739649997662518647135357008791074777499010006333484550686128189227578524613), (True, 1042057773885741983244936413338279057583600665773642840546269933370501631578), (True, 1137012258721038815584453653056164152391895226782070349128097923031429953739), (True, 2272045449870980534867315956403445734088916485904343323354063377398724968121), (True, 74469969277594537596323341709405945515279900516632435494886651224615283487)]
   = Some (35113510346855126291614018787743776847108965828698901908641232584991901872567, 131071)"
  by code_simp

lemma p16_a_1: "pow2mod 115792089237316195423570985008687907853269984665640564039457584007908834671663 131071 = 35113510346855126291614018787743776847108965828698901908641232584991901872567"
  by (rule pow2_chain_sound [OF _ _ _ p16_a_0 p16_a_c1]) simp_all

lemma p16_a_c2:
  "pow2_chain 115792089237316195423570985008687907853269984665640564039457584007913129639936 4294968273 (35113510346855126291614018787743776847108965828698901908641232584991901872567, 131071)
     [(True, 10648038367731236434796458774288855887508104646525191337936692080925853522883), (True, 71146024164864476965429222383544019070379057088033747661731428864334629573731), (True, 248628142561004349844301581990423475263977844462225559887253747694980380538), (True, 332557933172273658804053966894029347813027348326197630609544559614272994939), (True, 98376272966866429674301869263726531248496391955973853385555098780466965653732), (True, 25350872375695952318074844201760707040853288105278338099897254380268091544948), (True, 13473024667436383229157618135836558628660541070421593935631184823439750046835), (True, 13355913385277064180333413419156273416882483379472629923238730258828101076815), (True, 28079387673056498173501698550733521457392490478479843599787624127873953492367), (True, 110978444322120953755079043644830939733386019970751438622393754528366516636547), (True, 20074753035776821455672185880629431541251776165009144372902653807827801481575), (True, 97810077766772788473879980122870645004635800081877302020099937072294088875471), (True, 121412520734091443378040897149996103166192841967275326640210837026729545), (True, 12267989240039945344609842294282916723880209522609711270941463316808351297016), (True, 64082204743779684533731915478244468306548207241127707006033152731568758014075), (True, 12912331423880696380486535095483202807849362628493151756228248475664274177203)]
   = Some (70047817190496737705816974401571854545995131530366350813794630739094882360872, 8589934591)"
  by code_simp

lemma p16_a_2: "pow2mod 115792089237316195423570985008687907853269984665640564039457584007908834671663 8589934591 = 70047817190496737705816974401571854545995131530366350813794630739094882360872"
  by (rule pow2_chain_sound [OF _ _ _ p16_a_1 p16_a_c2]) simp_all

lemma p16_a_c3:
  "pow2_chain 115792089237316195423570985008687907853269984665640564039457584007913129639936 4294968273 (70047817190496737705816974401571854545995131530366350813794630739094882360872, 8589934591)
     [(True, 42375059690795994996261910142449271779252162389848223393292467195665897357984), (True, 6376042901689396884665515112160531142967401814394048758167369633367633315604), (True, 2952141493280512466434056226613783230180072930448929056935860770127104817977), (True, 99415363682694829836956728374129800458760024682699391241341504367011685404993), (True, 69154280670749443418600412218141192618591477442733091693180361439029837622979), (True, 12079285434912252388241625774691162965362287119541361053680975941364060345543), (True, 63666398214584060764770831008787598141398473476527009668572889951430072596674), (True, 44385052606328982003303157952604456366321627841912128792720748985572238864431), (True, 18111987386014469826811518031848271374025770153256401763484803240437337642625), (True, 93380057674344867051687575452961689305116806226988729936294314333513916879419), (True, 67218750344401533882216595165267387376596187754860005757853341723637619697774), (True, 104377322665412399579178626154312825525421932416447568702567668322924150512190), (True, 63129786831088976084227746671281584909254532745621185254483637843365208324157), (True, 9395233783063910434065193478031661749951234174479356012850178047500095925915), (True, 33500222549728647842238520576282799913644686504675879761703106294946671090721), (True, 6422201869939703943297300650129620114137944482144496826214036771751343563105)]
   = Some (78603236231567334396297786584000265248138748355204178077921489912119567012202, 562949953421311)"
  by code_simp

lemma p16_a_3: "pow2mod 115792089237316195423570985008687907853269984665640564039457584007908834671663 562949953421311 = 78603236231567334396297786584000265248138748355204178077921489912119567012202"
  by (rule pow2_chain_sound [OF _ _ _ p16_a_2 p16_a_c3]) simp_all

lemma p16_a_c4:
  "pow2_chain 115792089237316195423570985008687907853269984665640564039457584007913129639936 4294968273 (78603236231567334396297786584000265248138748355204178077921489912119567012202, 562949953421311)
     [(True, 53358297503491724436390238719271743199179361112385221540673131185311489651231), (True, 79348774393575842063276212061609207677814907136839143101650404378555586624558), (True, 237851411341765480428733589739171250064870294474825699001048337329438915811), (True, 44611883063324994124370444660609044064697846822789277585417489851502178028137), (True, 622226887797988481599022575902028620765721564340071005339299853013279281206), (True, 51091968929209309901626431023347538780455009191889175095018016236762307484235), (True, 34292539701560249819851548161153039583803520479507796897298612341798725295280), (True, 91948769455764962666245498674094551520244674713931516768391737736830933097384), (True, 76659142039548131383558574767864674571662877505440602715746758048911975152103), (True, 3275037134008013205332373740965607956155552253572558021905829822970004901437), (True, 66278635486362487125225961387603298321190858204362280649603709136615475436916), (True, 5762321264834671525306430206685312895636203262433503566348137595676495746811), (True, 60723689077538511222901697162652670973043973085913180807441436727809398311519), (True, 12788359353645515596766126302823769793777066195556469158354018770364631326348), (True, 87934640085878327913808636600963100384286084575349946790695764273581485820947), (True, 2958037152113641284839379611604209387779292257585660111931430708777782595906)]
   = Some (86599818777429346389182405016485125520960132463102067934258840628112258978999, 36893488147419103231)"
  by code_simp

lemma p16_a_4: "pow2mod 115792089237316195423570985008687907853269984665640564039457584007908834671663 36893488147419103231 = 86599818777429346389182405016485125520960132463102067934258840628112258978999"
  by (rule pow2_chain_sound [OF _ _ _ p16_a_3 p16_a_c4]) simp_all

lemma p16_a_c5:
  "pow2_chain 115792089237316195423570985008687907853269984665640564039457584007913129639936 4294968273 (86599818777429346389182405016485125520960132463102067934258840628112258978999, 36893488147419103231)
     [(True, 64767193179434741358831401964110126702847445018530266495908011110524678750159), (True, 39803163225988309160837159504567933533316887092403881489706805857769638250240), (True, 91507308381447052001437509538215721682749255245033593807118662505124367399819), (True, 9404432388605243704186938606088035488099252791086655871192672030074040799085), (True, 36842721948724010101027293378906297629606585111163045420708926087414284500216), (True, 55923167547749266448080681163365900818144104693859247524608118877627905475111), (True, 96037537745291238311094366754911988113031939886500519781535759436029341683902), (True, 28110622291326080323220370300240112152535705170300423958729310928313572816642), (True, 94472729805222377216932919620733671027719950017827295818120847031613569304744), (True, 35200794744494718077020992899118243721221142061353399383028848130568148541741), (True, 18525964074463431963919911802628639717494316743570907588280642936936849250876), (True, 9608811251761294417435793390724314061880738181329625583512071389062566360489), (True, 6370576415594604428211574931990270924832920582898253145636692148191825371484), (True, 105540478788495387942636176329287239077659302882917647209340032502251332003104), (True, 83227168063856540326013231707606830265351489480051714475951550594095927414012), (True, 6076683767997726504453031975966379616719171781820303939996159933548120386200)]
   = Some (30105691683799255473579090227820563485226205814213631140198906106539620955337, 2417851639229258349412351)"
  by code_simp

lemma p16_a_5: "pow2mod 115792089237316195423570985008687907853269984665640564039457584007908834671663 2417851639229258349412351 = 30105691683799255473579090227820563485226205814213631140198906106539620955337"
  by (rule pow2_chain_sound [OF _ _ _ p16_a_4 p16_a_c5]) simp_all

lemma p16_a_c6:
  "pow2_chain 115792089237316195423570985008687907853269984665640564039457584007913129639936 4294968273 (30105691683799255473579090227820563485226205814213631140198906106539620955337, 2417851639229258349412351)
     [(True, 7827414443679372901193509621050163808202165250321813770903198179099796226162), (True, 77087340319095366194302306586284640882491062140178509337664641332405063983051), (True, 1301480734911921674047193319085827154257355569751635378176871241637929725961), (True, 30216515092368158490708753129788518232265497878109223522062049749732892268213), (True, 2848869090543714416918092500184254093807730900780267233807027518745167516432), (True, 23598960697805870528820347032682466169984105627035211310403065088702938773917), (True, 97846620893155499084326643446499000198012173754607681482610714511723186331877), (True, 12240266324854865956717090508654654701673489593470242774826795163315135494840), (True, 90911690872152676803349246240213094222363045754669384258384957992757721231519), (True, 6714410201625450489261313389870259785532019311757342098534314293342823804398), (True, 72848058843874400485509709083011571503171213205984130469509900544098789980843), (True, 110834129657371628201626027965139759747686680869564518333406702831741214753701), (True, 73285846163220255171857328011514205534077175407957143043788400069545031374215), (True, 19547040901934770052810014226396442953618235415779452981340225915563655868531), (True, 11347326008726164741663304925664255094282581988354111068646948956144613532808), (True, 112987984258705037738930223941735268668671888567168427546570701760756097387977)]
   = Some (103594113194800097746265462920874976859482159959088474825941315272150307836035, 158456325028528675187087900671)"
  by code_simp

lemma p16_a_6: "pow2mod 115792089237316195423570985008687907853269984665640564039457584007908834671663 158456325028528675187087900671 = 103594113194800097746265462920874976859482159959088474825941315272150307836035"
  by (rule pow2_chain_sound [OF _ _ _ p16_a_5 p16_a_c6]) simp_all

lemma p16_a_c7:
  "pow2_chain 115792089237316195423570985008687907853269984665640564039457584007913129639936 4294968273 (103594113194800097746265462920874976859482159959088474825941315272150307836035, 158456325028528675187087900671)
     [(True, 92681118021994796190607232896206300923050150947840060468762712770161757737224), (True, 14361802041158411500235787573764533027388304594342677628545837874227623825401), (True, 20204494041811077883920775438943895302257801559505090094251879100087739787838), (True, 2237863673906446897863261234966489294180538308107528875682803576541866413525), (True, 90347168099439911324199427334892133329916876532039423820342698747707652853715), (True, 42756756868618380340457229069140374570003622007587981112152295175689514449333), (True, 39391637655069586849084758873863696662064480436948707919995535488282378962407), (True, 5790076636266333584793190362574986595209457569402284225552493414995310492449), (True, 40070553457091150287094228725253058317630544388336324760570975566173067852982), (True, 4028745762275131264993439876510740419215290762521315978714238871657854103457), (True, 3919373565136235945586329482533557561775717162036756828726800519031320591909), (True, 5904657593229829139320885246939051591575849949347198107704966064909037517859), (True, 109838403108558515355469457909378815727205647242814331568440308521215122282), (True, 81059683446257529378361083185304189265963580163692519758426466253583896526332), (True, 1932129866476660946893064270022017252068415555133194852156766769265968220331), (True, 5798166017872233312586831260868552313820105031435497260625852732997329827353)]
   = Some (85676334786621880835524716826760543184844110843331598511283967792591793086981, 10384593717069655257060992658440191)"
  by code_simp

lemma p16_a_7: "pow2mod 115792089237316195423570985008687907853269984665640564039457584007908834671663 10384593717069655257060992658440191 = 85676334786621880835524716826760543184844110843331598511283967792591793086981"
  by (rule pow2_chain_sound [OF _ _ _ p16_a_6 p16_a_c7]) simp_all

lemma p16_a_c8:
  "pow2_chain 115792089237316195423570985008687907853269984665640564039457584007913129639936 4294968273 (85676334786621880835524716826760543184844110843331598511283967792591793086981, 10384593717069655257060992658440191)
     [(True, 63393228249168860434052751344281206414598327501435682609478815477061298047557), (True, 59018313337069090805466426121498221619691574684154867852586034070959877336840), (True, 76231012550221910281635605138723190513804690321582894541865867363849718263273), (True, 2552597994275195445908326381718955788066386543321032067056739967267433984230), (True, 944770325887374311723302557018505144898535535342793548263122240121894379400), (True, 4905866134908449405715154951398193662863552145600626335569219293272395732168), (True, 41234133811496375141453035672819343452591063992903047608405508880457014583726), (True, 33136752944298036985741658203902079190801292099847692699327992262650373464451), (True, 90150638894872665669662760214935132634936317363720389040117299394691720428098), (True, 77395392736198110498976198120563486530862255768167470215002295554356970641317), (True, 104010482897137466609325287823645840636948992319706812656907652080206587610324), (True, 16918442204575941557581499917194275766107394781567730133657714280089578381233), (True, 20701088091450008138605837229672239139121679485792106675135358469686066310918), (True, 1952005115908257945338037605324865219510077257282370384854984003691498802263), (True, 7189642616404622014502516842926291830352034549968261238428087720571635903116), (True, 107018734799967072000880403537772623257431087409825969678767566002003920989611)]
   = Some (14705694854217774406424447300764386299467724071478395750455924022045326914639, 680564733841876926926749214863536422911)"
  by code_simp

lemma p16_a_8: "pow2mod 115792089237316195423570985008687907853269984665640564039457584007908834671663 680564733841876926926749214863536422911 = 14705694854217774406424447300764386299467724071478395750455924022045326914639"
  by (rule pow2_chain_sound [OF _ _ _ p16_a_7 p16_a_c8]) simp_all

lemma p16_a_c9:
  "pow2_chain 115792089237316195423570985008687907853269984665640564039457584007913129639936 4294968273 (14705694854217774406424447300764386299467724071478395750455924022045326914639, 680564733841876926926749214863536422911)
     [(True, 1867635885748178240480111418811343746047783000952634072134755157649532799801), (True, 6781309136994558369141936520314486868206704339077317194664437321362263817378), (True, 63895241119073812989490754257213498200713567165528051803890505576443074849349), (True, 23316732127000169728614752064195920279229921408167379506515405147238938838776), (True, 14478625983404747895455452662225434282119597127466702890840829317128336933011), (True, 42511088492342055359728595022278720505141237198926576561018717331595290841972), (True, 3106977014041469374769208290430348760692838359151249969019691649881816047804), (True, 71000611001506783810043225909486504400288879506583630048342546263203549177371), (True, 97799081675911342976671576945308986832567371768221038568189693733033519627727), (True, 88835564933782002876730677558479142477681095579650878939308919987102854943226), (True, 6403455646640502045778570917936845992815554007065801869009570758480965949973), (True, 12502579742923241649607409473532498534934252751815549037798358598537008976), (True, 6653053803650463171767762720995479409507915709179540370716503722628201307278), (True, 10486480699371182349043702965980358342021280914062699773944394070491071056352), (True, 90473276085612052484589472776281219850521022985372069167098981412874420200349), (True, 111776088560652592383935993249228735901346092378425541616353208020806664616828)]
   = Some (29750459048128861919941513007764059394542564156397418804174544771659361297280, 44601490397061246283071436545296723011960831)"
  by code_simp

lemma p16_a_9: "pow2mod 115792089237316195423570985008687907853269984665640564039457584007908834671663 44601490397061246283071436545296723011960831 = 29750459048128861919941513007764059394542564156397418804174544771659361297280"
  by (rule pow2_chain_sound [OF _ _ _ p16_a_8 p16_a_c9]) simp_all

lemma p16_a_c10:
  "pow2_chain 115792089237316195423570985008687907853269984665640564039457584007913129639936 4294968273 (29750459048128861919941513007764059394542564156397418804174544771659361297280, 44601490397061246283071436545296723011960831)
     [(True, 7643784816425572368571518567951012487882456219713483611998595340294681383938), (True, 597042720326986755309453492788041215653766016101126534842542230757659699834), (True, 49472419607057969335483560555315510316891559664676694877030418282604179415034), (True, 62577292175392384001099096811888112992822889376475287291580188661445892681920), (True, 108961633628134925557987646651964405376931253833325629167568859592973912037920), (True, 80702982573592460959614002332102513694281190014511188233121651680404312723811), (True, 30868540677570853336231167548930584612727332919074957242578312500008940392371), (True, 45500932420372882768634790072470343447177704833828196263681994559047951164951), (True, 6625033173243983307277747867640284796853830808505178538495648195430137830088), (True, 19322425224602214461906237595449515264783777073647854474293901138485368040094), (True, 75396500165737176649622918446185223812480327820600738332543749789408252466942), (True, 5673683656550434742742510630969052684289874108530060353550319135505665646245), (True, 66500051593015908222252029237848380617013908842670188270770720012321503386883), (True, 14428635966763926892966310995288278743705655933262340661981282511040689074606), (True, 3012474377622719776144091323103684232974614310906229314771965656153350100734), (True, 11316030817501376282143559663325205598639540187114115423465450114349053985248)]
   = Some (45252097218729976750608524976841652949596910635419988716616430105123995024739, 2923003274661805836407369665432566039311865085951)"
  by code_simp

lemma p16_a_10: "pow2mod 115792089237316195423570985008687907853269984665640564039457584007908834671663 2923003274661805836407369665432566039311865085951 = 45252097218729976750608524976841652949596910635419988716616430105123995024739"
  by (rule pow2_chain_sound [OF _ _ _ p16_a_9 p16_a_c10]) simp_all

lemma p16_a_c11:
  "pow2_chain 115792089237316195423570985008687907853269984665640564039457584007913129639936 4294968273 (45252097218729976750608524976841652949596910635419988716616430105123995024739, 2923003274661805836407369665432566039311865085951)
     [(True, 17684734045142889654787705475999616549284988121671238470629435527298761455066), (True, 16515026281808516894303961679751485779497276732862055316880329273773518379093), (True, 30468917041895995554106344217386518427771912085554472278766864724271583046732), (True, 43416076555905215272749186274922105147031137081852159536102450279852821717156), (True, 3410718259051339973234813814703633643033535045856984445205764031863301598048), (True, 108222571869541077951262811649710646863474877078974354567511573854070363198457), (True, 15004717728233353647659351362754202192973931065654061197315993189369398175937), (True, 22061696712904978947843105253479343012003297528657585674599352115176973710723), (True, 31743631605755363777602926097619136142728894256187653101141239677488308514974), (True, 41865257672590219433253629893354384060542288499955132589980929185300946379), (True, 1943504239141156414761022444502962965067312626192547534743796404787332290232), (True, 48838985102403080291409889885469396195039949819510435028401349866378884600244), (True, 110845862722775912804017524800328011000449084143644726855521549185731977223251), (True, 115790928470847226988142589021895174171415912939939070617268442289440847002129), (True, 23962087335144566507632452727134311029161318931579583179734390976600898365671), (True, 20130914776129211640265157955837456732475881565183214977635723612470672963041)]
   = Some (45771628572540030475775859511516490703530681409318895265359308284470257711396, 191561942608236107294793378393788647952342390272950271)"
  by code_simp

lemma p16_a_11: "pow2mod 115792089237316195423570985008687907853269984665640564039457584007908834671663 191561942608236107294793378393788647952342390272950271 = 45771628572540030475775859511516490703530681409318895265359308284470257711396"
  by (rule pow2_chain_sound [OF _ _ _ p16_a_10 p16_a_c11]) simp_all

lemma p16_a_c12:
  "pow2_chain 115792089237316195423570985008687907853269984665640564039457584007913129639936 4294968273 (45771628572540030475775859511516490703530681409318895265359308284470257711396, 191561942608236107294793378393788647952342390272950271)
     [(True, 18093135688127785509638035521110377515431474337724898176231438414753964715844), (True, 19587251488400474546918832416786968652587437211594989903065344446564947925445), (True, 1061752879629718955448547750286110902143676651250362569677612349263496925581), (True, 13993390035362183135799478291758909347759961570643756676519728211063536309824), (True, 8341294801404632239331604223083016660571073198457137092250673120688309382), (True, 79673447129577589998045044599196836943498392477467217771594889859069544430367), (True, 5649809101574890322427308461213040218543127531685418030742159364969616826414), (True, 38129915351602838219721967678296685025177722579900676655077524175214983053909), (True, 87334184181745442205098804215366772863337116812348399047038230493471083620224), (True, 50694856133685976131804171770099759858024427152937167325604658395450059257158), (True, 6758605975401657353831398683610604391179594549011596907340732598260566026616), (True, 27283513309344599437785461849270369492059831038127234354565717391102979332617), (True, 1130769486265090868009817083881767637595045643209164070444892266516516565542), (True, 9448835285016809633606353826625900890102322799994641783141719741873302209511), (True, 109371314319882307132271552463693102559242687400157542366624639630026527164998), (True, 7637655621872201962792916544291076578619059081388804298572166095282672833349)]
   = Some (39928527249267663174530927757229448619339343215381784798259236998057444838188, 12554203470773361527671578846415332832204710888928069025791)"
  by code_simp

lemma p16_a_12: "pow2mod 115792089237316195423570985008687907853269984665640564039457584007908834671663 12554203470773361527671578846415332832204710888928069025791 = 39928527249267663174530927757229448619339343215381784798259236998057444838188"
  by (rule pow2_chain_sound [OF _ _ _ p16_a_11 p16_a_c12]) simp_all

lemma p16_a_c13:
  "pow2_chain 115792089237316195423570985008687907853269984665640564039457584007913129639936 4294968273 (39928527249267663174530927757229448619339343215381784798259236998057444838188, 12554203470773361527671578846415332832204710888928069025791)
     [(True, 13768533746964477472429412961219682635338276164191794471982824259528498341669), (True, 4282303310034232749406324826017345866530774379408833701001848190089540022657), (True, 30639876526345132861450488894932738665731078049788116207390360184332423844858), (True, 2165986569511907295661072897598617457892378136623059130179365499036103892723), (True, 3478341128198997139176014477552300555218755126477423032887140936644190128443), (True, 29828257028443813187217315242435102570919385050394885635708402950365634546036), (True, 60066665310234265525305650076088763951206301732855537649075854617040004921381), (True, 53683339693814840048989948146824791103246738542616019223392947225404531378519), (True, 46002970308205609246248077372980620077151503396991007145845462157203037961711), (True, 363422016067591620450451237734909721876993862520220414596948466530633885155), (True, 8029248279205266000377004749992178623772169486184398336451929790276070683925), (True, 7034652193470830884970728844663376065201945744474307060015150299461147140534), (True, 14996792317034882619038126316214018951174778093534303802167028147566643899017), (True, 63975083452730020103184952013011053266016717787748237863231669668259105737256), (True, 107387775690598082557537014030451343171815035881892354764913367674939139948510), (True, 25603629238366880801663021751529532191868172818117761135515069519419425764019)]
   = Some (84197647440424384209789765248811187393385350557228415074091892031498690237545, 822752278660603021077484591278675252491367932816789931674304511)"
  by code_simp

lemma p16_a_13: "pow2mod 115792089237316195423570985008687907853269984665640564039457584007908834671663 822752278660603021077484591278675252491367932816789931674304511 = 84197647440424384209789765248811187393385350557228415074091892031498690237545"
  by (rule pow2_chain_sound [OF _ _ _ p16_a_12 p16_a_c13]) simp_all

lemma p16_a_c14:
  "pow2_chain 115792089237316195423570985008687907853269984665640564039457584007913129639936 4294968273 (84197647440424384209789765248811187393385350557228415074091892031498690237545, 822752278660603021077484591278675252491367932816789931674304511)
     [(True, 61223904682923362142843972793913480801272111919682842774375826260010738652127), (True, 27414601483453944003867636718978457033539364161776025570778172909753680734616), (True, 98914242985559166320795850358151490987586320127073275540718665839533493546680), (True, 24934703716202679926294599631690340641529994725043952969657977231302076187386), (True, 115286938452972126790870071638073638878519653268343525876823695648171920956013), (True, 39996817658351103623397113222134508277047154266517332425635550879020819612007), (True, 465579490026982535049190345591136638348202207613444802702994215067311617935), (True, 57804438629930704583388447873468943221745063791190901509232821765320121057819), (True, 25177510779936103536078881813131283609443928245778360968916206817659412486521), (True, 16341438918444163056245450841706840390115792089655598994918823838572949160534), (True, 31331518188622100437764928455610878040951961965739323247872692091962497478655), (True, 15943226629316977428611127153878037529994137287037450644680367151998452626391), (True, 70320275628411690412909895386149767863714720811894890817301674087559632468938), (True, 12476109670121277424366645475440966219028398367931591537583229347880123042218), (False, 33782492104521368107716044977476394725625721248224687800227102854624022976674), (True, 59162899064757321906587616234001118651086679596628005799528259664704372859154)]
   = Some (48418789125681672684741137803580845769367213120617476435730059856559438320775, 53919893334301279589334030174039261347274288845081144962207220498429)"
  by code_simp

lemma p16_a_14: "pow2mod 115792089237316195423570985008687907853269984665640564039457584007908834671663 53919893334301279589334030174039261347274288845081144962207220498429 = 48418789125681672684741137803580845769367213120617476435730059856559438320775"
  by (rule pow2_chain_sound [OF _ _ _ p16_a_13 p16_a_c14]) simp_all

lemma p16_a_c15:
  "pow2_chain 115792089237316195423570985008687907853269984665640564039457584007913129639936 4294968273 (48418789125681672684741137803580845769367213120617476435730059856559438320775, 53919893334301279589334030174039261347274288845081144962207220498429)
     [(True, 20246453413517900196604384055574146396419925132801843189896537367524895663007), (True, 92915542636558751377734672657475480500244964558509980200147863893750731221752), (True, 586849227702744516172181990214095035989336036509599532320888425971757094707), (True, 1494371211185699931741331460754698905859798135505946053899836245615070165547), (True, 42090853747113039412463962874373306479109614406487419256667790689438294907494), (True, 99292926530451772383786292730343930059289354981655359578631458265575282118057), (True, 177770073973596794026593393811189799600546085759313439892665158889423081920), (True, 108475958519450568476404841024344690652789349514523027238817807441086920245423), (True, 15217524314961248234032470739630850942098012647424883346915622279572871127985), (True, 22340187634182925639440055994748354061404460498694983865762638469784252805949), (True, 6758505715198362353846350601187122338506469088952752586729839488857319855580), (True, 1359489157736436653535037735491855095727766931598371883422915404983848503297), (True, 57446384585426250466073727680657448982997406744545757299240087922902921869898), (True, 16243053602665737829765751852391239807026544325723369035084195082329459826686), (True, 72055333174010115371555664665880998921561796037598410730730527879842288329242), (True, 84215470605456838784020758811361038554403749766019728604209310034985575609399)]
   = Some (57535810075420913738897925293584317351800728745289327787300338730788080916415, 3533694129556768659166595001485837031654967793751237916243212402585108479)"
  by code_simp

lemma p16_a_15: "pow2mod 115792089237316195423570985008687907853269984665640564039457584007908834671663 3533694129556768659166595001485837031654967793751237916243212402585108479 = 57535810075420913738897925293584317351800728745289327787300338730788080916415"
  by (rule pow2_chain_sound [OF _ _ _ p16_a_14 p16_a_c15]) simp_all

lemma p16_a_c16:
  "pow2_chain 115792089237316195423570985008687907853269984665640564039457584007913129639936 4294968273 (57535810075420913738897925293584317351800728745289327787300338730788080916415, 3533694129556768659166595001485837031654967793751237916243212402585108479)
     [(True, 28588908472411234773717802721817723167820234829479643852974795002503196922657), (True, 2384666698289726814730256131692892089346259458330074196092591658270814257447), (True, 9876455163660506822831058386482614339211020121492941623738537229471773671908), (True, 14597061569695065257843236723690707058491437750777502895462824885530800703638), (True, 58063410362197942649964747336313774316244956245113133013757708207553366569435), (False, 99210550218491313733540592924348827676119429807073337914277538651984428701677), (False, 402521172972215221790773084671023862548303858878328703629215885779035279441), (False, 9908028405210091701196683365924175232348377183541219998694055989579921944465), (False, 18598966827239302454374379029021240980085656337376846012114640683249989966583), (True, 94720651609527474735528862397791670188202782788693684441653027776178076519710), (False, 16546885424113875933544317219353049524099174711347093869468422397600714504801), (True, 67592977865397157002656784156723376114450694504213380980821721853462811366809), (True, 112035517815100860722229004712687987747132944882810683056014452791899936670785), (True, 36904648565173416926433195661305323845824112387995105777129173382974915651711), (False, 0)]
   = Some (1, 115792089237316195423570985008687907853269984665640564039457584007908834671662)"
  by code_simp

lemma p16_a_16: "pow2mod 115792089237316195423570985008687907853269984665640564039457584007908834671663 115792089237316195423570985008687907853269984665640564039457584007908834671662 = 1"
  by (rule pow2_chain_sound [OF _ _ _ p16_a_15 p16_a_c16]) simp_all

lemma p16_q0_0: "pow2mod 115792089237316195423570985008687907853269984665640564039457584007908834671663 1 = 2"
  by (simp add: pow2mod_def)

lemma p16_q0_c1:
  "pow2_chain 115792089237316195423570985008687907853269984665640564039457584007913129639936 4294968273 (2, 1)
     [(False, 0), (False, 0), (False, 0), (True, 0), (False, 0), (False, 0), (True, 0), (True, 262144), (True, 0), (False, 0), (True, 91344018561250018089169125374345806498083801949), (False, 74674419781550446515383349898116450519865848479614672217550059922380635294746), (False, 115427913087193657726105552836911613169781942902559006794696555332514814213525), (True, 79550114505616218056896164501042419684830663815639122919675388748334259198086), (False, 12952968683930235282050249031635751058312099753835029153843181154087031930953), (True, 2240546791612533053008021506255009919584634527468182726232252529701891100099)]
   = Some (47585165534997937579100414421795661826257231649674042222048729372979924144063, 70565)"
  by code_simp

lemma p16_q0_1: "pow2mod 115792089237316195423570985008687907853269984665640564039457584007908834671663 70565 = 47585165534997937579100414421795661826257231649674042222048729372979924144063"
  by (rule pow2_chain_sound [OF _ _ _ p16_q0_0 p16_q0_c1]) simp_all

lemma p16_q0_c2:
  "pow2_chain 115792089237316195423570985008687907853269984665640564039457584007913129639936 4294968273 (47585165534997937579100414421795661826257231649674042222048729372979924144063, 70565)
     [(False, 19555290813972346060461496320810833008241925042775741612844417871596092292478), (True, 83087209244121243890506157240840633504956659644319488411315700461790066081583), (False, 1232093041507727189940228482212970523878674031206717103614127063491821272336)]
   = Some (30133174243114333125352536507925183895021889065932097717961225114769139489296, 564522)"
  by code_simp

lemma p16_q0_2: "pow2mod 115792089237316195423570985008687907853269984665640564039457584007908834671663 564522 = 30133174243114333125352536507925183895021889065932097717961225114769139489296"
  by (rule pow2_chain_sound [OF _ _ _ p16_q0_1 p16_q0_c2]) simp_all

lemma p16_f0: "pock_factor 115792089237316195423570985008687907853269984665640564039457584007908834671663 205115282021455665897114700593932402728804164701536103180137503955397371"
proof (rule pock_factorI [OF p15_prime _ p16_q0_2])
  show "(115792089237316195423570985008687907853269984665640564039457584007908834671663::int) - 1 = 205115282021455665897114700593932402728804164701536103180137503955397371 * 564522" by code_simp
  show "(38738227534097492269493948901333532538630784921480042032654553727346127695815) * (30133174243114333125352536507925183895021889065932097717961225114769139489296 - 1) + (-10081049300025779439656074993348321903608605725784878135637996734732791756248) * 115792089237316195423570985008687907853269984665640564039457584007908834671663 = (1::int)" by code_simp
qed

lemma p16_prime: "is_prime 115792089237316195423570985008687907853269984665640564039457584007908834671663"
proof (rule pocklington_base2 [OF _ _ _ p16_a_16])
  show "(1::int) < 115792089237316195423570985008687907853269984665640564039457584007908834671663" by simp
  show "list_all (pock_factor 115792089237316195423570985008687907853269984665640564039457584007908834671663) [205115282021455665897114700593932402728804164701536103180137503955397371]"
    using p16_f0 by simp
  show "distinct ([205115282021455665897114700593932402728804164701536103180137503955397371] :: int list)" by simp
  show "(115792089237316195423570985008687907853269984665640564039457584007908834671662::int) = 115792089237316195423570985008687907853269984665640564039457584007908834671663 - 1" by simp
  show "(115792089237316195423570985008687907853269984665640564039457584007908834671663::int) < prod_list [205115282021455665897114700593932402728804164701536103180137503955397371] * prod_list [205115282021455665897114700593932402728804164701536103180137503955397371]" by code_simp
qed

lemma CURVE_p_prime: "is_prime CURVE_p"
  unfolding CURVE_p_def by (rule p16_prime)

section \<open>Properties of the compressed-key encoding\<close>

lemma modPow_loop_correct:
  assumes m: "1 < m"
  shows "0 \<le> e \<Longrightarrow> 0 \<le> r \<Longrightarrow> r < m \<Longrightarrow> modPow_loop b e m r = (r * b ^ nat e) mod m"
proof (induction "nat e" arbitrary: e b r rule: less_induct)
  case less
  from m have m0: "0 < m" by simp
  show ?case
  proof (cases "0 < e")
    case False
    with less.prems have "e = 0" by simp
    with less.prems m show ?thesis
      by (subst modPow_loop.simps) (simp add: mod_pos_pos_trivial)
  next
    case True
    let ?e' = "e div 2"
    let ?r' = "if e mod 2 = 1 then (r * b) mod m else r"
    have d: "bigint_div e 2 = ?e'" "bigint_rem e 2 = e mod 2"
      using True by (simp_all add: bigint_div_nonneg bigint_rem_nonneg)
    have lt: "nat ?e' < nat e" using True by simp
    have e': "0 \<le> ?e'" using True by simp
    have r': "0 \<le> ?r'" "?r' < m" using less.prems m0 by auto
    have "modPow_loop b e m r = modPow_loop ((b * b) mod m) ?e' m ?r'"
      using True m0 by (subst modPow_loop.simps) (simp add: d mod_js_pos)
    also have "\<dots> = (?r' * ((b * b) mod m) ^ nat ?e') mod m"
      by (rule less.hyps [OF lt e' r'])
    also have "\<dots> = (?r' * (b * b) ^ nat ?e') mod m"
      by (metis mod_mult_right_eq power_mod)
    also have "\<dots> = (r * b ^ nat e) mod m"
    proof (cases "e mod 2 = 1")
      case True
      then have "e = 2 * ?e' + 1" by presburger
      then have "nat e = Suc (2 * nat ?e')" using e' by linarith
      then have "b ^ nat e = b * (b * b) ^ nat ?e'"
        by (simp add: power_mult power2_eq_square)
      then have "(r * b ^ nat e) mod m = ((r * b) * (b * b) ^ nat ?e') mod m"
        by (simp add: mult.assoc)
      also have "\<dots> = (((r * b) mod m) * (b * b) ^ nat ?e') mod m"
        by (simp add: mod_mult_left_eq)
      finally show ?thesis using True by simp
    next
      case False
      then have "e = 2 * ?e'" by presburger
      then have "nat e = 2 * nat ?e'" using e' by linarith
      then have "b ^ nat e = (b * b) ^ nat ?e'"
        by (simp add: power_mult power2_eq_square)
      with False show ?thesis by simp
    qed
    finally show ?thesis .
  qed
qed

lemma modPow_correct:
  assumes "1 < m" and "0 \<le> e"
  shows "modPow b e m = Inr (b ^ nat e mod m)"
proof -
  have "modPow_loop (b mod m) e m 1 = (1 * (b mod m) ^ nat e) mod m"
    using assms by (intro modPow_loop_correct) simp_all
  then show ?thesis using assms by (simp add: modPow_def mod_js_pos power_mod)
qed

lemma CURVE_p_mod_4: "CURVE_p mod 4 = 3"
proof -
  have "CURVE_p = 4 * 28948022309329048855892746252171976963317496166410141009864396001977208667915 + 3"
    by (simp add: CURVE_p_def)
  then show ?thesis by presburger
qed

lemma CURVE_p_odd: "odd CURVE_p"
  using CURVE_p_mod_4 by presburger

lemma sqrt_power:
  assumes p: "is_prime p" and p4: "p mod 4 = 3" and y: "0 \<le> y" "y < p"
  defines "r \<equiv> ((y * y) mod p) ^ nat ((p + 1) div 4) mod p"
  shows "r = y \<or> (y \<noteq> 0 \<and> r = p - y)"
proof -
  from p have p1: "1 < p" by (simp add: is_prime_def)
  let ?k = "nat ((p + 1) div 4)"
  have k: "2 * ?k = Suc (Suc (nat (p - 1))) div 2 \<and> 2 * (2 * ?k) = Suc (Suc (nat (p - 1)))"
  proof -
    from p4 obtain j where j: "p = 4 * j + 3" by (metis mult_div_mod_eq)
    with p1 have "0 \<le> j" by linarith
    then show ?thesis using j by (simp add: nat_add_distrib nat_mult_distrib)
  qed
  have r: "0 \<le> r" "r < p" using p1 by (simp_all add: r_def)
  have rr: "(r * r) mod p = (y * y) mod p"
  proof (cases "y = 0")
    case True
    have "0 < ?k" using k by linarith
    then have "r = 0" using True by (simp add: r_def zero_power)
    with True show ?thesis by simp
  next
    case False
    with y have "\<not> p dvd y" by (auto dest: zdvd_imp_le)
    with p have f: "y ^ nat (p - 1) mod p = 1" by (rule fermat_little)
    have "(r * r) mod p = (((y * y) ^ ?k) * ((y * y) ^ ?k)) mod p"
      unfolding r_def by (metis mod_mult_eq power_mod)
    also have "((y * y) ^ ?k) * ((y * y) ^ ?k) = y ^ (2 * (2 * ?k))"
    proof -
      have "(y * y) ^ ?k = y ^ (2 * ?k)"
        by (simp only: power2_eq_square [symmetric] power_mult)
      then have "((y * y) ^ ?k) * ((y * y) ^ ?k) = y ^ (2 * ?k + 2 * ?k)"
        by (simp only: power_add)
      then show ?thesis by (simp only: mult_2)
    qed
    also have "\<dots> = y ^ nat (p - 1) * (y * y)"
    proof -
      from k have "2 * (2 * ?k) = Suc (Suc (nat (p - 1)))" by simp
      then show ?thesis by (simp only: power_Suc2 mult.assoc)
    qed
    also have "\<dots> mod p = ((y ^ nat (p - 1) mod p) * (y * y)) mod p"
      by (simp add: mod_mult_left_eq)
    also have "\<dots> = (y * y) mod p" using f by simp
    finally show ?thesis .
  qed
  then have "p dvd r * r - y * y" by (simp add: mod_eq_dvd_iff)
  moreover have "r * r - y * y = (r - y) * (r + y)" by (simp add: algebra_simps)
  ultimately have "p dvd r - y \<or> p dvd r + y"
    using is_prime_dvd_mult [OF p, of "r - y" "r + y"] by simp
  then show ?thesis
  proof
    assume "p dvd r - y"
    then obtain j where j: "r - y = p * j" ..
    with r y have "p * (- 1) < p * j" "p * j < p * 1" by linarith+
    with p1 have "- 1 < j" "j < 1" by (simp_all only: mult_less_cancel_left_pos)
    then have "j = 0" by simp
    with j show ?thesis by simp
  next
    assume "p dvd r + y"
    then obtain j where j: "r + y = p * j" ..
    with r y have "p * (- 1) < p * j" "p * j < p * 2" by linarith+
    with p1 have "- 1 < j" "j < 2" by (simp_all only: mult_less_cancel_left_pos)
    then have "j = 0 \<or> j = 1" by linarith
    with j r y show ?thesis by auto
  qed
qed

lemma hex_digit_not_space: "0 \<le> a \<Longrightarrow> a < 16 \<Longrightarrow> \<not> is_space (hex_digit a)"
  using hex_digit_plain by blast

lemma hex_number_snoc: "hex_number (s @ [c]) = 16 * hex_number s + int (the (hex_value c))"
  by (simp add: hex_number_def)

lemma toString16_props:
  "0 \<le> x \<Longrightarrow> hex_number (toString16 x) = x \<and> list_all is_hex (toString16 x)
     \<and> toString16 x \<noteq> [] \<and> \<not> is_space (last (toString16 x))"
proof (induction x rule: toString16.induct)
  case (1 n)
  show ?case
  proof (cases "n < 16")
    case True
    with "1.prems" show ?thesis
      by (subst (1 2 3 4) toString16.simps)
         (simp add: hex_number_def hex_value_hex_digit is_hex_def hex_digit_not_space)
  next
    case False
    with "1.prems" have d: "0 \<le> n div 16" "0 \<le> n mod 16" "n mod 16 < 16" by simp_all
    from "1.IH" [OF False d(1)] have IH:
      "hex_number (toString16 (n div 16)) = n div 16" "list_all is_hex (toString16 (n div 16))"
      by simp_all
    have s: "toString16 n = toString16 (n div 16) @ [hex_digit (n mod 16)]"
      using False by (subst toString16.simps) simp
    have "is_hex (hex_digit (n mod 16))"
      using d by (simp add: is_hex_def hex_value_hex_digit)
    then show ?thesis
      using IH d by (simp add: s hex_number_snoc hex_value_hex_digit hex_digit_not_space)
  qed
qed

lemma hex_number_zeros: "hex_number (replicate k CHR ''0'' @ s) = hex_number s"
proof -
  have "foldl (\<lambda>acc c. 16 * acc + int (the (hex_value c))) 0 (replicate k CHR ''0'') = 0"
    by (induction k) (simp_all add: hex_value_def)
  then show ?thesis by (simp add: hex_number_def)
qed

lemma BigInt_0x_padStart:
  assumes "0 \<le> x"
  shows "BigInt_0x (padStart n CHR ''0'' (toString16 x)) = Inr x"
proof -
  let ?s = "padStart n CHR ''0'' (toString16 x)"
  from toString16_props [OF assms] have t:
    "hex_number (toString16 x) = x" "list_all is_hex (toString16 x)"
    "toString16 x \<noteq> []" "\<not> is_space (last (toString16 x))"
    by simp_all
  have z: "is_hex CHR ''0''" by (simp add: is_hex_def hex_value_def)
  have ne: "?s \<noteq> []" using t(3) by (simp add: padStart_def)
  have "last ?s = last (toString16 x)" using t(3) by (simp add: padStart_def)
  with t(4) ne have "dropWhile is_space (rev ?s) = rev ?s"
    by (cases "rev ?s") (auto simp: hd_rev dest: arg_cong [where f = hd])
  moreover have "list_all is_hex ?s" using t(2) z by (auto simp: padStart_def list_all_iff)
  moreover have "hex_number ?s = x" using t(1) by (simp add: padStart_def hex_number_zeros)
  ultimately show ?thesis using ne by (simp add: BigInt_0x_def Let_def)
qed

lemma bigint_rem_2: "bigint_rem y 2 = 0 \<longleftrightarrow> even y"
  by (auto simp: bigint_rem_def sgn_if)

lemma decompressPublicKey_unfold:
  assumes "s \<noteq> ''00''" and "take 2 s = pre" and "BigInt_0x (drop 2 s) = Inr x"
    and "modPow (mod_js (x * x * x + CURVE_a * x + CURVE_b) CURVE_p)
           (bigint_div (CURVE_p + 1) 4) CURVE_p = Inr r"
  shows "decompressPublicKey s
      = Inr (Point x (if (pre = ''02'' \<and> \<not> bigint_rem r 2 = 0) \<or> (pre = ''03'' \<and> bigint_rem r 2 = 0)
                      then mod_js (- r) CURVE_p else r))"
  using assms by (simp add: decompressPublicKey_def Let_def)

text \<open>
  Claim C7. For every point \<open>(x, y)\<close> on the curve with both coordinates in \<open>[0, p)\<close>,
  \<open>decompressPublicKey(compressPublicKey(P))\<close> is \<open>P\<close> again: the 64 hexadecimal digits
  read back as \<open>x\<close>, and \<open>(y\<^sup>2) ^ ((p + 1) / 4)\<close> is \<open>y\<close> or \<open>p - y\<close>, of which the parity
  byte picks \<open>y\<close>.
\<close>

theorem decompress_compress:
  assumes on: "isOnCurve (Point x y)"
    and x: "0 \<le> x" "x < CURVE_p" and y: "0 \<le> y" "y < CURVE_p"
  shows "decompressPublicKey (compressPublicKey (Point x y)) = Inr (Point x y)"
proof -
  let ?p = CURVE_p
  have p1: "1 < ?p" by (rule CURVE_p_gt_1)
  then have p0: "0 < ?p" by simp
  define prefix where "prefix = (if even y then ''02'' else ''03'')"
  define digits where "digits = padStart 64 CHR ''0'' (toString16 x)"
  have c: "compressPublicKey (Point x y) = prefix @ digits"
    using x by (simp add: compressPublicKey_def prefix_def digits_def bigint_rem_2 bigint_toString16_def)
  have len: "length prefix = 2" by (simp add: prefix_def)
  have "digits \<noteq> []" using toString16_props [OF x(1)] by (simp add: digits_def padStart_def)
  then have "length (prefix @ digits) \<noteq> 2" using len by simp
  then have ne: "prefix @ digits \<noteq> ''00''"
    by (auto dest: arg_cong [where f = length])
  have td: "take 2 (prefix @ digits) = prefix" "drop 2 (prefix @ digits) = digits"
    using len by simp_all
  have big: "BigInt_0x digits = Inr x"
    unfolding digits_def by (rule BigInt_0x_padStart [OF x(1)])
  define ySquared where "ySquared = mod_js (x * x * x + CURVE_a * x + CURVE_b) ?p"
  from on have ys: "ySquared = (y * y) mod ?p"
    by (simp add: isOnCurve_def ySquared_def mod_js_pos [OF p0])
  define r where "r = ((y * y) mod ?p) ^ nat ((?p + 1) div 4) mod ?p"
  have e: "bigint_div (?p + 1) 4 = (?p + 1) div 4" "0 \<le> (?p + 1) div 4"
    using p0 by (simp_all add: bigint_div_nonneg)
  have mp: "modPow ySquared (bigint_div (?p + 1) 4) ?p = Inr r"
    unfolding e(1) ys r_def by (rule modPow_correct [OF p1 e(2)])
  have r: "r = y \<or> (y \<noteq> 0 \<and> r = ?p - y)"
    unfolding r_def by (rule sqrt_power [OF CURVE_p_prime CURVE_p_mod_4 y])
  have flip: "(if (prefix = ''02'' \<and> \<not> bigint_rem r 2 = 0) \<or> (prefix = ''03'' \<and> bigint_rem r 2 = 0)
              then mod_js (- r) ?p else r) = y"
  proof (cases "r = y")
    case True
    then show ?thesis by (simp add: prefix_def bigint_rem_2)
  next
    case False
    with r have ry: "r = ?p - y" "y \<noteq> 0" by simp_all
    then have "even r \<longleftrightarrow> odd y" using CURVE_p_odd by simp
    moreover have "mod_js (- r) ?p = y"
      using ry y by (simp add: mod_js_pos [OF p0] mod_pos_pos_trivial)
    ultimately show ?thesis by (simp add: prefix_def bigint_rem_2)
  qed
  have "decompressPublicKey (prefix @ digits)
      = Inr (Point x (if (prefix = ''02'' \<and> \<not> bigint_rem r 2 = 0) \<or> (prefix = ''03'' \<and> bigint_rem r 2 = 0)
              then mod_js (- r) ?p else r))"
    using ne td(1) _ mp [unfolded ySquared_def]
    by (rule decompressPublicKey_unfold) (simp only: td(2) big)
  with flip c show ?thesis by simp
qed

text \<open>The generator is such a point.\<close>

lemma generator_on_curve: "isOnCurve getGenerator"
  by code_simp

theorem decompress_compress_witness:
  "isOnCurve (Point CURVE_Gx CURVE_Gy)
     \<and> decompressPublicKey (compressPublicKey (Point CURVE_Gx CURVE_Gy))
         = Inr (Point CURVE_Gx CURVE_Gy)"
proof -
  have on: "isOnCurve (Point CURVE_Gx CURVE_Gy)"
    using generator_on_curve by (simp add: getGenerator_def)
  have "0 \<le> CURVE_Gx" "CURVE_Gx < CURVE_p" "0 \<le> CURVE_Gy" "CURVE_Gy < CURVE_p"
    by (simp_all add: CURVE_Gx_def CURVE_Gy_def CURVE_p_def)
  from decompress_compress [OF on this] on show ?thesis by simp
qed

end
